theory Spec2Isabelle
  imports Main "HOL-Library.Word" "HOL-Library.AList" "HOL-Library.Sublist"
begin

section \<open>Strings\<close>

text \<open>
  A JavaScript string is a sequence of 16-bit code units; \<open>length\<close> counts code units and
  a regular expression without the \<open>u\<close> flag works on code units. String literals of the
  script are ASCII and are written \<open>js ''...''\<close>.
\<close>

type_synonym code_unit = "16 word"
type_synonym jsstring = "code_unit list"

definition js :: "string \<Rightarrow> jsstring" where
  "js s = map of_char s"

text \<open>
  The class \<open>\s\<close> of a regular expression and the characters removed by
  \<open>String.prototype.trim\<close> are the same set: WhiteSpace and LineTerminator of ECMAScript.
\<close>

definition isWhiteSpace :: "code_unit \<Rightarrow> bool" where
  "isWhiteSpace c =
     (c = 0x0009 \<or> c = 0x000A \<or> c = 0x000B \<or> c = 0x000C \<or> c = 0x000D \<or> c = 0x0020 \<or>
      c = 0x00A0 \<or> c = 0x1680 \<or> (0x2000 \<le> c \<and> c \<le> 0x200A) \<or> c = 0x2028 \<or>
      c = 0x2029 \<or> c = 0x202F \<or> c = 0x205F \<or> c = 0x3000 \<or> c = 0xFEFF)"

definition trim :: "jsstring \<Rightarrow> jsstring" where
  "trim s = rev (dropWhile isWhiteSpace (rev (dropWhile isWhiteSpace s)))"

section \<open>Regular expressions\<close>

text \<open>
  The fragment of regular expressions the script uses: a character class, \<open>r+\<close> and
  concatenation. \<open>matchRe r s\<close> says that \<open>r\<close> matches the whole of \<open>s\<close>, which is what
  \<open>/^r$/.test(s)\<close> computes.
\<close>

datatype regex =
    Class "code_unit \<Rightarrow> bool"
  | Plus regex
  | Seq regex regex

function matchRe :: "regex \<Rightarrow> jsstring \<Rightarrow> bool" where
  "matchRe (Class p) s = (case s of [c] \<Rightarrow> p c | _ \<Rightarrow> False)"
| "matchRe (Plus r) s =
     (matchRe r s \<or>
      list_ex (\<lambda>k. matchRe r (take k s) \<and> matchRe (Plus r) (drop k s)) [1..<length s])"
| "matchRe (Seq r1 r2) s =
     list_ex (\<lambda>k. matchRe r1 (take k s) \<and> matchRe r2 (drop k s)) [0..<Suc (length s)]"
  by pat_completeness auto
termination
  by (relation "measures [\<lambda>(r, s). size r, \<lambda>(r, s). length s]") auto

declare matchRe.simps [simp del]

section \<open>Validator\<close>

text \<open>\<open>[^\s@]\<close>\<close>

definition notSpaceAt :: "code_unit \<Rightarrow> bool" where
  "notSpaceAt c = (\<not> isWhiteSpace c \<and> c \<noteq> 0x0040)"

text \<open>\<open>/^[^\s@]+@[^\s@]+\.[^\s@]+$/\<close>\<close>

definition emailRe :: regex where
  "emailRe =
     Seq (Plus (Class notSpaceAt))
       (Seq (Class (\<lambda>c. c = 0x0040))
         (Seq (Plus (Class notSpaceAt))
           (Seq (Class (\<lambda>c. c = 0x002E))
             (Plus (Class notSpaceAt)))))"

definition validateEmail :: "jsstring \<Rightarrow> bool" where
  "validateEmail email = matchRe emailRe email"

datatype js_error = TypeError | SyntaxError

text \<open>
  \<open>formData\<close> is an object literal whose own properties are strings: a map from the names
  of its own properties to their values. A name that is not an own property is looked up
  in \<open>Object.prototype\<close>. \<open>errors\<close> is an empty object literal filled by assignment: the
  association list of its own properties, in the order of their creation (\<open>Object.keys\<close>
  lists names that are array indices first; the script uses the number of the names and
  the message of each name, not their order).
\<close>

type_synonym formData = "jsstring \<rightharpoonup> jsstring"
type_synonym errors = "(jsstring \<times> jsstring) list"

record validation =
  isValid :: bool
  errors :: errors

text \<open>The names of the properties of \<open>Object.prototype\<close> in a browser.\<close>

definition objectPrototype :: "jsstring list" where
  "objectPrototype =
     [js ''constructor'', js ''__defineGetter__'', js ''__defineSetter__'',
      js ''hasOwnProperty'', js ''__lookupGetter__'', js ''__lookupSetter__'',
      js ''isPrototypeOf'', js ''propertyIsEnumerable'', js ''toString'', js ''valueOf'',
      js ''__proto__'', js ''toLocaleString'']"

text \<open>
  The value of \<open>formData[field]\<close>. An inherited value is a function or, for \<open>__proto__\<close>,
  the prototype itself: it is truthy and has no method \<open>trim\<close>.
\<close>

datatype property = Undefined | Str jsstring | Inherited

definition getProperty :: "formData \<Rightarrow> jsstring \<Rightarrow> property" where
  "getProperty formData field =
     (case formData field of
        Some v \<Rightarrow> Str v
      | None \<Rightarrow> if field \<in> set objectPrototype then Inherited else Undefined)"

text \<open>
  \<open>errors[field] = message\<close>. For \<open>__proto__\<close> the assignment calls the setter inherited
  from \<open>Object.prototype\<close>, which ignores a string and creates no property.
\<close>

definition setProperty :: "jsstring \<Rightarrow> jsstring \<Rightarrow> errors \<Rightarrow> errors" where
  "setProperty field message errs =
     (if field = js ''__proto__'' then errs else AList.update field message errs)"

text \<open>
  The body of the \<open>forEach\<close> of \<open>validateForm\<close>, for one field. On an inherited value the
  call \<open>formData[field].trim()\<close> is a \<open>TypeError\<close>.
\<close>

definition checkField :: "formData \<Rightarrow> errors \<Rightarrow> jsstring \<Rightarrow> js_error + errors" where
  "checkField formData errs field =
     (case getProperty formData field of
        Inherited \<Rightarrow> Inl TypeError
      | Undefined \<Rightarrow> Inr (setProperty field (field @ js '' is required'') errs)
      | Str v \<Rightarrow>
          (let errs1 =
                 (if v = [] \<or> trim v = []
                  then setProperty field (field @ js '' is required'') errs
                  else errs);
               errs2 =
                 (if field = js ''email'' \<and> v \<noteq> [] then
                    (if \<not> validateEmail v
                     then setProperty field (js ''Please enter a valid email address'') errs1
                     else errs1)
                  else errs1);
               errs3 =
                 (if field = js ''password'' \<and> v \<noteq> [] then
                    (if length v < 8
                     then setProperty field (js ''Password must be at least 8 characters'') errs2
                     else errs2)
                  else errs2)
           in Inr errs3))"

text \<open>\<open>requiredFields.forEach\<close>: an exception in the body ends the loop.\<close>

fun forEachField :: "formData \<Rightarrow> errors \<Rightarrow> jsstring list \<Rightarrow> js_error + errors" where
  "forEachField formData errs [] = Inr errs"
| "forEachField formData errs (field # remaining) =
     (case checkField formData errs field of
        Inl e \<Rightarrow> Inl e
      | Inr errs1 \<Rightarrow> forEachField formData errs1 remaining)"

definition validateForm :: "formData \<Rightarrow> jsstring list \<Rightarrow> js_error + validation" where
  "validateForm formData requiredFields =
     (case forEachField formData [] requiredFields of
        Inl e \<Rightarrow> Inl e
      | Inr errs \<Rightarrow> Inr \<lparr>isValid = (length (map fst errs) = 0), errors = errs\<rparr>)"

text \<open>
  The shape \<open>local@domain.tld\<close> of the specification: three parts that are not empty and
  hold neither white space nor \<open>@\<close>, the first two followed by \<open>@\<close> and by a dot.
\<close>

definition emailShape :: "jsstring \<Rightarrow> bool" where
  "emailShape s \<longleftrightarrow>
     (\<exists>local domain tld.
        s = local @ [0x0040] @ domain @ [0x002E] @ tld \<and>
        local \<noteq> [] \<and> domain \<noteq> [] \<and> tld \<noteq> [] \<and>
        (\<forall>c\<in>set (local @ domain @ tld). \<not> isWhiteSpace c \<and> c \<noteq> 0x0040))"

text \<open>
  What the loop computes when no required name is inherited: no exception, and every
  assignment creates or overwrites an own property of \<open>errors\<close>.
\<close>

definition checkOwn :: "formData \<Rightarrow> errors \<Rightarrow> jsstring \<Rightarrow> errors" where
  "checkOwn formData errs field =
     (let errs1 =
            (case formData field of
               None \<Rightarrow> AList.update field (field @ js '' is required'') errs
             | Some v \<Rightarrow>
                 if v = [] \<or> trim v = []
                 then AList.update field (field @ js '' is required'') errs
                 else errs);
          errs2 =
            (if field = js ''email'' then
               (case formData field of
                  None \<Rightarrow> errs1
                | Some v \<Rightarrow>
                    if v \<noteq> [] \<and> \<not> validateEmail v
                    then AList.update field (js ''Please enter a valid email address'') errs1
                    else errs1)
             else errs1);
          errs3 =
            (if field = js ''password'' then
               (case formData field of
                  None \<Rightarrow> errs2
                | Some v \<Rightarrow>
                    if v \<noteq> [] \<and> length v < 8
                    then AList.update field (js ''Password must be at least 8 characters'') errs2
                    else errs2)
             else errs2)
      in errs3)"

definition validateOwn :: "formData \<Rightarrow> jsstring list \<Rightarrow> validation" where
  "validateOwn formData requiredFields =
     (let errs = foldl (checkOwn formData) [] requiredFields
      in \<lparr>isValid = (length (map fst errs) = 0), errors = errs\<rparr>)"

text \<open>
  What the body of the loop leaves in \<open>errors\<close> for a field: the later assignments
  overwrite the earlier one.
\<close>

definition fieldMessage :: "formData \<Rightarrow> jsstring \<Rightarrow> jsstring option" where
  "fieldMessage M f =
     (if f = js ''password'' \<and> (\<exists>v. M f = Some v \<and> v \<noteq> [] \<and> length v < 8)
      then Some (js ''Password must be at least 8 characters'')
      else if f = js ''email'' \<and> (\<exists>v. M f = Some v \<and> v \<noteq> [] \<and> \<not> validateEmail v)
      then Some (js ''Please enter a valid email address'')
      else if (\<forall>v. M f = Some v \<longrightarrow> trim v = [])
      then Some (f @ js '' is required'')
      else None)"

section \<open>Data model\<close>

text \<open>
  A property read from a control with \<open>.value\<close> and no \<open>.trim()\<close> may be
  \<open>undefined\<close> (an element that has no \<open>value\<close>); such fields are options, with
  \<open>None\<close> for \<open>undefined\<close>. Ids are the numbers the script stores: small integers in
  the sample data, \<open>Date.now()\<close> for created records.
\<close>

record user =
  u_name :: jsstring
  u_email :: jsstring
  u_type :: "jsstring option"

record announcement =
  a_id :: int
  a_title :: jsstring
  a_content :: jsstring
  a_priority :: "jsstring option"
  a_date :: jsstring
  a_author :: jsstring

record event =
  e_id :: int
  e_title :: jsstring
  e_description :: jsstring
  e_date :: "jsstring option"
  e_time :: "jsstring option"
  e_location :: jsstring
  e_organizer :: jsstring

record schedule =
  s_id :: int
  s_course :: jsstring
  s_date :: "jsstring option"
  s_time :: "jsstring option"
  s_room :: jsstring
  s_instructor :: jsstring

record portal_user =
  pu_id :: int
  pu_name :: jsstring
  pu_email :: jsstring
  pu_type :: "jsstring option"

record profile =
  p_id :: jsstring
  p_program :: "jsstring option"
  p_department :: "jsstring option"
  p_phone :: jsstring
  p_address :: jsstring
  p_email :: jsstring

record appState =
  isLoading :: bool
  lastActivity :: int
  sessionTimeout :: int
  currentSection :: jsstring

record database =
  announcements :: "announcement list"
  events :: "event list"
  schedules :: "schedule list"
  users :: "portal_user list"

section \<open>The document\<close>

text \<open>
  The page's markup is not part of the script; the document is a parameter of the model.
  Markup the script writes with \<open>innerHTML\<close> is kept as a tree, one node for each tag
  of the template in the source, without the white space between tags. Interpolated values
  are taken to contain no markup of their own.
\<close>

datatype html =
    Txt jsstring
  | Tag jsstring "(jsstring \<times> jsstring) list" "html list"

text \<open>
  An element: whether it is a \<open>section\<close> or a \<open>form\<close>, its class list, its attributes,
  its child nodes, its \<open>value\<close> when it is a form control (\<open>None\<close>: the property is
  \<open>undefined\<close>), the default value that \<open>reset()\<close> restores, and the id of the form
  that contains it.
\<close>

record element =
  el_section :: bool
  el_isForm :: bool
  el_classes :: "jsstring list"
  el_attrs :: "(jsstring \<times> jsstring) list"
  el_children :: "html list"
  el_value :: "jsstring option"
  el_default :: jsstring
  el_form :: "jsstring option"

text \<open>
  A link of \<open>nav\<close>, a submit button and a tab of the admin dashboard are reached by
  selectors only. \<open>tab_lower\<close> is the tab's text in lower case, which the script never
  changes.
\<close>

record submit_button =
  sb_classes :: "jsstring list"
  sb_disabled :: bool

record admin_tab =
  tab_lower :: jsstring
  tab_classes :: "jsstring list"

datatype nav_query = QuerySyntaxError | QueryNone | QueryLink nat

datatype elref = ById jsstring | Anonymous nat

text \<open>
  What a timer runs when it fires: each constructor is one of the arrow functions the
  script passes to \<open>setTimeout\<close>, with the values its closure holds.
\<close>

datatype task =
    HideNotification elref
  | LoginComplete jsstring "jsstring option"
  | RegisterComplete jsstring jsstring "jsstring option"
  | GoDashboard

text \<open>
  The state: the script's globals, and the document. \<open>elems\<close> is
  \<open>document.getElementById\<close>; \<open>anon\<close> holds the elements found by class selector
  (\<open>.notification-area\<close>, \<open>.mobile-menu\<close>) in document order, which are taken to lie
  outside \<open>elems\<close>; \<open>navQuery sectionId\<close> is the result of
  \<open>document.querySelector('nav a[onclick*="sectionId"]')\<close>, a link by its position among
  \<open>nav a\<close>, and \<open>navClasses\<close> are the class lists of those links.
\<close>

record state =
  currentUser :: "user option"
  appState :: appState
  database :: database
  userProfileData :: "jsstring \<rightharpoonup> profile"
  elems :: "jsstring \<rightharpoonup> element"
  anon :: "element list"
  navClasses :: "jsstring list list"
  navQuery :: "jsstring \<Rightarrow> nav_query"
  submitButtons :: "submit_button list"
  adminTabs :: "admin_tab list"
  timers :: "(nat \<times> task) list"

text \<open>
  What the browser provides to one run of a handler: the clock, the offset of local time
  from UTC in milliseconds at the clock's reading, the offset in force at a given local
  time (the two differ on a day when the offset changes), \<open>Date.parse\<close> on strings that
  are not a calendar date \<open>YYYY-MM-DD\<close>, \<open>String.prototype.toUpperCase\<close>, and the two
  formats of \<open>toLocaleDateString\<close> the script asks for (\<open>None\<close>: an invalid date).
\<close>

record env =
  now :: int
  tzOffset :: int
  tzOffsetLocal :: "int \<Rightarrow> int"
  parseOther :: "jsstring \<Rightarrow> int option"
  toUpperCase :: "jsstring \<Rightarrow> jsstring"
  localeDate :: "int \<Rightarrow> jsstring"
  localeDateLong :: "int option \<Rightarrow> jsstring"

text \<open>
  A handler ends normally or by an exception; an exception does not undo what the handler
  did before it.
\<close>

datatype outcome = Normal state | Thrown js_error state

definition stateOf :: "outcome \<Rightarrow> state" where
  "stateOf r = (case r of Normal s \<Rightarrow> s | Thrown e s \<Rightarrow> s)"

definition andThen :: "outcome \<Rightarrow> (state \<Rightarrow> outcome) \<Rightarrow> outcome" where
  "andThen r f = (case r of Normal s \<Rightarrow> f s | Thrown e s \<Rightarrow> Thrown e s)"

text \<open>\<open>document.getElementById(i).p = ...\<close>: a \<open>TypeError\<close> when there is no such element.\<close>

definition withElement :: "jsstring \<Rightarrow> (element \<Rightarrow> element) \<Rightarrow> state \<Rightarrow> outcome" where
  "withElement i f st =
     (case elems st i of
        None \<Rightarrow> Thrown TypeError st
      | Some e \<Rightarrow> Normal (st\<lparr>elems := (elems st)(i \<mapsto> f e)\<rparr>))"

text \<open>\<open>querySelectorAll(...).forEach\<close> over the elements that satisfy \<open>p\<close>.\<close>

definition forEachElement :: "(element \<Rightarrow> bool) \<Rightarrow> (element \<Rightarrow> element) \<Rightarrow> state \<Rightarrow> state" where
  "forEachElement p f st =
     st\<lparr>elems := (\<lambda>i. case elems st i of
                          None \<Rightarrow> None
                        | Some e \<Rightarrow> Some (if p e then f e else e))\<rparr>"

definition hasClass :: "jsstring \<Rightarrow> element \<Rightarrow> bool" where
  "hasClass c e = (c \<in> set (el_classes e))"

definition classAdd :: "jsstring \<Rightarrow> element \<Rightarrow> element" where
  "classAdd c e = e\<lparr>el_classes := List.insert c (el_classes e)\<rparr>"

definition classRemove :: "jsstring \<Rightarrow> element \<Rightarrow> element" where
  "classRemove c e = e\<lparr>el_classes := removeAll c (el_classes e)\<rparr>"

definition setTextContent :: "jsstring \<Rightarrow> element \<Rightarrow> element" where
  "setTextContent t e = e\<lparr>el_children := (if t = [] then [] else [Txt t])\<rparr>"

definition setInnerHTML :: "html list \<Rightarrow> element \<Rightarrow> element" where
  "setInnerHTML h e = e\<lparr>el_children := h\<rparr>"

fun firstIndex :: "('a \<Rightarrow> bool) \<Rightarrow> 'a list \<Rightarrow> nat option" where
  "firstIndex p [] = None"
| "firstIndex p (x # xs) = (if p x then Some 0 else map_option Suc (firstIndex p xs))"

section \<open>Utility functions\<close>

definition interp :: "jsstring option \<Rightarrow> jsstring" where
  "interp v = (case v of None \<Rightarrow> js ''undefined'' | Some s \<Rightarrow> s)"

definition digit :: "nat \<Rightarrow> code_unit" where
  "digit n = of_nat (48 + n)"

fun showNat :: "nat \<Rightarrow> jsstring" where
  "showNat n = (if n < 10 then [digit n] else showNat (n div 10) @ [digit (n mod 10)])"

declare showNat.simps [simp del]

definition showInt :: "int \<Rightarrow> jsstring" where
  "showInt n = (if n < 0 then js ''-'' @ showNat (nat (- n)) else showNat (nat n))"

text \<open>\<open>s.split(' ')\<close>\<close>

fun splitSpace :: "jsstring \<Rightarrow> jsstring list" where
  "splitSpace [] = [[]]"
| "splitSpace (c # s) =
     (if c = 0x0020 then [] # splitSpace s
      else (case splitSpace s of [] \<Rightarrow> [[c]] | w # ws \<Rightarrow> (c # w) # ws))"

text \<open>\<open>s.includes(t)\<close>\<close>

definition stringIncludes :: "jsstring \<Rightarrow> jsstring \<Rightarrow> bool" where
  "stringIncludes s t = list_ex (\<lambda>k. take (length t) (drop k s) = t) [0..<Suc (length s)]"

text \<open>
  \<open>name.split(' ').map(n => n[0]).join('').toUpperCase()\<close>: \<open>n[0]\<close> of an empty part is
  \<open>undefined\<close>, which \<open>join\<close> writes as the empty string.
\<close>

definition generateAvatar :: "env \<Rightarrow> jsstring \<Rightarrow> jsstring" where
  "generateAvatar ev name = toUpperCase ev (concat (map (take 1) (splitSpace name)))"

subsection \<open>Dates\<close>

text \<open>
  \<open>new Date(s)\<close> for a string \<open>s\<close>: a calendar date \<open>YYYY-MM-DD\<close> is midnight UTC of
  that day (ECMAScript's date-only form); every other string is left to the browser. The
  result is in milliseconds since the epoch, \<open>None\<close> for an invalid date.
\<close>

definition isDigit :: "code_unit \<Rightarrow> bool" where
  "isDigit c = (0x0030 \<le> c \<and> c \<le> 0x0039)"

definition digitVal :: "code_unit \<Rightarrow> int" where
  "digitVal c = uint c - 48"

definition isLeapYear :: "int \<Rightarrow> bool" where
  "isLeapYear y = (y mod 4 = 0 \<and> (y mod 100 \<noteq> 0 \<or> y mod 400 = 0))"

definition daysInMonth :: "int \<Rightarrow> int \<Rightarrow> int" where
  "daysInMonth y m =
     (if m = 2 then (if isLeapYear y then 29 else 28)
      else if m = 4 \<or> m = 6 \<or> m = 9 \<or> m = 11 then 30 else 31)"

text \<open>The number of the day \<open>y-m-d\<close>, counted from 1970-01-01.\<close>

definition daysFromCivil :: "int \<Rightarrow> int \<Rightarrow> int \<Rightarrow> int" where
  "daysFromCivil y m d =
     (let y' = (if m \<le> 2 then y - 1 else y);
          era = y' div 400;
          yoe = y' - era * 400;
          doy = (153 * (if m > 2 then m - 3 else m + 9) + 2) div 5 + d - 1;
          doe = yoe * 365 + yoe div 4 - yoe div 100 + doy
      in era * 146097 + doe - 719468)"

definition msPerDay :: int where
  "msPerDay = 86400000"

fun isoDate :: "jsstring \<Rightarrow> int option" where
  "isoDate [y1, y2, y3, y4, h1, m1, m2, h2, d1, d2] =
     (if list_all isDigit [y1, y2, y3, y4, m1, m2, d1, d2] \<and> h1 = 0x002D \<and> h2 = 0x002D then
        (let y = 1000 * digitVal y1 + 100 * digitVal y2 + 10 * digitVal y3 + digitVal y4;
             m = 10 * digitVal m1 + digitVal m2;
             d = 10 * digitVal d1 + digitVal d2
         in if 1 \<le> m \<and> m \<le> 12 \<and> 1 \<le> d \<and> d \<le> daysInMonth y m
            then Some (daysFromCivil y m d)
            else None)
      else None)"
| "isoDate _ = None"

definition newDate :: "env \<Rightarrow> jsstring option \<Rightarrow> int option" where
  "newDate ev s =
     (case s of
        None \<Rightarrow> None
      | Some str \<Rightarrow>
          (case isoDate str of
             Some day \<Rightarrow> Some (day * msPerDay)
           | None \<Rightarrow> parseOther ev str))"

text \<open>
  \<open>today = new Date(); today.setHours(0, 0, 0, 0)\<close>: midnight of the current day in
  local time, as a time value. The day is the day of the clock's reading in local time;
  its midnight is turned into a time value with the offset in force at that midnight.
\<close>

definition localDay :: "env \<Rightarrow> int" where
  "localDay ev = (now ev + tzOffset ev) div msPerDay"

definition localMidnight :: "env \<Rightarrow> int" where
  "localMidnight ev =
     (let midnight = localDay ev * msPerDay in midnight - tzOffsetLocal ev midnight)"

text \<open>\<open>formatDate\<close>\<close>

definition formatDate :: "env \<Rightarrow> jsstring option \<Rightarrow> jsstring" where
  "formatDate ev dateString = localeDateLong ev (newDate ev dateString)"

section \<open>UI functions\<close>

text \<open>
  The element \<open>showNotification\<close> writes to. \<open>type\<close> is a single word at every call
  (\<open>'success'\<close> or \<open>'error'\<close>), so the assignment to \<open>className\<close> leaves two classes.
\<close>

definition notify :: "jsstring \<Rightarrow> jsstring \<Rightarrow> element \<Rightarrow> element" where
  "notify message type e =
     (setTextContent message e)\<lparr>el_classes := [type @ js ''-message'', js ''show'']\<rparr>"

text \<open>\<open>document.createElement('div')\<close>\<close>

definition createElement :: element where
  "createElement =
     \<lparr>el_section = False, el_isForm = False, el_classes = [], el_attrs = [],
      el_children = [], el_value = None, el_default = [], el_form = None\<rparr>"

definition setTimeout :: "task \<Rightarrow> nat \<Rightarrow> state \<Rightarrow> state" where
  "setTimeout t delay st = st\<lparr>timers := timers st @ [(delay, t)]\<rparr>"

text \<open>The branch of \<open>showNotification\<close> without an element id.\<close>

definition notifyArea :: "jsstring \<Rightarrow> jsstring \<Rightarrow> state \<Rightarrow> state" where
  "notifyArea message type st =
     (case firstIndex (hasClass (js ''notification-area'')) (anon st) of
        Some k \<Rightarrow>
          setTimeout (HideNotification (Anonymous k)) 3000
            (st\<lparr>anon := (anon st)[k := notify message type (anon st ! k)]\<rparr>)
      | None \<Rightarrow>
          setTimeout (HideNotification (Anonymous (length (anon st)))) 3000
            (st\<lparr>anon := anon st @
                [notify message type
                   (createElement\<lparr>el_classes := [js ''notification-area'']\<rparr>)]\<rparr>))"

definition showNotification :: "jsstring \<Rightarrow> jsstring \<Rightarrow> jsstring option \<Rightarrow> state \<Rightarrow> state" where
  "showNotification message type elementId st =
     (case elementId of
        None \<Rightarrow> notifyArea message type st
      | Some i \<Rightarrow>
          if i = [] then notifyArea message type st
          else
            (case elems st i of
               None \<Rightarrow> st
             | Some e \<Rightarrow>
                 setTimeout (HideNotification (ById i)) 3000
                   (st\<lparr>elems := (elems st)(i \<mapsto> notify message type e)\<rparr>)))"

text \<open>The timer of \<open>showNotification\<close>: \<open>element.classList.remove('show')\<close>.\<close>

definition hideNotification :: "elref \<Rightarrow> state \<Rightarrow> state" where
  "hideNotification r st =
     (case r of
        ById i \<Rightarrow>
          (case elems st i of
             None \<Rightarrow> st
           | Some e \<Rightarrow> st\<lparr>elems := (elems st)(i \<mapsto> classRemove (js ''show'') e)\<rparr>)
      | Anonymous k \<Rightarrow>
          (if k < length (anon st)
           then st\<lparr>anon := (anon st)[k := classRemove (js ''show'') (anon st ! k)]\<rparr>
           else st))"

definition setLoading :: "bool \<Rightarrow> state \<Rightarrow> state" where
  "setLoading loading st =
     st\<lparr>appState := (appState st)\<lparr>isLoading := loading\<rparr>,
        submitButtons :=
          map (\<lambda>button.
                 if loading
                 then button\<lparr>sb_classes := List.insert (js ''loading'') (sb_classes button),
                             sb_disabled := True\<rparr>
                 else button\<lparr>sb_classes := removeAll (js ''loading'') (sb_classes button),
                             sb_disabled := False\<rparr>)
              (submitButtons st)\<rparr>"

definition clearFormErrors :: "jsstring \<Rightarrow> state \<Rightarrow> state" where
  "clearFormErrors formId st =
     (case elems st formId of
        None \<Rightarrow> st
      | Some form \<Rightarrow>
          forEachElement (\<lambda>el. el_form el = Some formId \<and> hasClass (js ''error-message'') el)
            (\<lambda>el. classAdd (js ''hidden'') (setTextContent [] el)) st)"

definition showFormErrors :: "errors \<Rightarrow> state \<Rightarrow> state" where
  "showFormErrors errs st =
     foldl (\<lambda>s (field, message).
              case elems s (field @ js ''Error'') of
                None \<Rightarrow> s
              | Some errorElement \<Rightarrow>
                  s\<lparr>elems := (elems s)(field @ js ''Error'' \<mapsto>
                       classRemove (js ''hidden'') (setTextContent message errorElement))\<rparr>)
       st errs"

text \<open>\<open>form.reset()\<close>: every control of the form takes its default value again.\<close>

definition resetForm :: "jsstring \<Rightarrow> state \<Rightarrow> state" where
  "resetForm formId st =
     forEachElement (\<lambda>el. el_form el = Some formId \<and> el_value el \<noteq> None)
       (\<lambda>el. el\<lparr>el_value := Some (el_default el)\<rparr>) st"

text \<open>
  \<open>document.getElementById(formId).reset()\<close>: a \<open>TypeError\<close> when the element is
  missing or is not a form.
\<close>

definition resetFormById :: "jsstring \<Rightarrow> state \<Rightarrow> outcome" where
  "resetFormById formId st =
     (case elems st formId of
        None \<Rightarrow> Thrown TypeError st
      | Some form \<Rightarrow>
          if el_isForm form then Normal (resetForm formId st) else Thrown TypeError st)"

definition updateUserActivity :: "env \<Rightarrow> state \<Rightarrow> state" where
  "updateUserActivity ev st = st\<lparr>appState := (appState st)\<lparr>lastActivity := now ev\<rparr>\<rparr>"

definition updateActiveNav :: "jsstring \<Rightarrow> state \<Rightarrow> outcome" where
  "updateActiveNav sectionId st =
     (let st1 = st\<lparr>navClasses := map (removeAll (js ''active'')) (navClasses st)\<rparr>
      in case navQuery st1 sectionId of
           QuerySyntaxError \<Rightarrow> Thrown SyntaxError st1
         | QueryNone \<Rightarrow> Normal st1
         | QueryLink k \<Rightarrow>
             Normal (st1\<lparr>navClasses :=
               (navClasses st1)[k := List.insert (js ''active'') (navClasses st1 ! k)]\<rparr>))"

subsection \<open>Markup written by the script\<close>

text \<open>\<open><button class="c" onclick="h"><i class="icon"></i> label</button>\<close>\<close>

definition button :: "string \<Rightarrow> jsstring \<Rightarrow> string \<Rightarrow> string \<Rightarrow> html" where
  "button c h icon label =
     Tag (js ''button'') [(js ''class'', js c), (js ''onclick'', h)]
       [Tag (js ''i'') [(js ''class'', js icon)] [], Txt (js '' '' @ js label)]"

text \<open>
  \<open><div class="info-group"><label>l</label><input type="t" id="i" class="form-control"
  value="v" required></div>\<close>
\<close>

definition infoInput :: "string \<Rightarrow> string \<Rightarrow> string \<Rightarrow> jsstring \<Rightarrow> html" where
  "infoInput l t i v =
     Tag (js ''div'') [(js ''class'', js ''info-group'')]
       [Tag (js ''label'') [] [Txt (js l)],
        Tag (js ''input'')
          [(js ''type'', js t), (js ''id'', js i), (js ''class'', js ''form-control''),
           (js ''value'', v), (js ''required'', [])] []]"

text \<open>\<open><div class="info-group"><label>l</label><p>v</p></div>\<close>\<close>

definition infoText :: "string \<Rightarrow> jsstring \<Rightarrow> html" where
  "infoText l v =
     Tag (js ''div'') [(js ''class'', js ''info-group'')]
       [Tag (js ''label'') [] [Txt (js l)], Tag (js ''p'') [] [Txt v]]"

definition openAdminTab :: "jsstring \<Rightarrow> state \<Rightarrow> state" where
  "openAdminTab tabName st =
     (let st1 = forEachElement (hasClass (js ''admin-tab-content'')) (classAdd (js ''hidden'')) st;
          st2 = st1\<lparr>adminTabs :=
                  map (\<lambda>tab. tab\<lparr>tab_classes := removeAll (js ''active'') (tab_classes tab)\<rparr>)
                    (adminTabs st1)\<rparr>;
          st3 = (case elems st2 (tabName @ js ''-tab'') of
                   None \<Rightarrow> st2
                 | Some tabContent \<Rightarrow>
                     st2\<lparr>elems := (elems st2)(tabName @ js ''-tab'' \<mapsto>
                           classRemove (js ''hidden'') tabContent)\<rparr>)
      in st3\<lparr>adminTabs :=
             map (\<lambda>tab. if stringIncludes (tab_lower tab) tabName
                        then tab\<lparr>tab_classes := List.insert (js ''active'') (tab_classes tab)\<rparr>
                        else tab)
               (adminTabs st3)\<rparr>)"

definition isAdmin :: "user \<Rightarrow> bool" where
  "isAdmin u = (u_type u = Some (js ''admin''))"

definition updateDashboard :: "state \<Rightarrow> outcome" where
  "updateDashboard st =
     (if (case currentUser st of None \<Rightarrow> False | Some u \<Rightarrow> isAdmin u) then
        andThen (withElement (js ''studentDashboard'') (classAdd (js ''hidden'')) st) (\<lambda>st1.
        andThen (withElement (js ''adminDashboard'') (classRemove (js ''hidden'')) st1) (\<lambda>st2.
        Normal (openAdminTab (js ''announcements'') st2)))
      else
        andThen (withElement (js ''studentDashboard'') (classRemove (js ''hidden'')) st) (\<lambda>st1.
        withElement (js ''adminDashboard'') (classAdd (js ''hidden'')) st1))"

definition updateAuthButtons :: "state \<Rightarrow> outcome" where
  "updateAuthButtons st =
     (if currentUser st \<noteq> None then
        andThen (withElement (js ''authButtons'')
                   (setInnerHTML
                      [button ''btn btn-outline'' (js ''showSection('' @ [0x0027] @ js ''dashboard'' @ [0x0027] @ js '')'')
                         ''fas fa-tachometer-alt'' ''Dashboard'']) st) (\<lambda>st1.
        withElement (js ''heroButtons'') (setInnerHTML []) st1)
      else
        andThen (withElement (js ''authButtons'')
                   (setInnerHTML
                      [button ''btn btn-outline'' (js ''showSection('' @ [0x0027] @ js ''login'' @ [0x0027] @ js '')'')
                         ''fas fa-sign-in-alt'' ''Login'',
                       button ''btn btn-primary'' (js ''showSection('' @ [0x0027] @ js ''register'' @ [0x0027] @ js '')'')
                         ''fas fa-user-plus'' ''Register'']) st) (\<lambda>st1.
        withElement (js ''heroButtons'')
          (setInnerHTML
             [button ''btn btn-primary pulse'' (js ''handleGetStarted()'')
                ''fas fa-user-plus'' ''Get Started'',
              button ''btn btn-outline'' (js ''showSection('' @ [0x0027] @ js ''features'' @ [0x0027] @ js '')'')
                ''fas fa-info-circle'' ''Learn More'']) st1))"

section \<open>Profile management\<close>

text \<open>
  \<open>renderProfile(editMode)\<close>. With a user logged in, the template reads
  \<open>profileData.id\<close>, a \<open>TypeError\<close> when \<open>userProfileData\<close> has no record for the
  user's type, and the assignments to \<open>innerHTML\<close> are \<open>TypeError\<close>s when the two
  containers are missing.
\<close>

definition renderProfile :: "bool \<Rightarrow> state \<Rightarrow> outcome" where
  "renderProfile editMode st =
     (case currentUser st of
        None \<Rightarrow> Normal st
      | Some u \<Rightarrow>
          (case userProfileData st (interp (u_type u)) of
             None \<Rightarrow> Thrown TypeError st
           | Some profileData \<Rightarrow>
               if editMode then
                 andThen
                   (withElement (js ''profileInfoContent'')
                      (setInnerHTML
                         [infoInput ''Full Name'' ''text'' ''editName'' (u_name u),
                          infoInput ''Email'' ''email'' ''editEmail'' (u_email u),
                          infoInput (if isAdmin u then ''Admin ID'' else ''Student ID'') ''text''
                            ''editId'' (p_id profileData),
                          infoInput (if isAdmin u then ''Department'' else ''Program'') ''text''
                            ''editProgram''
                            (interp (if isAdmin u then p_department profileData
                                     else p_program profileData)),
                          infoInput ''Phone'' ''tel'' ''editPhone'' (p_phone profileData),
                          infoInput ''Address'' ''text'' ''editAddress'' (p_address profileData)])
                      st) (\<lambda>st1.
                 withElement (js ''profileActions'')
                   (setInnerHTML
                      [button ''btn btn-success'' (js ''saveProfile()'') ''fas fa-save''
                         ''Save Changes'',
                       button ''btn btn-outline'' (js ''renderProfile(false)'') ''fas fa-times''
                         ''Cancel'']) st1)
               else
                 andThen
                   (withElement (js ''profileInfoContent'')
                      (setInnerHTML
                         [infoText (if isAdmin u then ''Admin ID'' else ''Student ID'')
                            (p_id profileData),
                          infoText (if isAdmin u then ''Department'' else ''Program'')
                            (interp (if isAdmin u then p_department profileData
                                     else p_program profileData)),
                          infoText ''Phone'' (p_phone profileData),
                          infoText ''Address'' (p_address profileData)])
                      st) (\<lambda>st1.
                 withElement (js ''profileActions'')
                   (setInnerHTML
                      [button ''btn btn-primary'' (js ''renderProfile(true)'') ''fas fa-edit''
                         ''Edit Profile'',
                       button ''btn btn-outline''
                         (js ''showSection('' @ [0x0027] @ js ''dashboard'' @ [0x0027] @ js '')'')
                         ''fas fa-arrow-left'' ''Back to Dashboard'']) st1)))"

section \<open>Navigation\<close>

definition onSectionShow :: "jsstring \<Rightarrow> state \<Rightarrow> outcome" where
  "onSectionShow sectionId st =
     (if sectionId = js ''profile'' then
        (if currentUser st \<noteq> None then renderProfile False st else Normal st)
      else if sectionId = js ''dashboard'' then
        (if currentUser st \<noteq> None then updateDashboard st else Normal st)
      else Normal st)"

text \<open>\<open>document.querySelector('.mobile-menu').setAttribute('aria-expanded', 'false')\<close>\<close>

definition closeMobileMenu :: "state \<Rightarrow> outcome" where
  "closeMobileMenu st =
     (case firstIndex (hasClass (js ''mobile-menu'')) (anon st) of
        None \<Rightarrow> Thrown TypeError st
      | Some k \<Rightarrow>
          Normal (st\<lparr>anon := (anon st)[k := (anon st ! k)\<lparr>el_attrs :=
            AList.update (js ''aria-expanded'') (js ''false'') (el_attrs (anon st ! k))\<rparr>]\<rparr>))"

definition showSection :: "env \<Rightarrow> jsstring \<Rightarrow> state \<Rightarrow> outcome" where
  "showSection ev sectionId st =
     (let st1 = st\<lparr>appState := (appState st)\<lparr>currentSection := sectionId\<rparr>\<rparr>;
          st2 = forEachElement el_section (classAdd (js ''hidden'')) st1
      in andThen
           (case elems st2 sectionId of
              None \<Rightarrow> Normal st2
            | Some targetSection \<Rightarrow>
                andThen
                  (updateActiveNav sectionId
                     (st2\<lparr>elems := (elems st2)(sectionId \<mapsto>
                            classRemove (js ''hidden'') targetSection)\<rparr>))
                  (onSectionShow sectionId)) (\<lambda>st3.
         andThen (withElement (js ''main-nav'') (classRemove (js ''active'')) st3) (\<lambda>st4.
         andThen (closeMobileMenu st4) (\<lambda>st5.
         Normal (updateUserActivity ev st5)))))"

section \<open>Data management\<close>

text \<open>
  \<open><div class="content-item"><div class="content-info">info</div><div
  class="content-actions"><button class="btn btn-danger" onclick="h"><i class="fas
  fa-trash"></i> Delete</button></div></div>\<close>
\<close>

definition contentItem :: "html list \<Rightarrow> jsstring \<Rightarrow> html" where
  "contentItem info h =
     Tag (js ''div'') [(js ''class'', js ''content-item'')]
       [Tag (js ''div'') [(js ''class'', js ''content-info'')] info,
        Tag (js ''div'') [(js ''class'', js ''content-actions'')]
          [button ''btn btn-danger'' h ''fas fa-trash'' ''Delete'']]"

text \<open>\<open><div class="empty-state" id="i"><i class="icon"></i><p>t</p></div>\<close>\<close>

definition emptyState :: "string \<Rightarrow> string \<Rightarrow> string \<Rightarrow> html" where
  "emptyState i icon t =
     Tag (js ''div'') [(js ''class'', js ''empty-state''), (js ''id'', js i)]
       [Tag (js ''i'') [(js ''class'', js icon)] [], Tag (js ''p'') [] [Txt (js t)]]"

text \<open>
  The four renderers have one shape: nothing without the list element; else the heading,
  followed by the placeholder when the collection is empty and by one item for each record
  otherwise.
\<close>

definition renderList :: "string \<Rightarrow> string \<Rightarrow> html \<Rightarrow> html list \<Rightarrow> state \<Rightarrow> state" where
  "renderList listId heading placeholder items st =
     (case elems st (js listId) of
        None \<Rightarrow> st
      | Some list \<Rightarrow>
          st\<lparr>elems := (elems st)(js listId \<mapsto>
            setInnerHTML
              (Tag (js ''h4'') [] [Txt (js heading)] #
               (if items = [] then [placeholder] else items)) list)\<rparr>)"

definition renderAnnouncements :: "state \<Rightarrow> state" where
  "renderAnnouncements st =
     renderList ''announcementsList'' ''Posted Announcements''
       (emptyState ''emptyAnnouncements'' ''fas fa-bullhorn''
          ''No announcements posted yet. Create your first announcement above.'')
       (map (\<lambda>announcement.
               contentItem
                 [Tag (js ''h4'') []
                    [Txt (a_title announcement @ js '' ''),
                     Tag (js ''span'')
                       [(js ''class'', js ''priority-badge''),
                        (js ''data-priority'', interp (a_priority announcement))]
                       [Txt (interp (a_priority announcement))]],
                  Tag (js ''p'') [] [Txt (a_content announcement)],
                  Tag (js ''small'') []
                    [Txt (js ''Posted: '' @ a_date announcement @ js '' | Author: '' @
                          a_author announcement)]]
                 (js ''deleteAnnouncement('' @ showInt (a_id announcement) @ js '')''))
          (announcements (database st))) st"

definition renderEvents :: "env \<Rightarrow> state \<Rightarrow> state" where
  "renderEvents ev st =
     renderList ''eventsList'' ''Added Events''
       (emptyState ''emptyEvents'' ''fas fa-calendar''
          ''No events added yet. Create your first event above.'')
       (map (\<lambda>event.
               contentItem
                 [Tag (js ''h4'') [] [Txt (e_title event)],
                  Tag (js ''p'') [] [Txt (e_description event)],
                  Tag (js ''small'') []
                    [Txt (js ''Date: '' @ formatDate ev (e_date event) @ js '' | Time: '' @
                          interp (e_time event) @ js '' | Location: '' @ e_location event)]]
                 (js ''deleteEvent('' @ showInt (e_id event) @ js '')''))
          (events (database st))) st"

definition renderSchedules :: "env \<Rightarrow> state \<Rightarrow> state" where
  "renderSchedules ev st =
     renderList ''schedulesList'' ''Updated Schedules''
       (emptyState ''emptySchedules'' ''fas fa-calendar-alt''
          ''No schedules updated yet. Create your first schedule above.'')
       (map (\<lambda>schedule.
               contentItem
                 [Tag (js ''h4'') [] [Txt (s_course schedule)],
                  Tag (js ''p'') [] [Txt (js ''Instructor: '' @ s_instructor schedule)],
                  Tag (js ''small'') []
                    [Txt (js ''Date: '' @ formatDate ev (s_date schedule) @ js '' | Time: '' @
                          interp (s_time schedule) @ js '' | Room: '' @ s_room schedule)]]
                 (js ''deleteSchedule('' @ showInt (s_id schedule) @ js '')''))
          (schedules (database st))) st"

definition renderUsers :: "state \<Rightarrow> state" where
  "renderUsers st =
     renderList ''usersList'' ''Added Users''
       (emptyState ''emptyUsers'' ''fas fa-users''
          ''No users added yet. Add your first user above.'')
       (map (\<lambda>user.
               contentItem
                 [Tag (js ''h4'') [] [Txt (pu_name user)],
                  Tag (js ''p'') [] [Txt (pu_email user)],
                  Tag (js ''small'') []
                    [Txt (js ''Type: '' @ interp (pu_type user) @ js '' | ID: '' @
                          showInt (pu_id user))]]
                 (js ''deleteUser('' @ showInt (pu_id user) @ js '')''))
          (users (database st))) st"

text \<open>
  The delete functions; \<open>confirmed\<close> is the answer to the \<open>confirm\<close> dialog.
\<close>

definition deleteAnnouncement :: "bool \<Rightarrow> int \<Rightarrow> state \<Rightarrow> state" where
  "deleteAnnouncement confirmed i st =
     (if confirmed then
        showNotification (js ''Announcement deleted successfully'') (js ''success'') None
          (renderAnnouncements
             (st\<lparr>database := (database st)\<lparr>announcements :=
                  filter (\<lambda>a. a_id a \<noteq> i) (announcements (database st))\<rparr>\<rparr>))
      else st)"

definition deleteEvent :: "env \<Rightarrow> bool \<Rightarrow> int \<Rightarrow> state \<Rightarrow> state" where
  "deleteEvent ev confirmed i st =
     (if confirmed then
        showNotification (js ''Event deleted successfully'') (js ''success'') None
          (renderEvents ev
             (st\<lparr>database := (database st)\<lparr>events :=
                  filter (\<lambda>e. e_id e \<noteq> i) (events (database st))\<rparr>\<rparr>))
      else st)"

definition deleteSchedule :: "env \<Rightarrow> bool \<Rightarrow> int \<Rightarrow> state \<Rightarrow> state" where
  "deleteSchedule ev confirmed i st =
     (if confirmed then
        showNotification (js ''Schedule deleted successfully'') (js ''success'') None
          (renderSchedules ev
             (st\<lparr>database := (database st)\<lparr>schedules :=
                  filter (\<lambda>s. s_id s \<noteq> i) (schedules (database st))\<rparr>\<rparr>))
      else st)"

definition deleteUser :: "bool \<Rightarrow> int \<Rightarrow> state \<Rightarrow> state" where
  "deleteUser confirmed i st =
     (if confirmed then
        showNotification (js ''User deleted successfully'') (js ''success'') None
          (renderUsers
             (st\<lparr>database := (database st)\<lparr>users :=
                  filter (\<lambda>u. pu_id u \<noteq> i) (users (database st))\<rparr>\<rparr>))
      else st)"

section \<open>Form handlers\<close>

text \<open>
  \<open>document.getElementById(i).value\<close>: \<open>None\<close> is the \<open>TypeError\<close> of a missing
  element, \<open>Some None\<close> the value \<open>undefined\<close> of an element that is not a control.
\<close>

definition valueOf :: "jsstring \<Rightarrow> state \<Rightarrow> jsstring option option" where
  "valueOf i st = map_option el_value (elems st i)"

text \<open>
  \<open>document.getElementById(i).value.trim()\<close>: \<open>None\<close> is the \<open>TypeError\<close> of a
  missing element or of \<open>undefined.trim()\<close>.
\<close>

definition valueTrim :: "jsstring \<Rightarrow> state \<Rightarrow> jsstring option" where
  "valueTrim i st =
     (case valueOf i st of
        None \<Rightarrow> None
      | Some None \<Rightarrow> None
      | Some (Some v) \<Rightarrow> Some (trim v))"

text \<open>
  An object literal of a handler. A property whose value is \<open>undefined\<close> reads as a
  missing one: no name of these literals is a property of \<open>Object.prototype\<close>.
\<close>

definition obj :: "(jsstring \<times> jsstring option) list \<Rightarrow> formData" where
  "obj props =
     map_of (concat (map (\<lambda>(k, v). case v of None \<Rightarrow> [] | Some x \<Rightarrow> [(k, x)]) props))"

text \<open>The lines the two callbacks of login and registration share, after \<open>currentUser\<close> is set.\<close>

definition showLoggedIn :: "env \<Rightarrow> user \<Rightarrow> string \<Rightarrow> string \<Rightarrow> state \<Rightarrow> outcome" where
  "showLoggedIn ev u message messageId st =
     andThen (withElement (js ''userName'') (setTextContent (u_name u)) st) (\<lambda>st1.
     andThen (withElement (js ''userRole'')
                (setTextContent (if isAdmin u then js ''Administrator'' else js ''Student'')) st1) (\<lambda>st2.
     andThen (withElement (js ''userAvatar'')
                (setTextContent (generateAvatar ev (u_name u))) st2) (\<lambda>st3.
     andThen (withElement (js ''profileName'') (setTextContent (u_name u)) st3) (\<lambda>st4.
     andThen (withElement (js ''profileRole'')
                (setTextContent (if isAdmin u then js ''Administrator'' else js ''Student'')) st4) (\<lambda>st5.
     andThen (withElement (js ''profileEmail'') (setTextContent (u_email u)) st5) (\<lambda>st6.
     andThen (withElement (js ''profileAvatar'')
                (setTextContent (generateAvatar ev (u_name u))) st6) (\<lambda>st7.
     andThen (updateDashboard st7) (\<lambda>st8.
     andThen (updateAuthButtons st8) (\<lambda>st9.
     Normal (setTimeout GoDashboard 1000
               (showNotification (js message) (js ''success'') (Some (js messageId)) st9)))))))))))"

definition loginSubmit :: "state \<Rightarrow> outcome" where
  "loginSubmit st =
     (let st1 = clearFormErrors (js ''loginForm'') st
      in case valueTrim (js ''loginEmail'') st1 of
           None \<Rightarrow> Thrown TypeError st1
         | Some email \<Rightarrow>
       (case valueTrim (js ''loginPassword'') st1 of
           None \<Rightarrow> Thrown TypeError st1
         | Some password \<Rightarrow>
       (case valueOf (js ''loginUserType'') st1 of
           None \<Rightarrow> Thrown TypeError st1
         | Some userType \<Rightarrow>
             (case validateForm
                      (obj [(js ''email'', Some email), (js ''password'', Some password),
                            (js ''userType'', userType)])
                      [js ''email'', js ''password'', js ''userType''] of
                Inl e \<Rightarrow> Thrown e st1
              | Inr validation \<Rightarrow>
                 if \<not> isValid validation
                 then Normal (showFormErrors (errors validation) st1)
                 else Normal (setTimeout (LoginComplete email userType) 1000
                                (setLoading True st1))))))"

definition loginComplete :: "env \<Rightarrow> jsstring \<Rightarrow> jsstring option \<Rightarrow> state \<Rightarrow> outcome" where
  "loginComplete ev email userType st =
     (let u = \<lparr>u_name = (if userType = Some (js ''admin'') then js ''Admin User''
                         else js ''Carl Kitusa''),
               u_email = email, u_type = userType\<rparr>
      in showLoggedIn ev u ''Login successful!'' ''loginSuccessMessage''
           ((setLoading False st)\<lparr>currentUser := Some u\<rparr>))"

definition registerSubmit :: "state \<Rightarrow> outcome" where
  "registerSubmit st =
     (let st1 = clearFormErrors (js ''registerForm'') st
      in case valueTrim (js ''regName'') st1 of
           None \<Rightarrow> Thrown TypeError st1
         | Some name \<Rightarrow>
       (case valueTrim (js ''regEmail'') st1 of
           None \<Rightarrow> Thrown TypeError st1
         | Some email \<Rightarrow>
       (case valueTrim (js ''regPassword'') st1 of
           None \<Rightarrow> Thrown TypeError st1
         | Some password \<Rightarrow>
       (case valueOf (js ''regUserType'') st1 of
           None \<Rightarrow> Thrown TypeError st1
         | Some userType \<Rightarrow>
             (case validateForm
                      (obj [(js ''name'', Some name), (js ''email'', Some email),
                            (js ''password'', Some password), (js ''userType'', userType)])
                      [js ''name'', js ''email'', js ''password'', js ''userType''] of
                Inl e \<Rightarrow> Thrown e st1
              | Inr validation \<Rightarrow>
                 if \<not> isValid validation
                 then Normal (showFormErrors (errors validation) st1)
                 else Normal (setTimeout (RegisterComplete name email userType) 1000
                                (setLoading True st1)))))))"

definition registerComplete ::
  "env \<Rightarrow> jsstring \<Rightarrow> jsstring \<Rightarrow> jsstring option \<Rightarrow> state \<Rightarrow> outcome" where
  "registerComplete ev name email userType st =
     (let u = \<lparr>u_name = name, u_email = email, u_type = userType\<rparr>
      in showLoggedIn ev u ''Registration successful!'' ''registerSuccessMessage''
           ((setLoading False st)\<lparr>currentUser := Some u\<rparr>))"

definition announcementSubmit :: "env \<Rightarrow> state \<Rightarrow> outcome" where
  "announcementSubmit ev st =
     (let st1 = clearFormErrors (js ''announcementForm'') st
      in case valueTrim (js ''announcementTitle'') st1 of
           None \<Rightarrow> Thrown TypeError st1
         | Some title \<Rightarrow>
       (case valueTrim (js ''announcementContent'') st1 of
           None \<Rightarrow> Thrown TypeError st1
         | Some content \<Rightarrow>
       (case valueOf (js ''announcementPriority'') st1 of
           None \<Rightarrow> Thrown TypeError st1
         | Some priority \<Rightarrow>
             (case validateForm
                      (obj [(js ''title'', Some title), (js ''content'', Some content),
                            (js ''priority'', priority)])
                      [js ''title'', js ''content''] of
                Inl e \<Rightarrow> Thrown e st1
              | Inr validation \<Rightarrow>
                 if \<not> isValid validation
                 then Normal (showFormErrors (errors validation) st1)
                 else
                   (case currentUser st1 of
                      None \<Rightarrow> Thrown TypeError st1
                    | Some u \<Rightarrow>
                        (let newAnnouncement =
                               \<lparr>a_id = now ev, a_title = title, a_content = content,
                                a_priority = priority, a_date = localeDate ev (now ev),
                                a_author = u_name u\<rparr>;
                             st2 = st1\<lparr>database := (database st1)\<lparr>announcements :=
                                     newAnnouncement # announcements (database st1)\<rparr>\<rparr>
                         in Normal
                              (resetForm (js ''announcementForm'')
                                 (showNotification (js ''Announcement posted successfully!'')
                                    (js ''success'') (Some (js ''announcementSuccessMessage''))
                                    (renderAnnouncements st2)))))))))"

definition eventSubmit :: "env \<Rightarrow> state \<Rightarrow> outcome" where
  "eventSubmit ev st =
     (let st1 = clearFormErrors (js ''eventForm'') st
      in case valueTrim (js ''eventTitle'') st1 of
           None \<Rightarrow> Thrown TypeError st1
         | Some title \<Rightarrow>
       (case valueOf (js ''eventDate'') st1 of
           None \<Rightarrow> Thrown TypeError st1
         | Some date \<Rightarrow>
       (case valueOf (js ''eventTime'') st1 of
           None \<Rightarrow> Thrown TypeError st1
         | Some time \<Rightarrow>
       (case valueTrim (js ''eventLocation'') st1 of
           None \<Rightarrow> Thrown TypeError st1
         | Some location \<Rightarrow>
       (case valueTrim (js ''eventDescription'') st1 of
           None \<Rightarrow> Thrown TypeError st1
         | Some description \<Rightarrow>
             (case validateForm
                      (obj [(js ''title'', Some title), (js ''date'', date), (js ''time'', time),
                            (js ''location'', Some location),
                            (js ''description'', Some description)])
                      [js ''title'', js ''date'', js ''time'', js ''location'',
                       js ''description''] of
                Inl e \<Rightarrow> Thrown e st1
              | Inr validation \<Rightarrow>
                 if \<not> isValid validation
                 then Normal (showFormErrors (errors validation) st1)
                 else if (case newDate ev date of
                            None \<Rightarrow> False
                          | Some eventDate \<Rightarrow> eventDate < localMidnight ev)
                 then Normal (showNotification (js ''Event date must be in the future'')
                                (js ''error'') (Some (js ''eventDateError'')) st1)
                 else
                   (case currentUser st1 of
                      None \<Rightarrow> Thrown TypeError st1
                    | Some u \<Rightarrow>
                        (let newEvent =
                               \<lparr>e_id = now ev, e_title = title, e_description = description,
                                e_date = date, e_time = time, e_location = location,
                                e_organizer = u_name u\<rparr>;
                             st2 = st1\<lparr>database := (database st1)\<lparr>events :=
                                     newEvent # events (database st1)\<rparr>\<rparr>
                         in Normal
                              (resetForm (js ''eventForm'')
                                 (showNotification (js ''Event added successfully!'')
                                    (js ''success'') (Some (js ''eventSuccessMessage''))
                                    (renderEvents ev st2)))))))))))"

definition scheduleSubmit :: "env \<Rightarrow> state \<Rightarrow> outcome" where
  "scheduleSubmit ev st =
     (let st1 = clearFormErrors (js ''scheduleForm'') st
      in case valueTrim (js ''scheduleCourse'') st1 of
           None \<Rightarrow> Thrown TypeError st1
         | Some course \<Rightarrow>
       (case valueOf (js ''scheduleDate'') st1 of
           None \<Rightarrow> Thrown TypeError st1
         | Some date \<Rightarrow>
       (case valueOf (js ''scheduleTime'') st1 of
           None \<Rightarrow> Thrown TypeError st1
         | Some time \<Rightarrow>
       (case valueTrim (js ''scheduleRoom'') st1 of
           None \<Rightarrow> Thrown TypeError st1
         | Some room \<Rightarrow>
       (case valueTrim (js ''scheduleInstructor'') st1 of
           None \<Rightarrow> Thrown TypeError st1
         | Some instructor \<Rightarrow>
             (case validateForm
                      (obj [(js ''course'', Some course), (js ''date'', date), (js ''time'', time),
                            (js ''room'', Some room), (js ''instructor'', Some instructor)])
                      [js ''course'', js ''date'', js ''time'', js ''room'', js ''instructor''] of
                Inl e \<Rightarrow> Thrown e st1
              | Inr validation \<Rightarrow>
                 if \<not> isValid validation
                 then Normal (showFormErrors (errors validation) st1)
                 else
                   (let newSchedule =
                          \<lparr>s_id = now ev, s_course = course, s_date = date, s_time = time,
                           s_room = room, s_instructor = instructor\<rparr>;
                        st2 = st1\<lparr>database := (database st1)\<lparr>schedules :=
                                newSchedule # schedules (database st1)\<rparr>\<rparr>
                    in Normal
                         (resetForm (js ''scheduleForm'')
                            (showNotification (js ''Schedule updated successfully!'')
                               (js ''success'') (Some (js ''scheduleSuccessMessage''))
                               (renderSchedules ev st2))))))))))"

definition userSubmit :: "env \<Rightarrow> state \<Rightarrow> outcome" where
  "userSubmit ev st =
     (let st1 = clearFormErrors (js ''userForm'') st
      in case valueTrim (js ''userName'') st1 of
           None \<Rightarrow> Thrown TypeError st1
         | Some name \<Rightarrow>
       (case valueTrim (js ''userEmail'') st1 of
           None \<Rightarrow> Thrown TypeError st1
         | Some email \<Rightarrow>
       (case valueOf (js ''userType'') st1 of
           None \<Rightarrow> Thrown TypeError st1
         | Some type \<Rightarrow>
             (case validateForm
                      (obj [(js ''name'', Some name), (js ''email'', Some email),
                            (js ''type'', type)])
                      [js ''name'', js ''email'', js ''type''] of
                Inl e \<Rightarrow> Thrown e st1
              | Inr validation \<Rightarrow>
                 if \<not> isValid validation
                 then Normal (showFormErrors (errors validation) st1)
                 else if \<not> validateEmail email
                 then Normal (showNotification (js ''Please enter a valid email address'')
                                (js ''error'') (Some (js ''userEmailError'')) st1)
                 else
                   (let newUser =
                          \<lparr>pu_id = now ev, pu_name = name, pu_email = email, pu_type = type\<rparr>;
                        st2 = st1\<lparr>database := (database st1)\<lparr>users :=
                                newUser # users (database st1)\<rparr>\<rparr>
                    in Normal
                         (resetForm (js ''userForm'')
                            (showNotification (js ''User added successfully!'')
                               (js ''success'') (Some (js ''userSuccessMessage''))
                               (renderUsers st2))))))))"

section \<open>Session management\<close>

definition clearForms :: "state \<Rightarrow> outcome" where
  "clearForms st =
     andThen (resetFormById (js ''loginForm'') st) (\<lambda>st1.
     andThen (resetFormById (js ''registerForm'') (clearFormErrors (js ''loginForm'') st1)) (\<lambda>st2.
     andThen (resetFormById (js ''announcementForm'') (clearFormErrors (js ''registerForm'') st2)) (\<lambda>st3.
     andThen (resetFormById (js ''eventForm'') (clearFormErrors (js ''announcementForm'') st3)) (\<lambda>st4.
     andThen (resetFormById (js ''scheduleForm'') (clearFormErrors (js ''eventForm'') st4)) (\<lambda>st5.
     andThen (resetFormById (js ''userForm'') (clearFormErrors (js ''scheduleForm'') st5)) (\<lambda>st6.
     Normal (clearFormErrors (js ''userForm'') st6)))))))"

text \<open>\<open>logout\<close>; \<open>confirmed\<close> is the answer to its \<open>confirm\<close> dialog.\<close>

definition logout :: "env \<Rightarrow> bool \<Rightarrow> state \<Rightarrow> outcome" where
  "logout ev confirmed st =
     (if confirmed then
        andThen (clearForms (st\<lparr>currentUser := None\<rparr>)) (\<lambda>st1.
        andThen (updateAuthButtons st1) (\<lambda>st2.
        andThen (showSection ev (js ''home'') st2) (\<lambda>st3.
        Normal (showNotification (js ''Logged out successfully'') (js ''success'') None st3))))
      else Normal st)"

text \<open>
  \<open>checkSessionTimeout\<close>; \<open>loginAgain\<close> is the answer to the dialog of the check,
  \<open>confirmed\<close> the answer to the dialog of \<open>logout\<close>, which the check then calls.
\<close>

definition checkSessionTimeout :: "env \<Rightarrow> bool \<Rightarrow> bool \<Rightarrow> state \<Rightarrow> outcome" where
  "checkSessionTimeout ev loginAgain confirmed st =
     (let timeSinceLastActivity = now ev - lastActivity (appState st)
      in if currentUser st \<noteq> None \<and> timeSinceLastActivity > sessionTimeout (appState st)
         then (if loginAgain then logout ev confirmed st else Normal st)
         else Normal st)"

section \<open>Timers\<close>

definition runTask :: "env \<Rightarrow> task \<Rightarrow> state \<Rightarrow> outcome" where
  "runTask ev t st =
     (case t of
        HideNotification r \<Rightarrow> Normal (hideNotification r st)
      | LoginComplete email userType \<Rightarrow> loginComplete ev email userType st
      | RegisterComplete name email userType \<Rightarrow> registerComplete ev name email userType st
      | GoDashboard \<Rightarrow> showSection ev (js ''dashboard'') st)"

section \<open>Initial state\<close>

definition initialAppState :: "env \<Rightarrow> appState" where
  "initialAppState ev =
     \<lparr>isLoading = False, lastActivity = now ev, sessionTimeout = 30 * 60 * 1000,
      currentSection = js ''home''\<rparr>"

definition initialProfiles :: "jsstring \<rightharpoonup> profile" where
  "initialProfiles =
     [js ''student'' \<mapsto>
        \<lparr>p_id = js ''669430'',
         p_program = Some (js ''Bachelor of Science in Information Systems & Technology''),
         p_department = None, p_phone = js ''+254 712 345 678'',
         p_address = js ''USIU-Africa, Thika Road'', p_email = js ''carl.kitusa@usiu.ac.ke''\<rparr>,
      js ''admin'' \<mapsto>
        \<lparr>p_id = js ''ADM001'', p_program = None, p_department = Some (js ''Administration''),
         p_phone = js ''+254 711 222 333'',
         p_address = js ''USIU-Africa, Administration Building'',
         p_email = js ''admin@usiu.ac.ke''\<rparr>]"

text \<open>\<open>database.init()\<close>\<close>

definition database_init :: database where
  "database_init =
     \<lparr>announcements =
        [\<lparr>a_id = 1, a_title = js ''Midterm Project Submission Deadline Extended'',
          a_content = js ''The deadline for midterm project submissions has been extended to December 20, 2025.'',
          a_priority = Some (js ''important''), a_date = js ''December 15, 2025'',
          a_author = js ''Academic Office''\<rparr>,
         \<lparr>a_id = 2, a_title = js ''Campus Maintenance - Library Closed on Saturday'',
          a_content = js ''The main library will be closed this Saturday for scheduled maintenance. E-resources will remain available.'',
          a_priority = Some (js ''normal''), a_date = js ''December 12, 2025'',
          a_author = js ''Facilities Management''\<rparr>,
         \<lparr>a_id = 3, a_title = js ''Career Fair - December 5-7, 2025'',
          a_content = js ''Annual career fair featuring top companies. Register through the career portal.'',
          a_priority = Some (js ''urgent''), a_date = js ''December 10, 2025'',
          a_author = js ''Career Services''\<rparr>],
      events =
        [\<lparr>e_id = 1, e_title = js ''Tech Club Meeting'',
          e_description = js ''Monthly meeting for tech enthusiasts. Discuss latest trends and projects.'',
          e_date = Some (js ''2025-12-20''), e_time = Some (js ''14:00''),
          e_location = js ''Student Center'', e_organizer = js ''Tech Club''\<rparr>,
         \<lparr>e_id = 2, e_title = js ''Guest Lecture: AI in Education'',
          e_description = js ''Join us for an insightful lecture on AI applications in modern education.'',
          e_date = Some (js ''2025-12-25''), e_time = Some (js ''10:00''),
          e_location = js ''Auditorium A'', e_organizer = js ''Computer Science Dept''\<rparr>,
         \<lparr>e_id = 3, e_title = js ''Annual Career Fair'',
          e_description = js ''Connect with top employers and explore career opportunities.'',
          e_date = Some (js ''2025-12-30''), e_time = Some (js ''09:00''),
          e_location = js ''Sports Complex'', e_organizer = js ''Career Services''\<rparr>],
      schedules =
        [\<lparr>s_id = 1, s_course = js ''APT3065 - Software Engineering'',
          s_date = Some (js ''2025-12-15''), s_time = Some (js ''08:00''),
          s_room = js ''TC-304'', s_instructor = js ''Dr. Smith''\<rparr>,
         \<lparr>s_id = 2, s_course = js ''APT3070 - Database Systems'',
          s_date = Some (js ''2025-12-15''), s_time = Some (js ''10:30''),
          s_room = js ''TC-301'', s_instructor = js ''Prof. Johnson''\<rparr>,
         \<lparr>s_id = 3, s_course = js ''APT3080 - Web Development'',
          s_date = Some (js ''2025-12-15''), s_time = Some (js ''14:00''),
          s_room = js ''TC-310'', s_instructor = js ''Dr. Williams''\<rparr>],
      users = []\<rparr>"

section \<open>An example page\<close>

text \<open>
  A document with the elements the script addresses, for running the handlers on
  concrete input: six sections, six forms with their controls, one message element for
  each field name and each form, the four lists and the containers of the dashboard.
\<close>

definition control :: "string \<Rightarrow> string \<Rightarrow> element" where
  "control formId dflt =
     createElement\<lparr>el_value := Some (js dflt), el_default := js dflt,
                   el_form := Some (js formId)\<rparr>"

definition errorMessage :: "string \<Rightarrow> element" where
  "errorMessage formId =
     createElement\<lparr>el_classes := [js ''error-message'', js ''hidden''],
                   el_form := Some (js formId)\<rparr>"

definition successMessage :: "string \<Rightarrow> element" where
  "successMessage formId =
     createElement\<lparr>el_classes := [js ''success-message''], el_form := Some (js formId)\<rparr>"

definition sectionElement :: "bool \<Rightarrow> element" where
  "sectionElement hidden =
     createElement\<lparr>el_section := True,
                   el_classes := (if hidden then [js ''hidden''] else [])\<rparr>"

definition formElement :: element where
  "formElement = createElement\<lparr>el_isForm := True\<rparr>"

definition examplePage :: "(string \<times> element) list" where
  "examplePage =
     [(''home'', sectionElement False), (''features'', sectionElement True),
      (''login'', sectionElement True), (''register'', sectionElement True),
      (''dashboard'', sectionElement True), (''profile'', sectionElement True),
      (''main-nav'', createElement),
      (''authButtons'', createElement), (''heroButtons'', createElement),
      (''userRole'', createElement), (''userAvatar'', createElement),
      (''profileName'', createElement), (''profileRole'', createElement),
      (''profileEmail'', createElement), (''profileAvatar'', createElement),
      (''profileInfoContent'', createElement), (''profileActions'', createElement),
      (''studentDashboard'', createElement),
      (''adminDashboard'', createElement\<lparr>el_classes := [js ''hidden'']\<rparr>),
      (''announcements-tab'', createElement\<lparr>el_classes := [js ''admin-tab-content'']\<rparr>),
      (''events-tab'',
         createElement\<lparr>el_classes := [js ''admin-tab-content'', js ''hidden'']\<rparr>),
      (''schedules-tab'',
         createElement\<lparr>el_classes := [js ''admin-tab-content'', js ''hidden'']\<rparr>),
      (''users-tab'',
         createElement\<lparr>el_classes := [js ''admin-tab-content'', js ''hidden'']\<rparr>),
      (''announcementsList'', createElement), (''eventsList'', createElement),
      (''schedulesList'', createElement), (''usersList'', createElement),
      (''loginForm'', formElement),
      (''loginEmail'', control ''loginForm'' []),
      (''loginPassword'', control ''loginForm'' []),
      (''loginUserType'', control ''loginForm'' []),
      (''loginSuccessMessage'', successMessage ''loginForm''),
      (''emailError'', errorMessage ''loginForm''),
      (''passwordError'', errorMessage ''loginForm''),
      (''userTypeError'', errorMessage ''loginForm''),
      (''registerForm'', formElement),
      (''regName'', control ''registerForm'' []),
      (''regEmail'', control ''registerForm'' []),
      (''regPassword'', control ''registerForm'' []),
      (''regUserType'', control ''registerForm'' []),
      (''registerSuccessMessage'', successMessage ''registerForm''),
      (''nameError'', errorMessage ''registerForm''),
      (''announcementForm'', formElement),
      (''announcementTitle'', control ''announcementForm'' []),
      (''announcementContent'', control ''announcementForm'' []),
      (''announcementPriority'', control ''announcementForm'' ''normal''),
      (''announcementSuccessMessage'', successMessage ''announcementForm''),
      (''titleError'', errorMessage ''announcementForm''),
      (''contentError'', errorMessage ''announcementForm''),
      (''eventForm'', formElement),
      (''eventTitle'', control ''eventForm'' []),
      (''eventDate'', control ''eventForm'' []),
      (''eventTime'', control ''eventForm'' []),
      (''eventLocation'', control ''eventForm'' []),
      (''eventDescription'', control ''eventForm'' []),
      (''eventSuccessMessage'', successMessage ''eventForm''),
      (''eventDateError'', errorMessage ''eventForm''),
      (''dateError'', errorMessage ''eventForm''),
      (''timeError'', errorMessage ''eventForm''),
      (''locationError'', errorMessage ''eventForm''),
      (''descriptionError'', errorMessage ''eventForm''),
      (''scheduleForm'', formElement),
      (''scheduleCourse'', control ''scheduleForm'' []),
      (''scheduleDate'', control ''scheduleForm'' []),
      (''scheduleTime'', control ''scheduleForm'' []),
      (''scheduleRoom'', control ''scheduleForm'' []),
      (''scheduleInstructor'', control ''scheduleForm'' []),
      (''scheduleSuccessMessage'', successMessage ''scheduleForm''),
      (''courseError'', errorMessage ''scheduleForm''),
      (''roomError'', errorMessage ''scheduleForm''),
      (''instructorError'', errorMessage ''scheduleForm''),
      (''userForm'', formElement),
      (''userName'', control ''userForm'' []),
      (''userEmail'', control ''userForm'' []),
      (''userType'', control ''userForm'' ''student''),
      (''userSuccessMessage'', successMessage ''userForm''),
      (''userEmailError'', errorMessage ''userForm''),
      (''typeError'', errorMessage ''userForm'')]"

text \<open>The links of \<open>nav\<close> call \<open>showSection\<close> for home, features, login and register.\<close>

definition exampleNavQuery :: "jsstring \<Rightarrow> nav_query" where
  "exampleNavQuery sectionId =
     (case firstIndex (\<lambda>onclick. stringIncludes onclick sectionId)
             [js ''showSection('' @ [0x0027] @ js ''home'' @ [0x0027] @ js '')'',
              js ''showSection('' @ [0x0027] @ js ''features'' @ [0x0027] @ js '')'',
              js ''showSection('' @ [0x0027] @ js ''login'' @ [0x0027] @ js '')'',
              js ''showSection('' @ [0x0027] @ js ''register'' @ [0x0027] @ js '')''] of
        None \<Rightarrow> QueryNone
      | Some k \<Rightarrow> QueryLink k)"

text \<open>
  The state after the page has loaded at time \<open>t\<close>: nobody logged in, the sample data,
  no notification area yet.
\<close>

definition exampleState :: "int \<Rightarrow> state" where
  "exampleState t =
     \<lparr>currentUser = None,
      appState = \<lparr>isLoading = False, lastActivity = t, sessionTimeout = 30 * 60 * 1000,
                  currentSection = js ''home''\<rparr>,
      database = database_init,
      userProfileData = initialProfiles,
      elems = map_of (map (\<lambda>(i, e). (js i, e)) examplePage),
      anon = [createElement\<lparr>el_classes := [js ''mobile-menu''],
                             el_attrs := [(js ''aria-expanded'', js ''false'')]\<rparr>],
      navClasses = [[js ''active''], [], [], []],
      navQuery = exampleNavQuery,
      submitButtons = replicate 6 \<lparr>sb_classes = [js ''btn''], sb_disabled = False\<rparr>,
      adminTabs =
        [\<lparr>tab_lower = js ''announcements'', tab_classes = [js ''admin-tab'', js ''active'']\<rparr>,
         \<lparr>tab_lower = js ''events'', tab_classes = [js ''admin-tab'']\<rparr>,
         \<lparr>tab_lower = js ''schedules'', tab_classes = [js ''admin-tab'']\<rparr>,
         \<lparr>tab_lower = js ''users'', tab_classes = [js ''admin-tab'']\<rparr>],
      timers = []\<rparr>"

text \<open>The user types \<open>v\<close> into the control \<open>i\<close>, or chooses \<open>v\<close> there.\<close>

definition typeInto :: "string \<Rightarrow> string \<Rightarrow> state \<Rightarrow> state" where
  "typeInto i v st =
     (case elems st (js i) of
        None \<Rightarrow> st
      | Some el \<Rightarrow> st\<lparr>elems := (elems st)(js i \<mapsto> el\<lparr>el_value := Some (js v)\<rparr>)\<rparr>)"

text \<open>A user is logged in.\<close>

definition loggedIn :: "string \<Rightarrow> string \<Rightarrow> string \<Rightarrow> state \<Rightarrow> state" where
  "loggedIn name email type st =
     st\<lparr>currentUser := Some \<lparr>u_name = js name, u_email = js email, u_type = Some (js type)\<rparr>\<rparr>"

section \<open>Proof tools\<close>

text \<open>Two states with the same user, the same collections and the same profile records.\<close>

definition sameData :: "state \<Rightarrow> state \<Rightarrow> bool" where
  "sameData st st' \<longleftrightarrow>
     currentUser st' = currentUser st \<and> database st' = database st \<and>
     userProfileData st' = userProfileData st"

text \<open>
  What the script can read of an element besides its value: whether it is a section or a
  form, the form it belongs to and its default value. No function of the script changes
  these.
\<close>

definition shapeOf :: "jsstring \<Rightarrow> state \<Rightarrow> (bool \<times> bool \<times> jsstring option \<times> jsstring) option" where
  "shapeOf i st =
     map_option (\<lambda>e. (el_section e, el_isForm e, el_form e, el_default e)) (elems st i)"

definition childrenOf :: "jsstring \<Rightarrow> state \<Rightarrow> html list option" where
  "childrenOf i st = map_option el_children (elems st i)"

definition hiddenOf :: "jsstring \<Rightarrow> state \<Rightarrow> bool option" where
  "hiddenOf i st = map_option (\<lambda>e. js ''hidden'' \<in> set (el_classes e)) (elems st i)"

text \<open>Two states whose documents have the same elements, with the same values.\<close>

definition sameControls :: "state \<Rightarrow> state \<Rightarrow> bool" where
  "sameControls st st' \<longleftrightarrow>
     navQuery st' = navQuery st \<and>
     (\<forall>i. valueOf i st' = valueOf i st \<and> shapeOf i st' = shapeOf i st)"

text \<open>Two states whose elements have the same child nodes.\<close>

definition sameContents :: "state \<Rightarrow> state \<Rightarrow> bool" where
  "sameContents st st' \<longleftrightarrow> (\<forall>i. childrenOf i st' = childrenOf i st)"

definition isNormal :: "outcome \<Rightarrow> bool" where
  "isNormal r = (case r of Normal s \<Rightarrow> True | Thrown e s \<Rightarrow> False)"

text \<open>A change of an element that leaves its value and its shape alone.\<close>

definition keepsControl :: "(element \<Rightarrow> element) \<Rightarrow> bool" where
  "keepsControl f \<longleftrightarrow>
     (\<forall>e. el_value (f e) = el_value e \<and> el_section (f e) = el_section e \<and>
          el_isForm (f e) = el_isForm e \<and> el_form (f e) = el_form e \<and>
          el_default (f e) = el_default e)"

text \<open>Two states whose documents have the same elements, whatever their values.\<close>

definition sameShape :: "state \<Rightarrow> state \<Rightarrow> bool" where
  "sameShape st st' \<longleftrightarrow> navQuery st' = navQuery st \<and> (\<forall>i. shapeOf i st' = shapeOf i st)"

text \<open>The user fills in the schedule form.\<close>

definition typeSchedule :: "state \<Rightarrow> state" where
  "typeSchedule st =
     typeInto ''scheduleCourse'' ''APT3090 - Networks''
       (typeInto ''scheduleDate'' ''2025-12-16''
         (typeInto ''scheduleTime'' ''09:00''
           (typeInto ''scheduleRoom'' ''TC-305''
             (typeInto ''scheduleInstructor'' ''Dr. Brown'' st))))"

text \<open>The user fills in the event form, with the date \<open>d\<close>.\<close>

definition typeEvent :: "string \<Rightarrow> state \<Rightarrow> state" where
  "typeEvent d st =
     typeInto ''eventTitle'' ''Open Day''
       (typeInto ''eventDate'' d
         (typeInto ''eventTime'' ''14:00''
           (typeInto ''eventLocation'' ''Auditorium A''
             (typeInto ''eventDescription'' ''Campus tour'' st))))"

text \<open>The user fills in the announcement form.\<close>

definition typeAnnouncement :: "state \<Rightarrow> state" where
  "typeAnnouncement st =
     typeInto ''announcementTitle'' ''T''
       (typeInto ''announcementContent'' ''C''
         (typeInto ''announcementPriority'' ''urgent'' st))"

text \<open>Two states with the same application state, anonymous elements and timers.\<close>

definition sameApp :: "state \<Rightarrow> state \<Rightarrow> bool" where
  "sameApp st st' \<longleftrightarrow> appState st' = appState st \<and> anon st' = anon st \<and> timers st' = timers st"

text \<open>Two states with the same current section.\<close>

definition sameSection :: "state \<Rightarrow> state \<Rightarrow> bool" where
  "sameSection st st' \<longleftrightarrow> currentSection (appState st') = currentSection (appState st)"

text \<open>The visitor fills in the login form.\<close>

definition typeLogin :: "state \<Rightarrow> state" where
  "typeLogin st =
     typeInto ''loginEmail'' ''a@b.com''
       (typeInto ''loginPassword'' ''12345678''
         (typeInto ''loginUserType'' ''student'' st))"

text \<open>The visitor fills in the registration form.\<close>

definition typeRegister :: "state \<Rightarrow> state" where
  "typeRegister st =
     typeInto ''regName'' ''Ann''
       (typeInto ''regEmail'' ''a@b.com''
         (typeInto ''regPassword'' ''12345678''
           (typeInto ''regUserType'' ''student'' st)))"

text \<open>The page while the dashboard is the section on display.\<close>

definition showingDashboard :: "state \<Rightarrow> state" where
  "showingDashboard st =
     st\<lparr>appState := (appState st)\<lparr>currentSection := js ''dashboard''\<rparr>,
        elems := (elems st)(js ''home'' \<mapsto> sectionElement True,
                            js ''dashboard'' \<mapsto> sectionElement False)\<rparr>"

text \<open>The element \<open>f\<close> exists and is a form: it has the method \<open>reset\<close>.\<close>

definition isFormEl :: "jsstring \<Rightarrow> state \<Rightarrow> bool" where
  "isFormEl f st = (case elems st f of None \<Rightarrow> False | Some e \<Rightarrow> el_isForm e)"

text \<open>
  From \<open>st\<close> to \<open>st'\<close> the elements are the same, and every control of a form of \<open>F\<close>
  holds its default value; the value of every other element is unchanged.
\<close>

definition cleared :: "jsstring set \<Rightarrow> state \<Rightarrow> state \<Rightarrow> bool" where
  "cleared F st st' \<longleftrightarrow>
     (\<forall>i. shapeOf i st' = shapeOf i st \<and>
          valueOf i st' =
            map_option
              (\<lambda>e. if el_form e \<in> Some ` F \<and> el_value e \<noteq> None
                   then Some (el_default e) else el_value e)
              (elems st i))"

section \<open>Properties of strings and of the validator\<close>

lemma unat_of_char: "unat (of_char c :: code_unit) = of_char c"
proof -
  have lt: "(of_char c :: nat) < 256"
    by (rule nat_of_char_less_256)
  have "(256::nat) < 2 ^ 16"
    by simp
  with lt have small: "(of_char c :: nat) < 2 ^ 16"
    by (rule less_trans)
  have "(of_char c :: code_unit) = of_nat (of_char c)"
    by (simp add: of_nat_of_char)
  then have "unat (of_char c :: code_unit) = unat (of_nat (of_char c :: nat) :: code_unit)"
    by simp
  also have "\<dots> = (of_char c :: nat) mod 2 ^ 16"
    by (simp add: unat_of_nat)
  also from small have "\<dots> = of_char c"
    by (rule mod_less)
  finally show ?thesis .
qed

lemma of_char_code_unit_eq: "(of_char c :: code_unit) = of_char d \<longleftrightarrow> c = d"
proof
  assume "(of_char c :: code_unit) = of_char d"
  then have "unat (of_char c :: code_unit) = unat (of_char d :: code_unit)"
    by simp
  then have "(of_char c :: nat) = of_char d"
    by (simp only: unat_of_char)
  then show "c = d"
    by simp
qed simp

lemma js_eq [simp]: "js a = js b \<longleftrightarrow> a = b"
  unfolding js_def by (simp add: inj_map_eq_map inj_def of_char_code_unit_eq)

lemma js_Nil [simp]: "js a = [] \<longleftrightarrow> a = []" "[] = js a \<longleftrightarrow> a = []"
  by (auto simp: js_def)

lemma js_length [simp]: "length (js a) = length a"
  by (simp add: js_def)


lemma matchRe_Class: "matchRe (Class p) s \<longleftrightarrow> (\<exists>c. s = [c] \<and> p c)"
  by (simp add: matchRe.simps(1) split: list.splits)

lemma matchRe_Seq:
  "matchRe (Seq r1 r2) s \<longleftrightarrow> (\<exists>a b. s = a @ b \<and> matchRe r1 a \<and> matchRe r2 b)"
proof
  assume "matchRe (Seq r1 r2) s"
  then obtain k where "matchRe r1 (take k s)" "matchRe r2 (drop k s)"
    unfolding matchRe.simps list_ex_iff by blast
  moreover have "s = take k s @ drop k s" by simp
  ultimately show "\<exists>a b. s = a @ b \<and> matchRe r1 a \<and> matchRe r2 b" by blast
next
  assume "\<exists>a b. s = a @ b \<and> matchRe r1 a \<and> matchRe r2 b"
  then obtain a b where s: "s = a @ b" and m: "matchRe r1 a" "matchRe r2 b" by blast
  have "length a \<in> set [0..<Suc (length s)]" using s by simp
  moreover have "matchRe r1 (take (length a) s) \<and> matchRe r2 (drop (length a) s)"
    using s m by simp
  ultimately show "matchRe (Seq r1 r2) s"
    unfolding matchRe.simps list_ex_iff by blast
qed

lemma matchRe_PlusClass: "matchRe (Plus (Class p)) s \<longleftrightarrow> s \<noteq> [] \<and> list_all p s"
proof (induction s rule: length_induct)
  case (1 s)
  have IH: "\<And>t. length t < length s \<Longrightarrow>
               matchRe (Plus (Class p)) t \<longleftrightarrow> t \<noteq> [] \<and> list_all p t"
    using 1 by blast
  have unfold: "matchRe (Plus (Class p)) s \<longleftrightarrow>
      matchRe (Class p) s \<or>
      (\<exists>k\<in>set [1..<length s]. matchRe (Class p) (take k s) \<and> matchRe (Plus (Class p)) (drop k s))"
    by (subst matchRe.simps(2)) (simp add: list_ex_iff)
  show ?case
  proof
    assume "matchRe (Plus (Class p)) s"
    then consider (one) "matchRe (Class p) s"
      | (more) k where "1 \<le> k" "k < length s" "matchRe (Class p) (take k s)"
          "matchRe (Plus (Class p)) (drop k s)"
      unfolding unfold by auto
    then show "s \<noteq> [] \<and> list_all p s"
    proof cases
      case one
      then show ?thesis by (auto simp: matchRe_Class)
    next
      case more
      from more(1,2) have "length (drop k s) < length s" by simp
      with more(4) IH have tl: "list_all p (drop k s)" by blast
      from more(3) have "list_all p (take k s)" by (auto simp: matchRe_Class)
      with tl have "list_all p (take k s @ drop k s)" by (simp only: list_all_append)
      then have "list_all p s" by (simp only: append_take_drop_id)
      moreover from more(2) have "s \<noteq> []" by auto
      ultimately show ?thesis by simp
    qed
  next
    assume a: "s \<noteq> [] \<and> list_all p s"
    then obtain c t where s: "s = c # t" by (cases s) auto
    show "matchRe (Plus (Class p)) s"
    proof (cases t)
      case Nil
      with a s show ?thesis unfolding unfold by (simp add: matchRe_Class)
    next
      case (Cons d u)
      have "length t < length s" using s by simp
      moreover have "t \<noteq> [] \<and> list_all p t" using a s Cons by simp
      ultimately have "matchRe (Plus (Class p)) t" using IH by blast
      moreover have "matchRe (Class p) (take 1 s)" using a s by (simp add: matchRe_Class)
      moreover have "drop 1 s = t" using s by simp
      moreover have "(1::nat) \<in> set [1..<length s]" using s Cons unfolding set_upt by simp
      ultimately show ?thesis unfolding unfold by metis
    qed
  qed
qed

lemma validateEmail_iff:
  "validateEmail email \<longleftrightarrow>
     (\<exists>a b c. email = a @ [0x0040] @ b @ [0x002E] @ c \<and>
        a \<noteq> [] \<and> list_all notSpaceAt a \<and>
        b \<noteq> [] \<and> list_all notSpaceAt b \<and>
        c \<noteq> [] \<and> list_all notSpaceAt c)"
proof -
  have cls: "matchRe (Class (\<lambda>c. c = x)) s \<longleftrightarrow> s = [x]" for x s
    by (auto simp: matchRe_Class)
  have "validateEmail email \<longleftrightarrow>
     (\<exists>a r1. email = a @ r1 \<and> a \<noteq> [] \<and> list_all notSpaceAt a \<and>
       (\<exists>at r2. r1 = at @ r2 \<and> at = [0x0040] \<and>
         (\<exists>b r3. r2 = b @ r3 \<and> b \<noteq> [] \<and> list_all notSpaceAt b \<and>
           (\<exists>dot c. r3 = dot @ c \<and> dot = [0x002E] \<and> c \<noteq> [] \<and> list_all notSpaceAt c))))"
    unfolding validateEmail_def emailRe_def matchRe_Seq matchRe_PlusClass cls
    by (simp only: conj_assoc)
  also have "\<dots> \<longleftrightarrow> (\<exists>a b c. email = a @ [0x0040] @ b @ [0x002E] @ c \<and>
        a \<noteq> [] \<and> list_all notSpaceAt a \<and>
        b \<noteq> [] \<and> list_all notSpaceAt b \<and>
        c \<noteq> [] \<and> list_all notSpaceAt c)"
    by (rule iffI; (elim exE conjE, hypsubst, blast))
  finally show ?thesis .
qed

lemma js_simps: "js (c # s) = of_char c # js s" "js [] = []" by (simp_all add: js_def)
lemma js_append: "js (a @ b) = js a @ js b" by (simp add: js_def)

lemma validateEmail_a_b_com: "validateEmail (js ''a@b.com'')"
proof -
  have "js ''a@b.com'' = js ''a'' @ [0x0040] @ js ''b'' @ [0x002E] @ js ''com''"
    by (simp add: js_def)
  moreover have "list_all notSpaceAt (js ''a'')" "list_all notSpaceAt (js ''b'')"
    "list_all notSpaceAt (js ''com'')"
    by (simp_all add: js_def notSpaceAt_def isWhiteSpace_def)
  moreover have "js ''a'' \<noteq> []" "js ''b'' \<noteq> []" "js ''com'' \<noteq> []"
    by simp_all
  ultimately show ?thesis
    unfolding validateEmail_iff by blast
qed

lemma trim_Nil [simp]: "trim [] = []"
  by (simp add: trim_def)

lemma checkOwn_map_of:
  "map_of (checkOwn M errs f) =
     (case fieldMessage M f of None \<Rightarrow> map_of errs | Some m \<Rightarrow> (map_of errs)(f \<mapsto> m))"
  by (cases "M f")
     (auto simp: checkOwn_def fieldMessage_def Let_def update_conv' split: option.splits)

lemma foldl_checkOwn_map_of:
  "map_of (foldl (checkOwn M) errs R) g =
     (if g \<in> set R \<and> fieldMessage M g \<noteq> None then fieldMessage M g else map_of errs g)"
proof (induction R arbitrary: errs)
  case Nil
  show ?case by simp
next
  case (Cons f R)
  show ?case
    by (simp add: Cons.IH checkOwn_map_of split: option.splits) auto
qed

lemma validateOwn_map_of:
  "map_of (errors (validateOwn M R)) g = (if g \<in> set R then fieldMessage M g else None)"
  by (simp add: validateOwn_def Let_def foldl_checkOwn_map_of)

lemma map_of_all_None: "(\<forall>g. map_of al g = None) \<longleftrightarrow> al = []"
proof -
  have "(\<forall>g. map_of al g = None) \<longleftrightarrow> map_of al = Map.empty"
    by (simp only: fun_eq_iff)
  then show ?thesis
    by (simp only: map_of_eq_empty_iff)
qed

lemma validateOwn_isValid:
  "isValid (validateOwn M R) \<longleftrightarrow> (\<forall>f\<in>set R. fieldMessage M f = None)"
proof -
  let ?errs = "errors (validateOwn M R)"
  have "isValid (validateOwn M R) \<longleftrightarrow> ?errs = []"
    by (simp add: validateOwn_def Let_def)
  also have "\<dots> \<longleftrightarrow> (\<forall>g. map_of ?errs g = None)"
    by (rule map_of_all_None [symmetric])
  also have "\<dots> \<longleftrightarrow> (\<forall>f\<in>set R. fieldMessage M f = None)"
    by (auto simp: validateOwn_map_of)
  finally show ?thesis .
qed

lemma fieldMessage_None:
  "fieldMessage M f = None \<longleftrightarrow>
     (\<exists>v. M f = Some v \<and> trim v \<noteq> [] \<and>
          (f = js ''email'' \<longrightarrow> validateEmail v) \<and>
          (f = js ''password'' \<longrightarrow> 8 \<le> length v))"
  by (cases "M f") (auto simp: fieldMessage_def)


lemma trim_js_simps:
  "trim (js ''a@b.com'') = js ''a@b.com''"
  "trim (js ''12345678'') = js ''12345678''"
  "trim (js ''student'') = js ''student''"
  "trim (js ''1234'') = js ''1234''"
  by (simp_all add: trim_def js_def isWhiteSpace_def)


lemma trim_eq_Nil: "trim v = [] \<longleftrightarrow> (\<forall>c\<in>set v. isWhiteSpace c)"
proof -
  have "trim v = [] \<longleftrightarrow> (\<forall>c\<in>set (dropWhile isWhiteSpace v). isWhiteSpace c)"
    by (simp add: trim_def dropWhile_eq_Nil_conv)
  also have "\<dots> \<longleftrightarrow> dropWhile isWhiteSpace v = []"
  proof
    assume a: "\<forall>c\<in>set (dropWhile isWhiteSpace v). isWhiteSpace c"
    show "dropWhile isWhiteSpace v = []"
    proof (rule ccontr)
      assume n: "dropWhile isWhiteSpace v \<noteq> []"
      then have "\<not> isWhiteSpace (hd (dropWhile isWhiteSpace v))" by (rule hd_dropWhile)
      moreover from n have "hd (dropWhile isWhiteSpace v) \<in> set (dropWhile isWhiteSpace v)"
        by (rule hd_in_set)
      ultimately show False using a by blast
    qed
  next
    assume e: "dropWhile isWhiteSpace v = []"
    show "\<forall>c\<in>set (dropWhile isWhiteSpace v). isWhiteSpace c"
      unfolding e by simp
  qed
  also have "\<dots> \<longleftrightarrow> (\<forall>c\<in>set v. isWhiteSpace c)"
    by (rule dropWhile_eq_Nil_conv)
  finally show ?thesis .
qed

lemma emailShape_validateEmail: "emailShape s \<longleftrightarrow> validateEmail s"
proof -
  have p: "list_all notSpaceAt a \<and> list_all notSpaceAt b \<and> list_all notSpaceAt c \<longleftrightarrow>
      (\<forall>x\<in>set (a @ b @ c). \<not> isWhiteSpace x \<and> x \<noteq> 0x0040)" for a b c
    by (auto simp: list_all_iff notSpaceAt_def)
  have "validateEmail s \<longleftrightarrow>
     (\<exists>a b c. s = a @ [0x0040] @ b @ [0x002E] @ c \<and> a \<noteq> [] \<and> b \<noteq> [] \<and> c \<noteq> [] \<and>
        (list_all notSpaceAt a \<and> list_all notSpaceAt b \<and> list_all notSpaceAt c))"
    unfolding validateEmail_iff by blast
  then show ?thesis
    unfolding p emailShape_def by simp
qed

lemma checkField_own:
  "f \<notin> set objectPrototype \<Longrightarrow> checkField M errs f = Inr (checkOwn M errs f)"
proof -
  assume n: "f \<notin> set objectPrototype"
  then have p: "f \<noteq> js ''__proto__''"
    by (auto simp: objectPrototype_def)
  show ?thesis
    using n p
    by (cases "M f")
       (auto simp: checkField_def checkOwn_def getProperty_def setProperty_def Let_def)
qed

lemma forEachField_own:
  "\<forall>f\<in>set R. f \<notin> set objectPrototype \<Longrightarrow>
   forEachField M errs R = Inr (foldl (checkOwn M) errs R)"
  by (induction R arbitrary: errs) (simp_all add: checkField_own)

lemma validateForm_own:
  "\<forall>f\<in>set R. f \<notin> set objectPrototype \<Longrightarrow> validateForm M R = Inr (validateOwn M R)"
  by (simp add: validateForm_def validateOwn_def forEachField_own Let_def)

lemma own_names:
  "js ''email'' \<notin> set objectPrototype" "js ''password'' \<notin> set objectPrototype"
  "js ''userType'' \<notin> set objectPrototype" "js ''name'' \<notin> set objectPrototype"
  "js ''title'' \<notin> set objectPrototype" "js ''content'' \<notin> set objectPrototype"
  "js ''date'' \<notin> set objectPrototype" "js ''time'' \<notin> set objectPrototype"
  "js ''location'' \<notin> set objectPrototype" "js ''description'' \<notin> set objectPrototype"
  "js ''course'' \<notin> set objectPrototype" "js ''room'' \<notin> set objectPrototype"
  "js ''instructor'' \<notin> set objectPrototype" "js ''type'' \<notin> set objectPrototype"
  by (simp_all add: objectPrototype_def)

lemma validateForm_lists:
  "validateForm M [js ''email'', js ''password'', js ''userType''] =
     Inr (validateOwn M [js ''email'', js ''password'', js ''userType''])"
  "validateForm M [js ''name'', js ''email'', js ''password'', js ''userType''] =
     Inr (validateOwn M [js ''name'', js ''email'', js ''password'', js ''userType''])"
  "validateForm M [js ''title'', js ''content''] =
     Inr (validateOwn M [js ''title'', js ''content''])"
  "validateForm M [js ''title'', js ''date'', js ''time'', js ''location'', js ''description''] =
     Inr (validateOwn M
       [js ''title'', js ''date'', js ''time'', js ''location'', js ''description''])"
  "validateForm M [js ''course'', js ''date'', js ''time'', js ''room'', js ''instructor''] =
     Inr (validateOwn M [js ''course'', js ''date'', js ''time'', js ''room'', js ''instructor''])"
  "validateForm M [js ''name'', js ''email'', js ''type''] =
     Inr (validateOwn M [js ''name'', js ''email'', js ''type''])"
  by (rule validateForm_own, simp add: own_names)+

lemma validateForm_returns:
  "validateForm M R = Inr v \<Longrightarrow> \<forall>f\<in>set R. f \<notin> set objectPrototype \<Longrightarrow> v = validateOwn M R"
  by (simp add: validateForm_own)

section \<open>Frame properties\<close>

lemma sameData_refl [simp]: "sameData st st"
  by (simp add: sameData_def)

lemma sameData_trans: "sameData a b \<Longrightarrow> sameData b c \<Longrightarrow> sameData a c"
  by (simp add: sameData_def)

lemma sameData_elems [simp]: "sameData st (st\<lparr>elems := x\<rparr>)"
  and sameData_anon [simp]: "sameData st (st\<lparr>anon := y\<rparr>)"
  and sameData_timers [simp]: "sameData st (st\<lparr>timers := z\<rparr>)"
  and sameData_navClasses [simp]: "sameData st (st\<lparr>navClasses := n\<rparr>)"
  and sameData_adminTabs [simp]: "sameData st (st\<lparr>adminTabs := t\<rparr>)"
  and sameData_submitButtons [simp]: "sameData st (st\<lparr>submitButtons := b\<rparr>)"
  and sameData_appState [simp]: "sameData st (st\<lparr>appState := a\<rparr>)"
  by (simp_all add: sameData_def)

lemma sameData_andThen:
  assumes "sameData st (stateOf r)" and "\<And>s. sameData s (stateOf (f s))"
  shows "sameData st (stateOf (andThen r f))"
proof (cases r)
  case (Normal s)
  with assms(1) have "sameData st s" by (simp add: stateOf_def)
  moreover have "sameData s (stateOf (f s))" by (rule assms(2))
  ultimately show ?thesis using Normal by (auto simp: andThen_def intro: sameData_trans)
next
  case (Thrown e s)
  with assms(1) show ?thesis by (simp add: andThen_def stateOf_def)
qed

lemma stateOf_simps [simp]: "stateOf (Normal s) = s" "stateOf (Thrown e s) = s"
  by (simp_all add: stateOf_def)

lemma sameData_setTimeout [simp]: "sameData st (setTimeout t d st)"
  by (simp add: setTimeout_def)

lemma sameData_forEachElement [simp]: "sameData st (forEachElement p f st)"
  by (simp add: forEachElement_def)

lemma sameData_notifyArea [simp]: "sameData st (notifyArea m t st)"
  by (auto simp: notifyArea_def setTimeout_def sameData_def split: option.splits)

lemma sameData_showNotification [simp]: "sameData st (showNotification m t i st)"
  by (auto simp: showNotification_def setTimeout_def sameData_def notifyArea_def split: option.splits)

lemma sameData_hideNotification [simp]: "sameData st (hideNotification r st)"
  by (auto simp: hideNotification_def split: option.splits elref.splits)

lemma sameData_setLoading [simp]: "sameData st (setLoading b st)"
  by (simp add: setLoading_def sameData_def)

lemma sameData_clearFormErrors [simp]: "sameData st (clearFormErrors f st)"
  by (auto simp: clearFormErrors_def split: option.splits)

lemma sameData_showFormErrors [simp]: "sameData st (showFormErrors errs st)"
  unfolding showFormErrors_def
proof (induction errs arbitrary: st)
  case Nil
  show ?case by simp
next
  case (Cons a errs)
  obtain field message where a: "a = (field, message)" by (cases a)
  show ?case
  proof (cases "elems st (field @ js ''Error'')")
    case None
    with a show ?thesis using Cons.IH [of st] by simp
  next
    case (Some e)
    let ?st' = "st\<lparr>elems := (elems st)(field @ js ''Error'' \<mapsto>
                  classRemove (js ''hidden'') (setTextContent message e))\<rparr>"
    have "sameData st ?st'" by simp
    moreover have "sameData ?st' (foldl
         (\<lambda>s (field, message).
             case elems s (field @ js ''Error'') of
               None \<Rightarrow> s
             | Some errorElement \<Rightarrow>
                 s\<lparr>elems := (elems s)(field @ js ''Error'' \<mapsto>
                      classRemove (js ''hidden'') (setTextContent message errorElement))\<rparr>)
         ?st' errs)"
      by (rule Cons.IH)
    ultimately have "sameData st (foldl
         (\<lambda>s (field, message).
             case elems s (field @ js ''Error'') of
               None \<Rightarrow> s
             | Some errorElement \<Rightarrow>
                 s\<lparr>elems := (elems s)(field @ js ''Error'' \<mapsto>
                      classRemove (js ''hidden'') (setTextContent message errorElement))\<rparr>)
         ?st' errs)"
      by (rule sameData_trans)
    then show ?thesis
      using a Some by simp
  qed
qed

lemma sameData_resetForm [simp]: "sameData st (resetForm f st)"
  by (simp add: resetForm_def)

lemma sameData_withElement [simp]: "sameData st (stateOf (withElement i f st))"
  by (auto simp: withElement_def split: option.splits)

lemma sameData_resetFormById [simp]: "sameData st (stateOf (resetFormById f st))"
  by (auto simp: resetFormById_def split: option.splits)

lemma sameData_updateUserActivity [simp]: "sameData st (updateUserActivity ev st)"
  by (simp add: updateUserActivity_def)

lemma sameData_updateActiveNav [simp]: "sameData st (stateOf (updateActiveNav i st))"
  by (auto simp: updateActiveNav_def Let_def sameData_def split: nav_query.splits)

lemma sameData_openAdminTab [simp]: "sameData st (openAdminTab t st)"
  by (auto simp: openAdminTab_def Let_def sameData_def forEachElement_def split: option.splits)

lemma sameData_updateDashboard [simp]: "sameData st (stateOf (updateDashboard st))"
  unfolding updateDashboard_def
  by (auto intro!: sameData_andThen)

lemma sameData_updateAuthButtons [simp]: "sameData st (stateOf (updateAuthButtons st))"
  unfolding updateAuthButtons_def
  by (auto intro!: sameData_andThen)

lemma sameData_renderProfile [simp]: "sameData st (stateOf (renderProfile b st))"
  unfolding renderProfile_def
  by (auto intro!: sameData_andThen split: option.splits)

lemma sameData_onSectionShow [simp]: "sameData st (stateOf (onSectionShow i st))"
  by (simp add: onSectionShow_def)

lemma sameData_closeMobileMenu [simp]: "sameData st (stateOf (closeMobileMenu st))"
  by (auto simp: closeMobileMenu_def split: option.splits)

lemma sameData_showSection [simp]: "sameData st (stateOf (showSection ev i st))"
proof -
  let ?st1 = "st\<lparr>appState := (appState st)\<lparr>currentSection := i\<rparr>\<rparr>"
  let ?st2 = "forEachElement el_section (classAdd (js ''hidden'')) ?st1"
  have a: "sameData st ?st2"
    by (rule sameData_trans [of _ ?st1]) simp_all
  have b: "sameData st (stateOf (updateActiveNav i (?st2\<lparr>elems := x\<rparr>)))" for x
    by (rule sameData_trans [OF a], rule sameData_trans [of _ "?st2\<lparr>elems := x\<rparr>"]) simp_all
  have c: "sameData st
     (stateOf (case elems ?st2 i of
        None \<Rightarrow> Normal ?st2
      | Some targetSection \<Rightarrow>
          andThen
            (updateActiveNav i
               (?st2\<lparr>elems := (elems ?st2)(i \<mapsto> classRemove (js ''hidden'') targetSection)\<rparr>))
            (onSectionShow i)))"
  proof (cases "elems ?st2 i")
    case None
    then show ?thesis using a by simp
  next
    case (Some t)
    then show ?thesis by (simp only: option.case) (intro sameData_andThen b sameData_onSectionShow)
  qed
  show ?thesis
    unfolding showSection_def Let_def
    by (intro sameData_andThen c) (simp_all)
qed

lemma sameData_renderList [simp]: "sameData st (renderList l h p items st)"
  by (auto simp: renderList_def split: option.splits)

lemma sameData_resetFormById_clear:
  "sameData st (stateOf (resetFormById f (clearFormErrors g st)))"
  by (rule sameData_trans [OF sameData_clearFormErrors sameData_resetFormById])

lemma sameData_clearForms [simp]: "sameData st (stateOf (clearForms st))"
  unfolding clearForms_def
  by (intro sameData_andThen sameData_resetFormById_clear sameData_resetFormById) simp

section \<open>Outcomes\<close>

lemma isNormal_simps [simp]: "isNormal (Normal s)" "\<not> isNormal (Thrown e s)"
  by (simp_all add: isNormal_def)

lemma isNormal_andThen [simp]:
  "isNormal (andThen r f) \<longleftrightarrow> isNormal r \<and> isNormal (f (stateOf r))"
  by (cases r) (simp_all add: andThen_def)

lemma stateOf_andThen: "isNormal r \<Longrightarrow> stateOf (andThen r f) = stateOf (f (stateOf r))"
  by (cases r) (simp_all add: andThen_def)

lemma isNormal_stateOf: "isNormal r \<Longrightarrow> r = Normal (stateOf r)"
  by (cases r) simp_all

lemma andThen_rel:
  assumes trans: "\<And>a b c. R a b \<Longrightarrow> R b c \<Longrightarrow> R a c"
    and "R st (stateOf r)" and "\<And>s. R s (stateOf (f s))"
  shows "R st (stateOf (andThen r f))"
proof (cases r)
  case (Normal s)
  with assms(2) have "R st s" by simp
  moreover have "R s (stateOf (f s))" by (rule assms(3))
  ultimately have "R st (stateOf (f s))" by (rule trans)
  with Normal show ?thesis by (simp add: andThen_def)
next
  case (Thrown e s)
  with assms(2) show ?thesis by (simp add: andThen_def)
qed

subsection \<open>Elements and values that a function leaves alone\<close>

lemma sameControls_refl [simp]: "sameControls st st"
  by (simp add: sameControls_def)

lemma sameControls_trans: "sameControls a b \<Longrightarrow> sameControls b c \<Longrightarrow> sameControls a c"
  by (simp add: sameControls_def)

lemmas sameControls_andThen = andThen_rel [of sameControls, OF sameControls_trans]

lemma sameControls_other [simp]:
  "sameControls st (st\<lparr>anon := y\<rparr>)"
  "sameControls st (st\<lparr>timers := z\<rparr>)"
  "sameControls st (st\<lparr>navClasses := n\<rparr>)"
  "sameControls st (st\<lparr>adminTabs := t\<rparr>)"
  "sameControls st (st\<lparr>submitButtons := b\<rparr>)"
  "sameControls st (st\<lparr>appState := a\<rparr>)"
  "sameControls st (st\<lparr>currentUser := u\<rparr>)"
  "sameControls st (st\<lparr>database := d\<rparr>)"
  by (simp_all add: sameControls_def valueOf_def shapeOf_def)

lemma keepsControl_simps [simp]:
  "keepsControl (classAdd c)" "keepsControl (classRemove c)" "keepsControl (setTextContent t)"
  "keepsControl (setInnerHTML h)" "keepsControl (notify m t)"
  by (simp_all add: keepsControl_def classAdd_def classRemove_def setTextContent_def
      setInnerHTML_def notify_def)

lemma keepsControl_comp [simp]:
  "keepsControl f \<Longrightarrow> keepsControl g \<Longrightarrow> keepsControl (\<lambda>e. f (g e))"
  by (simp add: keepsControl_def)

lemma sameControls_update:
  "elems st i = Some e \<Longrightarrow> keepsControl f \<Longrightarrow> sameControls st (st\<lparr>elems := (elems st)(i \<mapsto> f e)\<rparr>)"
  by (simp add: sameControls_def valueOf_def shapeOf_def keepsControl_def)

lemma sameControls_elemsI:
  "elems st i = Some e \<Longrightarrow> keepsControl f \<Longrightarrow> navQuery st' = navQuery st \<Longrightarrow>
   elems st' = (elems st)(i \<mapsto> f e) \<Longrightarrow> sameControls st st'"
  by (simp add: sameControls_def valueOf_def shapeOf_def keepsControl_def)

lemma sameControls_forEachElement:
  "keepsControl f \<Longrightarrow> sameControls st (forEachElement p f st)"
  by (auto simp: sameControls_def valueOf_def shapeOf_def keepsControl_def forEachElement_def
      split: option.splits)

lemma sameControls_withElement:
  "keepsControl f \<Longrightarrow> sameControls st (stateOf (withElement i f st))"
  by (auto simp: withElement_def sameControls_update split: option.splits)

lemma sameControls_setTimeout [simp]: "sameControls st (setTimeout t d st)"
  by (simp add: setTimeout_def)

lemma sameControls_notifyArea [simp]: "sameControls st (notifyArea m t st)"
  by (auto simp: notifyArea_def setTimeout_def sameControls_def valueOf_def shapeOf_def
      split: option.splits)

lemma sameControls_showNotification [simp]: "sameControls st (showNotification m t i st)"
proof (cases i)
  case None
  then show ?thesis by (simp add: showNotification_def)
next
  case (Some j)
  show ?thesis
  proof (cases "elems st j")
    case None
    with Some show ?thesis by (simp add: showNotification_def)
  next
    case (Some e)
    have "sameControls st (st\<lparr>elems := (elems st)(j \<mapsto> notify m t e)\<rparr>)"
      using Some by (rule sameControls_update) simp
    then have "sameControls st
        (setTimeout (HideNotification (ById j)) 3000 (st\<lparr>elems := (elems st)(j \<mapsto> notify m t e)\<rparr>))"
      by (rule sameControls_trans) simp
    with Some \<open>i = Some j\<close> show ?thesis by (simp add: showNotification_def)
  qed
qed

lemma sameControls_setLoading [simp]: "sameControls st (setLoading b st)"
  by (simp add: setLoading_def sameControls_def valueOf_def shapeOf_def)

lemma sameControls_clearFormErrors [simp]: "sameControls st (clearFormErrors f st)"
  by (auto simp: clearFormErrors_def intro!: sameControls_forEachElement split: option.splits)

lemma sameControls_showFormErrors [simp]: "sameControls st (showFormErrors errs st)"
  unfolding showFormErrors_def
proof (induction errs arbitrary: st)
  case Nil
  show ?case by simp
next
  case (Cons a errs)
  obtain field message where a: "a = (field, message)" by (cases a)
  show ?case
  proof (cases "elems st (field @ js ''Error'')")
    case None
    with a show ?thesis using Cons.IH [of st] by simp
  next
    case (Some e)
    let ?st' = "st\<lparr>elems := (elems st)(field @ js ''Error'' \<mapsto>
                  classRemove (js ''hidden'') (setTextContent message e))\<rparr>"
    let ?F = "\<lambda>s (field, message).
             case elems s (field @ js ''Error'') of
               None \<Rightarrow> s
             | Some errorElement \<Rightarrow>
                 s\<lparr>elems := (elems s)(field @ js ''Error'' \<mapsto>
                      classRemove (js ''hidden'') (setTextContent message errorElement))\<rparr>"
    have "sameControls st ?st'" using Some by (rule sameControls_update) simp
    moreover have "sameControls ?st' (foldl ?F ?st' errs)"
      by (rule Cons.IH)
    ultimately have "sameControls st (foldl ?F ?st' errs)"
      by (rule sameControls_trans)
    then show ?thesis
      using a Some by simp
  qed
qed

lemma sameControls_updateUserActivity [simp]: "sameControls st (updateUserActivity ev st)"
  by (simp add: updateUserActivity_def)

lemma sameControls_updateActiveNav [simp]: "sameControls st (stateOf (updateActiveNav i st))"
  by (auto simp: updateActiveNav_def Let_def sameControls_def valueOf_def shapeOf_def
      split: nav_query.splits)

lemma sameControls_openAdminTab [simp]: "sameControls st (openAdminTab t st)"
proof -
  let ?st1 = "forEachElement (hasClass (js ''admin-tab-content'')) (classAdd (js ''hidden'')) st"
  let ?st2 = "?st1\<lparr>adminTabs := map (\<lambda>tab. tab\<lparr>tab_classes := removeAll (js ''active'') (tab_classes tab)\<rparr>)
                    (adminTabs ?st1)\<rparr>"
  let ?st3 = "case elems ?st2 (t @ js ''-tab'') of
                   None \<Rightarrow> ?st2
                 | Some tabContent \<Rightarrow>
                     ?st2\<lparr>elems := (elems ?st2)(t @ js ''-tab'' \<mapsto>
                           classRemove (js ''hidden'') tabContent)\<rparr>"
  have 1: "sameControls st ?st1" by (rule sameControls_forEachElement) simp
  have 2: "sameControls ?st1 ?st2" by simp
  have 3: "sameControls ?st2 ?st3"
  proof (cases "elems ?st2 (t @ js ''-tab'')")
    case None
    then show ?thesis by simp
  next
    case (Some a)
    have "sameControls ?st2
       (?st2\<lparr>elems := (elems ?st2)(t @ js ''-tab'' \<mapsto> classRemove (js ''hidden'') a)\<rparr>)"
      using Some by (rule sameControls_elemsI [where f = "classRemove (js ''hidden'')"]) simp_all
    with Some show ?thesis by (simp only: option.case)
  qed
  have "sameControls st ?st3"
    by (rule sameControls_trans [OF sameControls_trans [OF 1 2] 3])
  then have "sameControls st (?st3\<lparr>adminTabs := x\<rparr>)" for x
    by (rule sameControls_trans) simp
  then show ?thesis
    unfolding openAdminTab_def Let_def .
qed

lemma sameControls_updateDashboard [simp]: "sameControls st (stateOf (updateDashboard st))"
  unfolding updateDashboard_def
  by (auto intro!: sameControls_andThen sameControls_withElement)

lemma sameControls_updateAuthButtons [simp]: "sameControls st (stateOf (updateAuthButtons st))"
  unfolding updateAuthButtons_def
  by (auto intro!: sameControls_andThen sameControls_withElement)

lemma sameControls_renderProfile [simp]: "sameControls st (stateOf (renderProfile b st))"
  unfolding renderProfile_def
  by (auto intro!: sameControls_andThen sameControls_withElement split: option.splits)

lemma sameControls_onSectionShow [simp]: "sameControls st (stateOf (onSectionShow i st))"
  by (simp add: onSectionShow_def)

lemma sameControls_closeMobileMenu [simp]: "sameControls st (stateOf (closeMobileMenu st))"
  by (auto simp: closeMobileMenu_def split: option.splits)

lemma sameControls_showSection [simp]: "sameControls st (stateOf (showSection ev i st))"
proof -
  let ?st1 = "st\<lparr>appState := (appState st)\<lparr>currentSection := i\<rparr>\<rparr>"
  let ?st2 = "forEachElement el_section (classAdd (js ''hidden'')) ?st1"
  have a: "sameControls st ?st2"
    by (rule sameControls_trans [of _ ?st1]) (simp_all add: sameControls_forEachElement)
  have c: "sameControls st
     (stateOf (case elems ?st2 i of
        None \<Rightarrow> Normal ?st2
      | Some targetSection \<Rightarrow>
          andThen
            (updateActiveNav i
               (?st2\<lparr>elems := (elems ?st2)(i \<mapsto> classRemove (js ''hidden'') targetSection)\<rparr>))
            (onSectionShow i)))"
  proof (cases "elems ?st2 i")
    case None
    then show ?thesis using a by simp
  next
    case (Some t)
    let ?st3 = "?st2\<lparr>elems := (elems ?st2)(i \<mapsto> classRemove (js ''hidden'') t)\<rparr>"
    have "sameControls ?st2 ?st3" using Some by (rule sameControls_update) simp
    with a have "sameControls st ?st3" by (rule sameControls_trans)
    then have "sameControls st (stateOf (updateActiveNav i ?st3))"
      by (rule sameControls_trans) simp
    then show ?thesis
      using Some by (simp only: option.case) (intro sameControls_andThen sameControls_onSectionShow)
  qed
  show ?thesis
    unfolding showSection_def Let_def
    by (intro sameControls_andThen c sameControls_withElement) simp_all
qed

lemma sameControls_renderList [simp]: "sameControls st (renderList l h p items st)"
  by (auto simp: renderList_def sameControls_update split: option.splits)

lemma sameControls_renders [simp]:
  "sameControls st (renderAnnouncements st)" "sameControls st (renderEvents ev st)"
  "sameControls st (renderSchedules ev st)" "sameControls st (renderUsers st)"
  by (simp_all add: renderAnnouncements_def renderEvents_def renderSchedules_def renderUsers_def)

lemma sameControls_valueOf: "sameControls st st' \<Longrightarrow> valueOf i st' = valueOf i st"
  and sameControls_shapeOf: "sameControls st st' \<Longrightarrow> shapeOf i st' = shapeOf i st"
  and sameControls_navQuery: "sameControls st st' \<Longrightarrow> navQuery st' = navQuery st"
  by (simp_all add: sameControls_def)

lemma sameControls_valueTrim: "sameControls st st' \<Longrightarrow> valueTrim i st' = valueTrim i st"
  by (simp add: valueTrim_def sameControls_valueOf)

lemma valueOf_clearFormErrors [simp]: "valueOf i (clearFormErrors f st) = valueOf i st"
  by (rule sameControls_valueOf) simp

lemma valueTrim_clearFormErrors [simp]: "valueTrim i (clearFormErrors f st) = valueTrim i st"
  by (rule sameControls_valueTrim) simp

section \<open>Deleting by id\<close>

lemma sameData_database: "sameData st st' \<Longrightarrow> database st' = database st"
  and sameData_currentUser: "sameData st st' \<Longrightarrow> currentUser st' = currentUser st"
  and sameData_userProfileData: "sameData st st' \<Longrightarrow> userProfileData st' = userProfileData st"
  by (simp_all add: sameData_def)

lemma sameData_renderAnnouncements [simp]: "sameData st (renderAnnouncements st)"
  and sameData_renderEvents [simp]: "sameData st (renderEvents ev st)"
  and sameData_renderSchedules [simp]: "sameData st (renderSchedules ev st)"
  and sameData_renderUsers [simp]: "sameData st (renderUsers st)"
  by (simp_all add: renderAnnouncements_def renderEvents_def renderSchedules_def renderUsers_def)

lemma database_showNotification [simp]: "database (showNotification m t i st) = database st"
  by (rule sameData_database) simp

lemma database_renders [simp]:
  "database (renderAnnouncements st) = database st"
  "database (renderEvents ev st) = database st"
  "database (renderSchedules ev st) = database st"
  "database (renderUsers st) = database st"
  by (rule sameData_database, simp)+

lemma database_resetForm [simp]: "database (resetForm f st) = database st"
  by (rule sameData_database) simp

lemma filter_ne_absent: "\<forall>x\<in>set xs. f x \<noteq> i \<Longrightarrow> filter (\<lambda>x. f x \<noteq> i) xs = xs"
  by (induction xs) auto

lemma filter_ne_distinct:
  "distinct (map f xs) \<Longrightarrow> r \<in> set xs \<Longrightarrow> filter (\<lambda>x. f x \<noteq> f r) xs = remove1 r xs"
proof (induction xs)
  case Nil
  then show ?case by simp
next
  case (Cons x xs)
  show ?case
  proof (cases "x = r")
    case True
    from Cons.prems(1) have "f x \<notin> f ` set xs" by simp
    with True have "\<forall>y\<in>set xs. f y \<noteq> f r" by (metis imageI)
    then have "filter (\<lambda>y. f y \<noteq> f r) xs = xs" by (rule filter_ne_absent)
    with True show ?thesis by simp
  next
    case False
    with Cons.prems have r: "r \<in> set xs" and d: "distinct (map f xs)" and "f x \<noteq> f r"
      by auto
    with Cons.IH False show ?thesis by simp
  qed
qed

lemma remove_by_id:
  fixes f :: "'r \<Rightarrow> int"
  assumes "new = filter (\<lambda>x. f x \<noteq> i) old"
  shows "subseq new old \<and> (\<forall>x\<in>set new. f x \<noteq> i) \<and>
     length new + length (filter (\<lambda>x. f x = i) old) = length old \<and>
     ((\<forall>x\<in>set old. f x \<noteq> i) \<longrightarrow> new = old) \<and>
     (distinct (map f old) \<longrightarrow>
        (\<forall>x\<in>set old. f x = i \<longrightarrow> new = remove1 x old \<and> Suc (length new) = length old))"
proof (intro conjI impI ballI)
  show "subseq new old" unfolding assms by (rule subseq_filter_left)
  show "f x \<noteq> i" if "x \<in> set new" for x using that unfolding assms by simp
  show "length new + length (filter (\<lambda>x. f x = i) old) = length old"
    unfolding assms using sum_length_filter_compl [of "\<lambda>x. f x = i" old]
    by (simp add: comp_def add.commute)
  show "new = old" if "\<forall>x\<in>set old. f x \<noteq> i" unfolding assms using that by (rule filter_ne_absent)
  show "new = remove1 x old" if "distinct (map f old)" "x \<in> set old" "f x = i" for x
    unfolding assms using filter_ne_distinct [OF that(1,2)] that(3) by simp
  then show "Suc (length new) = length old" if "distinct (map f old)" "x \<in> set old" "f x = i" for x
    using that by (simp add: length_remove1) (cases old; auto)
qed

lemma deleteAnnouncement_filter:
  "announcements (database (deleteAnnouncement True i st)) =
     filter (\<lambda>a. a_id a \<noteq> i) (announcements (database st))"
  by (simp add: deleteAnnouncement_def)

lemma deleteEvent_filter:
  "events (database (deleteEvent ev True i st)) =
     filter (\<lambda>e. e_id e \<noteq> i) (events (database st))"
  by (simp add: deleteEvent_def)

lemma deleteSchedule_filter:
  "schedules (database (deleteSchedule ev True i st)) =
     filter (\<lambda>s. s_id s \<noteq> i) (schedules (database st))"
  by (simp add: deleteSchedule_def)

lemma deleteUser_filter:
  "users (database (deleteUser True i st)) =
     filter (\<lambda>u. pu_id u \<noteq> i) (users (database st))"
  by (simp add: deleteUser_def)

section \<open>The form handlers, once the fields are read\<close>

lemma loginSubmit_unfold:
  assumes "valueTrim (js ''loginEmail'') st = Some email"
    and "valueTrim (js ''loginPassword'') st = Some password"
    and "valueOf (js ''loginUserType'') st = Some userType"
  shows "loginSubmit st =
     (let st1 = clearFormErrors (js ''loginForm'') st;
          validation =
            validateOwn
              (obj [(js ''email'', Some email), (js ''password'', Some password),
                    (js ''userType'', userType)])
              [js ''email'', js ''password'', js ''userType'']
      in if \<not> isValid validation
         then Normal (showFormErrors (errors validation) st1)
         else Normal (setTimeout (LoginComplete email userType) 1000 (setLoading True st1)))"
  using assms by (simp add: loginSubmit_def Let_def validateForm_lists)

lemma registerSubmit_unfold:
  assumes "valueTrim (js ''regName'') st = Some name"
    and "valueTrim (js ''regEmail'') st = Some email"
    and "valueTrim (js ''regPassword'') st = Some password"
    and "valueOf (js ''regUserType'') st = Some userType"
  shows "registerSubmit st =
     (let st1 = clearFormErrors (js ''registerForm'') st;
          validation =
            validateOwn
              (obj [(js ''name'', Some name), (js ''email'', Some email),
                    (js ''password'', Some password), (js ''userType'', userType)])
              [js ''name'', js ''email'', js ''password'', js ''userType'']
      in if \<not> isValid validation
         then Normal (showFormErrors (errors validation) st1)
         else Normal (setTimeout (RegisterComplete name email userType) 1000
                        (setLoading True st1)))"
  using assms by (simp add: registerSubmit_def Let_def validateForm_lists)

lemma currentUser_clearFormErrors [simp]:
  "currentUser (clearFormErrors f st) = currentUser st"
  by (rule sameData_currentUser) simp

lemma database_clearFormErrors [simp]:
  "database (clearFormErrors f st) = database st"
  by (rule sameData_database) simp

lemma announcementSubmit_unfold:
  assumes "valueTrim (js ''announcementTitle'') st = Some title"
    and "valueTrim (js ''announcementContent'') st = Some content"
    and "valueOf (js ''announcementPriority'') st = Some priority"
  shows "announcementSubmit ev st =
     (let st1 = clearFormErrors (js ''announcementForm'') st;
          validation =
            validateOwn
              (obj [(js ''title'', Some title), (js ''content'', Some content),
                    (js ''priority'', priority)])
              [js ''title'', js ''content'']
      in if \<not> isValid validation
         then Normal (showFormErrors (errors validation) st1)
         else
           (case currentUser st of
              None \<Rightarrow> Thrown TypeError st1
            | Some u \<Rightarrow>
                Normal
                  (resetForm (js ''announcementForm'')
                     (showNotification (js ''Announcement posted successfully!'')
                        (js ''success'') (Some (js ''announcementSuccessMessage''))
                        (renderAnnouncements
                           (st1\<lparr>database := (database st)\<lparr>announcements :=
                              \<lparr>a_id = now ev, a_title = title, a_content = content,
                               a_priority = priority, a_date = localeDate ev (now ev),
                               a_author = u_name u\<rparr> # announcements (database st)\<rparr>\<rparr>))))))"
  using assms by (simp add: announcementSubmit_def Let_def validateForm_lists split: option.splits)

lemma eventSubmit_unfold:
  assumes "valueTrim (js ''eventTitle'') st = Some title"
    and "valueOf (js ''eventDate'') st = Some date"
    and "valueOf (js ''eventTime'') st = Some time"
    and "valueTrim (js ''eventLocation'') st = Some location"
    and "valueTrim (js ''eventDescription'') st = Some description"
  shows "eventSubmit ev st =
     (let st1 = clearFormErrors (js ''eventForm'') st;
          validation =
            validateOwn
              (obj [(js ''title'', Some title), (js ''date'', date), (js ''time'', time),
                    (js ''location'', Some location), (js ''description'', Some description)])
              [js ''title'', js ''date'', js ''time'', js ''location'', js ''description'']
      in if \<not> isValid validation
         then Normal (showFormErrors (errors validation) st1)
         else if (case newDate ev date of
                    None \<Rightarrow> False
                  | Some eventDate \<Rightarrow> eventDate < localMidnight ev)
         then Normal (showNotification (js ''Event date must be in the future'')
                        (js ''error'') (Some (js ''eventDateError'')) st1)
         else
           (case currentUser st of
              None \<Rightarrow> Thrown TypeError st1
            | Some u \<Rightarrow>
                Normal
                  (resetForm (js ''eventForm'')
                     (showNotification (js ''Event added successfully!'')
                        (js ''success'') (Some (js ''eventSuccessMessage''))
                        (renderEvents ev
                           (st1\<lparr>database := (database st)\<lparr>events :=
                              \<lparr>e_id = now ev, e_title = title, e_description = description,
                               e_date = date, e_time = time, e_location = location,
                               e_organizer = u_name u\<rparr> # events (database st)\<rparr>\<rparr>))))))"
  using assms by (simp add: eventSubmit_def Let_def validateForm_lists split: option.splits)

lemma scheduleSubmit_unfold:
  assumes "valueTrim (js ''scheduleCourse'') st = Some course"
    and "valueOf (js ''scheduleDate'') st = Some date"
    and "valueOf (js ''scheduleTime'') st = Some time"
    and "valueTrim (js ''scheduleRoom'') st = Some room"
    and "valueTrim (js ''scheduleInstructor'') st = Some instructor"
  shows "scheduleSubmit ev st =
     (let st1 = clearFormErrors (js ''scheduleForm'') st;
          validation =
            validateOwn
              (obj [(js ''course'', Some course), (js ''date'', date), (js ''time'', time),
                    (js ''room'', Some room), (js ''instructor'', Some instructor)])
              [js ''course'', js ''date'', js ''time'', js ''room'', js ''instructor'']
      in if \<not> isValid validation
         then Normal (showFormErrors (errors validation) st1)
         else
           Normal
             (resetForm (js ''scheduleForm'')
                (showNotification (js ''Schedule updated successfully!'')
                   (js ''success'') (Some (js ''scheduleSuccessMessage''))
                   (renderSchedules ev
                      (st1\<lparr>database := (database st)\<lparr>schedules :=
                         \<lparr>s_id = now ev, s_course = course, s_date = date, s_time = time,
                          s_room = room, s_instructor = instructor\<rparr> #
                         schedules (database st)\<rparr>\<rparr>)))))"
  using assms by (simp add: scheduleSubmit_def Let_def validateForm_lists)

lemma userSubmit_unfold:
  assumes "valueTrim (js ''userName'') st = Some name"
    and "valueTrim (js ''userEmail'') st = Some email"
    and "valueOf (js ''userType'') st = Some type"
  shows "userSubmit ev st =
     (let st1 = clearFormErrors (js ''userForm'') st;
          validation =
            validateOwn
              (obj [(js ''name'', Some name), (js ''email'', Some email), (js ''type'', type)])
              [js ''name'', js ''email'', js ''type'']
      in if \<not> isValid validation
         then Normal (showFormErrors (errors validation) st1)
         else if \<not> validateEmail email
         then Normal (showNotification (js ''Please enter a valid email address'')
                        (js ''error'') (Some (js ''userEmailError'')) st1)
         else
           Normal
             (resetForm (js ''userForm'')
                (showNotification (js ''User added successfully!'')
                   (js ''success'') (Some (js ''userSuccessMessage''))
                   (renderUsers
                      (st1\<lparr>database := (database st)\<lparr>users :=
                         \<lparr>pu_id = now ev, pu_name = name, pu_email = email, pu_type = type\<rparr> #
                         users (database st)\<rparr>\<rparr>)))))"
  using assms by (simp add: userSubmit_def Let_def validateForm_lists)

section \<open>Showing the messages of a failed validation\<close>

lemma distinct_checkOwn:
  "distinct (map fst errs) \<Longrightarrow> distinct (map fst (checkOwn M errs f))"
  by (simp add: checkOwn_def Let_def distinct_update split: option.splits)

lemma distinct_foldl_checkOwn:
  "distinct (map fst errs) \<Longrightarrow> distinct (map fst (foldl (checkOwn M) errs R))"
  by (induction R arbitrary: errs) (simp_all add: distinct_checkOwn)

lemma distinct_validateOwn: "distinct (map fst (errors (validateOwn M R)))"
  by (simp add: validateOwn_def Let_def distinct_foldl_checkOwn)

lemma fieldMessage_nonempty: "fieldMessage M f = Some msg \<Longrightarrow> msg \<noteq> []"
  by (auto simp: fieldMessage_def split: if_splits)

lemma validateOwn_message_nonempty:
  "map_of (errors (validateOwn M R)) f = Some msg \<Longrightarrow> msg \<noteq> []"
  by (auto simp: validateOwn_map_of fieldMessage_nonempty split: if_splits)

text \<open>One step of \<open>showFormErrors\<close>.\<close>

lemma showFormErrors_Cons:
  "showFormErrors ((field, message) # errs) st =
     showFormErrors errs
       (case elems st (field @ js ''Error'') of
          None \<Rightarrow> st
        | Some errorElement \<Rightarrow>
            st\<lparr>elems := (elems st)(field @ js ''Error'' \<mapsto>
                 classRemove (js ''hidden'') (setTextContent message errorElement))\<rparr>)"
  by (simp add: showFormErrors_def)

lemma showFormErrors_Nil [simp]: "showFormErrors [] st = st"
  by (simp add: showFormErrors_def)

lemma showFormErrors_other:
  "f \<notin> fst ` set errs \<Longrightarrow> elems (showFormErrors errs st) (f @ js ''Error'') = elems st (f @ js ''Error'')"
proof (induction errs arbitrary: st)
  case Nil
  show ?case by simp
next
  case (Cons a errs)
  obtain g m where a: "a = (g, m)" by (cases a)
  with Cons.prems have ne: "f \<noteq> g" and rest: "f \<notin> fst ` set errs" by auto
  show ?case
    unfolding a showFormErrors_Cons
    by (subst Cons.IH [OF rest]) (use ne in \<open>auto split: option.splits\<close>)
qed

lemma showFormErrors_shown:
  assumes "distinct (map fst errs)" and "map_of errs f = Some msg"
    and "elems st (f @ js ''Error'') = Some e"
  shows "elems (showFormErrors errs st) (f @ js ''Error'') =
           Some (classRemove (js ''hidden'') (setTextContent msg e))"
  using assms
proof (induction errs arbitrary: st)
  case Nil
  then show ?case by simp
next
  case (Cons a errs)
  obtain g m where a: "a = (g, m)" by (cases a)
  show ?case
  proof (cases "f = g")
    case True
    with Cons.prems a have msg: "msg = m" and rest: "f \<notin> fst ` set errs" by auto
    show ?thesis
      unfolding a showFormErrors_Cons
      by (subst showFormErrors_other [OF rest]) (use True msg Cons.prems(3) in simp)
  next
    case False
    with Cons.prems a have d: "distinct (map fst errs)" and m: "map_of errs f = Some msg"
      by auto
    let ?st' = "case elems st (g @ js ''Error'') of
          None \<Rightarrow> st
        | Some errorElement \<Rightarrow>
            st\<lparr>elems := (elems st)(g @ js ''Error'' \<mapsto>
                 classRemove (js ''hidden'') (setTextContent m errorElement))\<rparr>"
    have "elems ?st' (f @ js ''Error'') = Some e"
      using False Cons.prems(3) by (auto split: option.splits)
    with d m have "elems (showFormErrors errs ?st') (f @ js ''Error'') =
           Some (classRemove (js ''hidden'') (setTextContent msg e))"
      by (rule Cons.IH)
    then show ?thesis
      unfolding a showFormErrors_Cons .
  qed
qed

text \<open>
  After \<open>clearFormErrors\<close> and \<open>showFormErrors\<close>, the element of every field with a
  message shows that message.
\<close>

lemma errors_surfaced:
  assumes "map_of (errors (validateOwn M R)) f = Some msg"
    and "shapeOf (f @ js ''Error'') st \<noteq> None"
  shows "childrenOf (f @ js ''Error'')
           (showFormErrors (errors (validateOwn M R)) (clearFormErrors form st)) = Some [Txt msg] \<and>
         hiddenOf (f @ js ''Error'')
           (showFormErrors (errors (validateOwn M R)) (clearFormErrors form st)) = Some False"
proof -
  let ?st1 = "clearFormErrors form st"
  have "shapeOf (f @ js ''Error'') ?st1 = shapeOf (f @ js ''Error'') st"
    by (rule sameControls_shapeOf) simp
  with assms(2) obtain e where e: "elems ?st1 (f @ js ''Error'') = Some e"
    by (auto simp: shapeOf_def)
  have "elems (showFormErrors (errors (validateOwn M R)) ?st1) (f @ js ''Error'') =
          Some (classRemove (js ''hidden'') (setTextContent msg e))"
    using distinct_validateOwn assms(1) e by (rule showFormErrors_shown)
  moreover have "msg \<noteq> []" using assms(1) by (rule validateOwn_message_nonempty)
  ultimately show ?thesis
    by (simp add: childrenOf_def hiddenOf_def classRemove_def setTextContent_def)
qed

lemma invalid_keeps_data:
  "sameData st (showFormErrors errs (clearFormErrors form st))"
  by (rule sameData_trans [OF sameData_clearFormErrors sameData_showFormErrors])

lemma invalid_submission:
  assumes "r = Normal (showFormErrors (errors (validateOwn M R)) (clearFormErrors form st))"
  shows "isNormal r \<and> currentUser (stateOf r) = currentUser st \<and>
     database (stateOf r) = database st \<and> userProfileData (stateOf r) = userProfileData st \<and>
     (\<forall>f msg. map_of (errors (validateOwn M R)) f = Some msg \<longrightarrow>
        shapeOf (f @ js ''Error'') st \<noteq> None \<longrightarrow>
        childrenOf (f @ js ''Error'') (stateOf r) = Some [Txt msg] \<and>
        hiddenOf (f @ js ''Error'') (stateOf r) = Some False)"
proof -
  have "sameData st (stateOf r)"
    unfolding assms stateOf_simps by (rule invalid_keeps_data)
  then have "currentUser (stateOf r) = currentUser st \<and> database (stateOf r) = database st \<and>
     userProfileData (stateOf r) = userProfileData st"
    by (simp add: sameData_def)
  moreover have "isNormal r" unfolding assms by simp
  moreover have "\<forall>f msg. map_of (errors (validateOwn M R)) f = Some msg \<longrightarrow>
        shapeOf (f @ js ''Error'') st \<noteq> None \<longrightarrow>
        childrenOf (f @ js ''Error'') (stateOf r) = Some [Txt msg] \<and>
        hiddenOf (f @ js ''Error'') (stateOf r) = Some False"
    unfolding assms stateOf_simps by (intro allI impI) (rule errors_surfaced)
  ultimately show ?thesis by blast
qed

section \<open>The example page\<close>

lemma valueOf_typeInto:
  "valueOf j (typeInto i v st) =
     (if j = js i \<and> elems st (js i) \<noteq> None then Some (Some (js v)) else valueOf j st)"
  by (auto simp: typeInto_def valueOf_def split: option.splits)

lemma shapeOf_typeInto [simp]: "shapeOf j (typeInto i v st) = shapeOf j st"
  by (auto simp: typeInto_def shapeOf_def split: option.splits)

lemma present_typeInto [simp]: "elems (typeInto i v st) j = None \<longleftrightarrow> elems st j = None"
  by (auto simp: typeInto_def split: option.splits)

lemma data_typeInto [simp]:
  "currentUser (typeInto i v st) = currentUser st"
  "database (typeInto i v st) = database st"
  "userProfileData (typeInto i v st) = userProfileData st"
  "appState (typeInto i v st) = appState st"
  "anon (typeInto i v st) = anon st"
  "navQuery (typeInto i v st) = navQuery st"
  "timers (typeInto i v st) = timers st"
  by (simp_all add: typeInto_def split: option.splits)

lemma example_elems:
  "elems (exampleState t) (js ''home'') = Some (sectionElement False)"
  "elems (exampleState t) (js ''dashboard'') = Some (sectionElement True)"
  "elems (exampleState t) (js ''regName'') = Some (control ''registerForm'' [])"
  "elems (exampleState t) (js ''regEmail'') = Some (control ''registerForm'' [])"
  "elems (exampleState t) (js ''regPassword'') = Some (control ''registerForm'' [])"
  "elems (exampleState t) (js ''regUserType'') = Some (control ''registerForm'' [])"
  "elems (exampleState t) (js ''profile'') = Some (sectionElement True)"
  "elems (exampleState t) (js ''main-nav'') = Some createElement"
  "elems (exampleState t) (js ''authButtons'') = Some createElement"
  "elems (exampleState t) (js ''heroButtons'') = Some createElement"
  "elems (exampleState t) (js ''userRole'') = Some createElement"
  "elems (exampleState t) (js ''userAvatar'') = Some createElement"
  "elems (exampleState t) (js ''profileName'') = Some createElement"
  "elems (exampleState t) (js ''profileRole'') = Some createElement"
  "elems (exampleState t) (js ''profileEmail'') = Some createElement"
  "elems (exampleState t) (js ''profileAvatar'') = Some createElement"
  "elems (exampleState t) (js ''profileInfoContent'') = Some createElement"
  "elems (exampleState t) (js ''profileActions'') = Some createElement"
  "elems (exampleState t) (js ''studentDashboard'') = Some createElement"
  "elems (exampleState t) (js ''adminDashboard'') = Some (createElement\<lparr>el_classes := [js ''hidden'']\<rparr>)"
  "elems (exampleState t) (js ''loginForm'') = Some formElement"
  "elems (exampleState t) (js ''loginEmail'') = Some (control ''loginForm'' [])"
  "elems (exampleState t) (js ''loginPassword'') = Some (control ''loginForm'' [])"
  "elems (exampleState t) (js ''loginUserType'') = Some (control ''loginForm'' [])"
  "elems (exampleState t) (js ''emailError'') = Some (errorMessage ''loginForm'')"
  "elems (exampleState t) (js ''registerForm'') = Some formElement"
  "elems (exampleState t) (js ''announcementForm'') = Some formElement"
  "elems (exampleState t) (js ''announcementTitle'') = Some (control ''announcementForm'' [])"
  "elems (exampleState t) (js ''announcementContent'') = Some (control ''announcementForm'' [])"
  "elems (exampleState t) (js ''announcementPriority'') = Some (control ''announcementForm'' ''normal'')"
  "elems (exampleState t) (js ''eventForm'') = Some formElement"
  "elems (exampleState t) (js ''eventTitle'') = Some (control ''eventForm'' [])"
  "elems (exampleState t) (js ''eventDate'') = Some (control ''eventForm'' [])"
  "elems (exampleState t) (js ''eventTime'') = Some (control ''eventForm'' [])"
  "elems (exampleState t) (js ''eventLocation'') = Some (control ''eventForm'' [])"
  "elems (exampleState t) (js ''eventDescription'') = Some (control ''eventForm'' [])"
  "elems (exampleState t) (js ''eventDateError'') = Some (errorMessage ''eventForm'')"
  "elems (exampleState t) (js ''scheduleForm'') = Some formElement"
  "elems (exampleState t) (js ''scheduleCourse'') = Some (control ''scheduleForm'' [])"
  "elems (exampleState t) (js ''scheduleDate'') = Some (control ''scheduleForm'' [])"
  "elems (exampleState t) (js ''scheduleTime'') = Some (control ''scheduleForm'' [])"
  "elems (exampleState t) (js ''scheduleRoom'') = Some (control ''scheduleForm'' [])"
  "elems (exampleState t) (js ''scheduleInstructor'') = Some (control ''scheduleForm'' [])"
  "elems (exampleState t) (js ''userForm'') = Some formElement"
  "elems (exampleState t) (js ''userName'') = Some (control ''userForm'' [])"
  by (simp_all add: exampleState_def examplePage_def)

lemma example_data [simp]:
  "currentUser (exampleState t) = None"
  "database (exampleState t) = database_init"
  "userProfileData (exampleState t) = initialProfiles"
  "navQuery (exampleState t) = exampleNavQuery"
  "timers (exampleState t) = []"
  by (simp_all add: exampleState_def)

lemma trim_empty [simp]: "trim (js []) = []"
  by (simp add: js_def)

lemma valueOf_elems: "elems st i = Some e \<Longrightarrow> valueOf i st = Some (el_value e)"
  by (simp add: valueOf_def)

lemmas example_valueOf = example_elems [THEN valueOf_elems]

lemma el_value_control [simp]: "el_value (control f d) = Some (js d)"
  by (simp add: control_def createElement_def)

section \<open>Successful submissions of the CRUD forms\<close>

lemma sameShape_refl [simp]: "sameShape st st"
  by (simp add: sameShape_def)

lemma sameShape_trans: "sameShape a b \<Longrightarrow> sameShape b c \<Longrightarrow> sameShape a c"
  by (simp add: sameShape_def)

lemma sameControls_sameShape: "sameControls st st' \<Longrightarrow> sameShape st st'"
  by (simp add: sameControls_def sameShape_def)

lemma sameShape_resetForm [simp]: "sameShape st (resetForm f st)"
  by (auto simp: sameShape_def shapeOf_def resetForm_def forEachElement_def split: option.splits)

lemma sameShape_database [simp]: "sameShape st (st\<lparr>database := d\<rparr>)"
  by (simp add: sameShape_def shapeOf_def)

lemma sameShape_present: "sameShape st st' \<Longrightarrow> elems st' i = None \<longleftrightarrow> elems st i = None"
proof -
  assume "sameShape st st'"
  then have "shapeOf i st' = shapeOf i st" by (simp add: sameShape_def)
  then have "shapeOf i st' = None \<longleftrightarrow> shapeOf i st = None" by simp
  then show ?thesis by (simp only: shapeOf_def option.map_disc_iff)
qed

lemma currentUser_resetForm [simp]: "currentUser (resetForm f st) = currentUser st"
  by (rule sameData_currentUser) simp

lemma userProfileData_resetForm [simp]: "userProfileData (resetForm f st) = userProfileData st"
  by (rule sameData_userProfileData) simp

lemma currentUser_showNotification [simp]:
  "currentUser (showNotification m t i st) = currentUser st"
  by (rule sameData_currentUser) simp

lemma userProfileData_showNotification [simp]:
  "userProfileData (showNotification m t i st) = userProfileData st"
  by (rule sameData_userProfileData) simp

lemma currentUser_renderAnnouncements [simp]:
  "currentUser (renderAnnouncements st) = currentUser st"
  by (rule sameData_currentUser) simp

lemma currentUser_renderEvents [simp]: "currentUser (renderEvents ev st) = currentUser st"
  by (rule sameData_currentUser) simp

lemma currentUser_renderSchedules [simp]: "currentUser (renderSchedules ev st) = currentUser st"
  by (rule sameData_currentUser) simp

lemma currentUser_renderUsers [simp]: "currentUser (renderUsers st) = currentUser st"
  by (rule sameData_currentUser) simp

text \<open>What a successful submission of a CRUD form does after the record is stored.\<close>

lemma stored_sameShape:
  assumes r: "\<And>s. sameControls s (render s)"
  shows "sameShape st
     (resetForm form (showNotification m t i
        (render ((clearFormErrors form' st)\<lparr>database := d\<rparr>))))"
proof -
  let ?st1 = "clearFormErrors form' st"
  let ?st2 = "?st1\<lparr>database := d\<rparr>"
  have "sameShape st ?st1"
    by (rule sameControls_sameShape) simp
  moreover have "sameShape ?st1 ?st2" by simp
  ultimately have "sameShape st ?st2" by (rule sameShape_trans)
  moreover have "sameShape ?st2 (render ?st2)"
    by (rule sameControls_sameShape) (rule r)
  ultimately have "sameShape st (render ?st2)" by (rule sameShape_trans)
  moreover have "sameShape (render ?st2) (showNotification m t i (render ?st2))"
    by (rule sameControls_sameShape) simp
  ultimately have "sameShape st (showNotification m t i (render ?st2))"
    by (rule sameShape_trans)
  then show ?thesis
    by (rule sameShape_trans) simp
qed

lemma announcementSubmit_success:
  assumes "valueTrim (js ''announcementTitle'') st = Some title"
    and "valueTrim (js ''announcementContent'') st = Some content"
    and "valueOf (js ''announcementPriority'') st = Some priority"
    and "isValid (validateOwn
             (obj [(js ''title'', Some title), (js ''content'', Some content),
                   (js ''priority'', priority)])
             [js ''title'', js ''content''])"
    and "currentUser st = Some u"
  shows "isNormal (announcementSubmit ev st) \<and>
     database (stateOf (announcementSubmit ev st)) =
       (database st)\<lparr>announcements :=
          \<lparr>a_id = now ev, a_title = title, a_content = content, a_priority = priority,
           a_date = localeDate ev (now ev), a_author = u_name u\<rparr> #
          announcements (database st)\<rparr> \<and>
     currentUser (stateOf (announcementSubmit ev st)) = Some u \<and>
     sameShape st (stateOf (announcementSubmit ev st))"
proof -
  let ?d = "(database st)\<lparr>announcements :=
          \<lparr>a_id = now ev, a_title = title, a_content = content, a_priority = priority,
           a_date = localeDate ev (now ev), a_author = u_name u\<rparr> #
          announcements (database st)\<rparr>"
  have u: "announcementSubmit ev st =
      Normal (resetForm (js ''announcementForm'')
        (showNotification (js ''Announcement posted successfully!'') (js ''success'')
           (Some (js ''announcementSuccessMessage''))
           (renderAnnouncements ((clearFormErrors (js ''announcementForm'') st)\<lparr>database := ?d\<rparr>))))"
    using assms(4,5) by (simp add: announcementSubmit_unfold [OF assms(1-3)] Let_def)
  have "sameShape st (stateOf (announcementSubmit ev st))"
    unfolding u stateOf_simps by (rule stored_sameShape) simp
  then show ?thesis
    using assms(5) by (simp add: u)
qed

lemma eventSubmit_success:
  assumes "valueTrim (js ''eventTitle'') st = Some title"
    and "valueOf (js ''eventDate'') st = Some date"
    and "valueOf (js ''eventTime'') st = Some time"
    and "valueTrim (js ''eventLocation'') st = Some location"
    and "valueTrim (js ''eventDescription'') st = Some description"
    and "isValid (validateOwn
             (obj [(js ''title'', Some title), (js ''date'', date), (js ''time'', time),
                   (js ''location'', Some location), (js ''description'', Some description)])
             [js ''title'', js ''date'', js ''time'', js ''location'', js ''description''])"
    and "\<not> (case newDate ev date of None \<Rightarrow> False | Some eventDate \<Rightarrow> eventDate < localMidnight ev)"
    and "currentUser st = Some u"
  shows "isNormal (eventSubmit ev st) \<and>
     database (stateOf (eventSubmit ev st)) =
       (database st)\<lparr>events :=
          \<lparr>e_id = now ev, e_title = title, e_description = description, e_date = date,
           e_time = time, e_location = location, e_organizer = u_name u\<rparr> #
          events (database st)\<rparr> \<and>
     currentUser (stateOf (eventSubmit ev st)) = Some u \<and>
     sameShape st (stateOf (eventSubmit ev st))"
proof -
  let ?d = "(database st)\<lparr>events :=
          \<lparr>e_id = now ev, e_title = title, e_description = description, e_date = date,
           e_time = time, e_location = location, e_organizer = u_name u\<rparr> #
          events (database st)\<rparr>"
  have u: "eventSubmit ev st =
      Normal (resetForm (js ''eventForm'')
        (showNotification (js ''Event added successfully!'') (js ''success'')
           (Some (js ''eventSuccessMessage''))
           (renderEvents ev ((clearFormErrors (js ''eventForm'') st)\<lparr>database := ?d\<rparr>))))"
    using assms(6,7,8) by (simp add: eventSubmit_unfold [OF assms(1-5)] Let_def)
  have "sameShape st (stateOf (eventSubmit ev st))"
    unfolding u stateOf_simps by (rule stored_sameShape) simp
  then show ?thesis
    using assms(8) by (simp add: u)
qed

lemma scheduleSubmit_success:
  assumes "valueTrim (js ''scheduleCourse'') st = Some course"
    and "valueOf (js ''scheduleDate'') st = Some date"
    and "valueOf (js ''scheduleTime'') st = Some time"
    and "valueTrim (js ''scheduleRoom'') st = Some room"
    and "valueTrim (js ''scheduleInstructor'') st = Some instructor"
    and "isValid (validateOwn
             (obj [(js ''course'', Some course), (js ''date'', date), (js ''time'', time),
                   (js ''room'', Some room), (js ''instructor'', Some instructor)])
             [js ''course'', js ''date'', js ''time'', js ''room'', js ''instructor''])"
  shows "isNormal (scheduleSubmit ev st) \<and>
     database (stateOf (scheduleSubmit ev st)) =
       (database st)\<lparr>schedules :=
          \<lparr>s_id = now ev, s_course = course, s_date = date, s_time = time, s_room = room,
           s_instructor = instructor\<rparr> # schedules (database st)\<rparr> \<and>
     currentUser (stateOf (scheduleSubmit ev st)) = currentUser st \<and>
     sameShape st (stateOf (scheduleSubmit ev st))"
proof -
  let ?d = "(database st)\<lparr>schedules :=
          \<lparr>s_id = now ev, s_course = course, s_date = date, s_time = time, s_room = room,
           s_instructor = instructor\<rparr> # schedules (database st)\<rparr>"
  have u: "scheduleSubmit ev st =
      Normal (resetForm (js ''scheduleForm'')
        (showNotification (js ''Schedule updated successfully!'') (js ''success'')
           (Some (js ''scheduleSuccessMessage''))
           (renderSchedules ev ((clearFormErrors (js ''scheduleForm'') st)\<lparr>database := ?d\<rparr>))))"
    using assms(6) by (simp add: scheduleSubmit_unfold [OF assms(1-5)] Let_def)
  have "sameShape st (stateOf (scheduleSubmit ev st))"
    unfolding u stateOf_simps by (rule stored_sameShape) simp
  then show ?thesis
    by (simp add: u)
qed

lemma userSubmit_success:
  assumes "valueTrim (js ''userName'') st = Some name"
    and "valueTrim (js ''userEmail'') st = Some email"
    and "valueOf (js ''userType'') st = Some type"
    and "isValid (validateOwn
             (obj [(js ''name'', Some name), (js ''email'', Some email), (js ''type'', type)])
             [js ''name'', js ''email'', js ''type''])"
  shows "isNormal (userSubmit ev st) \<and>
     database (stateOf (userSubmit ev st)) =
       (database st)\<lparr>users :=
          \<lparr>pu_id = now ev, pu_name = name, pu_email = email, pu_type = type\<rparr> #
          users (database st)\<rparr> \<and>
     currentUser (stateOf (userSubmit ev st)) = currentUser st \<and>
     sameShape st (stateOf (userSubmit ev st))"
proof -
  have "fieldMessage (obj [(js ''name'', Some name), (js ''email'', Some email),
      (js ''type'', type)]) (js ''email'') = None"
    using assms(4) by (simp add: validateOwn_isValid)
  then have "validateEmail email"
    by (simp add: fieldMessage_None obj_def)
  show ?thesis
  proof -
  let ?d = "(database st)\<lparr>users :=
          \<lparr>pu_id = now ev, pu_name = name, pu_email = email, pu_type = type\<rparr> #
          users (database st)\<rparr>"
  have u: "userSubmit ev st =
      Normal (resetForm (js ''userForm'')
        (showNotification (js ''User added successfully!'') (js ''success'')
           (Some (js ''userSuccessMessage''))
           (renderUsers ((clearFormErrors (js ''userForm'') st)\<lparr>database := ?d\<rparr>))))"
    using assms(4) \<open>validateEmail email\<close>
    by (simp add: userSubmit_unfold [OF assms(1-3)] Let_def)
  have "sameShape st (stateOf (userSubmit ev st))"
    unfolding u stateOf_simps by (rule stored_sameShape) simp
  then show ?thesis
    by (simp add: u)
  qed
qed

lemma valueTrim_typeInto:
  "valueTrim j (typeInto i v st) =
     (if j = js i \<and> elems st (js i) \<noteq> None then Some (trim (js v)) else valueTrim j st)"
  by (auto simp: valueTrim_def valueOf_typeInto)

lemma trim_schedule:
  "trim (js ''APT3090 - Networks'') = js ''APT3090 - Networks''"
  "trim (js ''TC-305'') = js ''TC-305''"
  "trim (js ''Dr. Brown'') = js ''Dr. Brown''"
  "trim (js ''2025-12-16'') = js ''2025-12-16''"
  "trim (js ''09:00'') = js ''09:00''"
  by (simp_all add: trim_def js_def isWhiteSpace_def)

lemma typeSchedule_reads:
  assumes "elems st (js ''scheduleCourse'') \<noteq> None" "elems st (js ''scheduleDate'') \<noteq> None"
    "elems st (js ''scheduleTime'') \<noteq> None" "elems st (js ''scheduleRoom'') \<noteq> None"
    "elems st (js ''scheduleInstructor'') \<noteq> None"
  shows "valueTrim (js ''scheduleCourse'') (typeSchedule st) = Some (js ''APT3090 - Networks'')"
    and "valueOf (js ''scheduleDate'') (typeSchedule st) = Some (Some (js ''2025-12-16''))"
    and "valueOf (js ''scheduleTime'') (typeSchedule st) = Some (Some (js ''09:00''))"
    and "valueTrim (js ''scheduleRoom'') (typeSchedule st) = Some (js ''TC-305'')"
    and "valueTrim (js ''scheduleInstructor'') (typeSchedule st) = Some (js ''Dr. Brown'')"
  using assms
  by (simp_all add: typeSchedule_def valueTrim_typeInto valueOf_typeInto trim_schedule)

lemma schedule_valid:
  "isValid (validateOwn
      (obj [(js ''course'', Some (js ''APT3090 - Networks'')),
            (js ''date'', Some (js ''2025-12-16'')), (js ''time'', Some (js ''09:00'')),
            (js ''room'', Some (js ''TC-305'')), (js ''instructor'', Some (js ''Dr. Brown''))])
      [js ''course'', js ''date'', js ''time'', js ''room'', js ''instructor''])"
  by (simp add: validateOwn_isValid fieldMessage_None obj_def trim_schedule)

lemma data_typeSchedule [simp]:
  "database (typeSchedule st) = database st" "currentUser (typeSchedule st) = currentUser st"
  by (simp_all add: typeSchedule_def)

lemma present_typeSchedule [simp]: "elems (typeSchedule st) j = None \<longleftrightarrow> elems st j = None"
  by (simp add: typeSchedule_def)

lemma typeSchedule_submit:
  assumes "elems st (js ''scheduleCourse'') \<noteq> None" "elems st (js ''scheduleDate'') \<noteq> None"
    "elems st (js ''scheduleTime'') \<noteq> None" "elems st (js ''scheduleRoom'') \<noteq> None"
    "elems st (js ''scheduleInstructor'') \<noteq> None"
  shows "isNormal (scheduleSubmit ev (typeSchedule st)) \<and>
     database (stateOf (scheduleSubmit ev (typeSchedule st))) =
       (database st)\<lparr>schedules :=
          \<lparr>s_id = now ev, s_course = js ''APT3090 - Networks'', s_date = Some (js ''2025-12-16''),
           s_time = Some (js ''09:00''), s_room = js ''TC-305'',
           s_instructor = js ''Dr. Brown''\<rparr> # schedules (database st)\<rparr> \<and>
     (\<forall>j. elems (stateOf (scheduleSubmit ev (typeSchedule st))) j = None \<longleftrightarrow> elems st j = None)"
proof -
  note s = scheduleSubmit_success [OF typeSchedule_reads [OF assms] schedule_valid, of ev]
  from s have "sameShape (typeSchedule st) (stateOf (scheduleSubmit ev (typeSchedule st)))"
    by simp
  then have "elems (stateOf (scheduleSubmit ev (typeSchedule st))) j = None \<longleftrightarrow>
      elems (typeSchedule st) j = None" for j
    by (rule sameShape_present)
  with s show ?thesis by simp
qed

lemma example_schedule_present:
  "elems (exampleState t) (js ''scheduleCourse'') \<noteq> None"
  "elems (exampleState t) (js ''scheduleDate'') \<noteq> None"
  "elems (exampleState t) (js ''scheduleTime'') \<noteq> None"
  "elems (exampleState t) (js ''scheduleRoom'') \<noteq> None"
  "elems (exampleState t) (js ''scheduleInstructor'') \<noteq> None"
  by (simp_all add: example_elems)

section \<open>The date rule of the event form\<close>

lemma isoDate_examples:
  "isoDate (js ''2025-12-10'') = Some 20432"
  "isoDate (js ''2025-12-20'') = Some 20442"
  "isoDate (js ''2025-12-09'') = Some 20431"
  by (simp_all add: js_def isDigit_def digitVal_def daysInMonth_def isLeapYear_def
      daysFromCivil_def Let_def)

lemma date_rule_iso:
  assumes "isoDate d = Some day"
  shows "(case newDate ev (Some d) of None \<Rightarrow> False | Some t \<Rightarrow> t < localMidnight ev) \<longleftrightarrow>
     day * msPerDay < localDay ev * msPerDay -
          tzOffsetLocal ev (localDay ev * msPerDay)"
  using assms by (simp add: newDate_def localMidnight_def Let_def)

lemma date_rule_east:
  assumes "isoDate d = Some day"
    and "0 \<le> tzOffsetLocal ev (localDay ev * msPerDay)"
    and "tzOffsetLocal ev (localDay ev * msPerDay) < msPerDay"
  shows "(case newDate ev (Some d) of None \<Rightarrow> False | Some t \<Rightarrow> t < localMidnight ev) \<longleftrightarrow>
     day < localDay ev"
proof -
  have "day * msPerDay < localDay ev * msPerDay -
          tzOffsetLocal ev (localDay ev * msPerDay) \<longleftrightarrow> day < localDay ev"
  proof
    assume a: "day * msPerDay < localDay ev * msPerDay -
          tzOffsetLocal ev (localDay ev * msPerDay)"
    with assms(2) have "day * msPerDay < localDay ev * msPerDay" by simp
    then show "day < localDay ev" by (simp add: msPerDay_def)
  next
    assume "day < localDay ev"
    then have "day + 1 \<le> localDay ev" by simp
    then have "(day + 1) * msPerDay \<le> localDay ev * msPerDay"
      by (simp add: msPerDay_def)
    then have "day * msPerDay + msPerDay \<le> localDay ev * msPerDay"
      by (simp add: algebra_simps)
    with assms(3) show "day * msPerDay < localDay ev * msPerDay -
          tzOffsetLocal ev (localDay ev * msPerDay)" by simp
  qed
  then show ?thesis by (simp add: date_rule_iso [OF assms(1)])
qed

lemma date_rule_west:
  assumes "isoDate d = Some day"
    and "tzOffsetLocal ev (localDay ev * msPerDay) < 0"
    and "- msPerDay < tzOffsetLocal ev (localDay ev * msPerDay)"
  shows "(case newDate ev (Some d) of None \<Rightarrow> False | Some t \<Rightarrow> t < localMidnight ev) \<longleftrightarrow>
     day \<le> localDay ev"
proof -
  have "day * msPerDay < localDay ev * msPerDay -
          tzOffsetLocal ev (localDay ev * msPerDay) \<longleftrightarrow> day \<le> localDay ev"
  proof
    assume a: "day * msPerDay < localDay ev * msPerDay -
          tzOffsetLocal ev (localDay ev * msPerDay)"
    with assms(3) have "day * msPerDay < localDay ev * msPerDay + msPerDay" by simp
    then have "day * msPerDay < (localDay ev + 1) * msPerDay" by (simp add: algebra_simps)
    then have "day < localDay ev + 1" by (simp add: msPerDay_def)
    then show "day \<le> localDay ev" by simp
  next
    assume "day \<le> localDay ev"
    then have "day * msPerDay \<le> localDay ev * msPerDay"
      by (simp add: msPerDay_def)
    with assms(2) show "day * msPerDay < localDay ev * msPerDay -
          tzOffsetLocal ev (localDay ev * msPerDay)" by simp
  qed
  then show ?thesis by (simp add: date_rule_iso [OF assms(1)])
qed

section \<open>Filling in the forms of the example page\<close>

lemma loggedIn_simps [simp]:
  "elems (loggedIn n e t st) = elems st"
  "database (loggedIn n e t st) = database st"
  "currentUser (loggedIn n e t st) =
     Some \<lparr>u_name = js n, u_email = js e, u_type = Some (js t)\<rparr>"
  "valueOf i (loggedIn n e t st) = valueOf i st"
  "valueTrim i (loggedIn n e t st) = valueTrim i st"
  by (simp_all add: loggedIn_def valueOf_def valueTrim_def)

lemma trim_event:
  "trim (js ''Open Day'') = js ''Open Day''"
  "trim (js ''Auditorium A'') = js ''Auditorium A''"
  "trim (js ''Campus tour'') = js ''Campus tour''"
  "trim (js ''2025-12-10'') = js ''2025-12-10''"
  "trim (js ''2025-12-20'') = js ''2025-12-20''"
  "trim (js ''14:00'') = js ''14:00''"
  "trim (js ''T'') = js ''T''"
  "trim (js ''C'') = js ''C''"
  by (simp_all add: trim_def js_def isWhiteSpace_def)

lemma typeEvent_reads:
  assumes "elems st (js ''eventTitle'') \<noteq> None" "elems st (js ''eventDate'') \<noteq> None"
    "elems st (js ''eventTime'') \<noteq> None" "elems st (js ''eventLocation'') \<noteq> None"
    "elems st (js ''eventDescription'') \<noteq> None"
  shows "valueTrim (js ''eventTitle'') (typeEvent d st) = Some (js ''Open Day'')"
    and "valueOf (js ''eventDate'') (typeEvent d st) = Some (Some (js d))"
    and "valueOf (js ''eventTime'') (typeEvent d st) = Some (Some (js ''14:00''))"
    and "valueTrim (js ''eventLocation'') (typeEvent d st) = Some (js ''Auditorium A'')"
    and "valueTrim (js ''eventDescription'') (typeEvent d st) = Some (js ''Campus tour'')"
  using assms
  by (simp_all add: typeEvent_def valueTrim_typeInto valueOf_typeInto trim_event)

lemma event_valid:
  "trim (js d) \<noteq> [] \<Longrightarrow>
   isValid (validateOwn
      (obj [(js ''title'', Some (js ''Open Day'')), (js ''date'', Some (js d)),
            (js ''time'', Some (js ''14:00'')), (js ''location'', Some (js ''Auditorium A'')),
            (js ''description'', Some (js ''Campus tour''))])
      [js ''title'', js ''date'', js ''time'', js ''location'', js ''description''])"
  by (simp add: validateOwn_isValid fieldMessage_None obj_def trim_event)

lemma data_typeEvent [simp]:
  "database (typeEvent d st) = database st" "currentUser (typeEvent d st) = currentUser st"
  by (simp_all add: typeEvent_def)

lemma present_typeEvent [simp]: "elems (typeEvent d st) j = None \<longleftrightarrow> elems st j = None"
  by (simp add: typeEvent_def)

lemma example_event_present:
  "elems (exampleState t) (js ''eventTitle'') \<noteq> None"
  "elems (exampleState t) (js ''eventDate'') \<noteq> None"
  "elems (exampleState t) (js ''eventTime'') \<noteq> None"
  "elems (exampleState t) (js ''eventLocation'') \<noteq> None"
  "elems (exampleState t) (js ''eventDescription'') \<noteq> None"
  "elems (exampleState t) (js ''eventDateError'') \<noteq> None"
  by (simp_all add: example_elems)

lemma typeAnnouncement_reads:
  assumes "elems st (js ''announcementTitle'') \<noteq> None"
    "elems st (js ''announcementContent'') \<noteq> None"
    "elems st (js ''announcementPriority'') \<noteq> None"
  shows "valueTrim (js ''announcementTitle'') (typeAnnouncement st) = Some (js ''T'')"
    and "valueTrim (js ''announcementContent'') (typeAnnouncement st) = Some (js ''C'')"
    and "valueOf (js ''announcementPriority'') (typeAnnouncement st) = Some (Some (js ''urgent''))"
  using assms
  by (simp_all add: typeAnnouncement_def valueTrim_typeInto valueOf_typeInto trim_event)

lemma announcement_valid:
  "isValid (validateOwn
      (obj [(js ''title'', Some (js ''T'')), (js ''content'', Some (js ''C'')),
            (js ''priority'', Some (js ''urgent''))])
      [js ''title'', js ''content''])"
  by (simp add: validateOwn_isValid fieldMessage_None obj_def trim_event)

lemma data_typeAnnouncement [simp]:
  "database (typeAnnouncement st) = database st"
  "currentUser (typeAnnouncement st) = currentUser st"
  by (simp_all add: typeAnnouncement_def)

lemma example_announcement_present:
  "elems (exampleState t) (js ''announcementTitle'') \<noteq> None"
  "elems (exampleState t) (js ''announcementContent'') \<noteq> None"
  "elems (exampleState t) (js ''announcementPriority'') \<noteq> None"
  by (simp_all add: example_elems)

lemma childrenOf_showNotification:
  "elems st i \<noteq> None \<Longrightarrow> i \<noteq> [] \<Longrightarrow> m \<noteq> [] \<Longrightarrow>
   childrenOf i (showNotification m t (Some i) st) = Some [Txt m]"
  by (auto simp: showNotification_def childrenOf_def setTimeout_def notify_def setTextContent_def)

lemma present_clearFormErrors [simp]:
  "elems (clearFormErrors f st) i = None \<longleftrightarrow> elems st i = None"
  by (rule sameShape_present) (rule sameControls_sameShape, simp)

section \<open>Navigation without a user\<close>

lemma withElement_Some:
  "elems st i = Some e \<Longrightarrow> withElement i f st = Normal (st\<lparr>elems := (elems st)(i \<mapsto> f e)\<rparr>)"
  by (simp add: withElement_def)

lemma isNormal_withElement [simp]: "isNormal (withElement i f st) \<longleftrightarrow> elems st i \<noteq> None"
  by (auto simp: withElement_def split: option.splits)

lemma onSectionShow_no_user: "currentUser st = None \<Longrightarrow> onSectionShow i st = Normal st"
  by (simp add: onSectionShow_def)

lemma renderProfile_no_user: "currentUser st = None \<Longrightarrow> renderProfile b st = Normal st"
  by (simp add: renderProfile_def)

text \<open>
  \<open>showSection\<close> while nobody is logged in: every section is hidden, the target is
  shown, and the navigation loses its class \<open>active\<close>.
\<close>

lemma showSection_no_user:
  assumes user: "currentUser st = None"
    and nav: "elems st (js ''main-nav'') \<noteq> None"
    and menu: "firstIndex (hasClass (js ''mobile-menu'')) (anon st) \<noteq> None"
    and query: "elems st i \<noteq> None \<longrightarrow> navQuery st i \<noteq> QuerySyntaxError"
  shows "\<exists>st'. showSection ev i st = Normal st' \<and>
     elems st' =
       (\<lambda>j. map_option
          (\<lambda>e. let e1 = (if el_section e then classAdd (js ''hidden'') e else e);
                   e2 = (if j = i then classRemove (js ''hidden'') e1 else e1)
               in if j = js ''main-nav'' then classRemove (js ''active'') e2 else e2)
          (elems st j)) \<and>
     currentUser st' = None \<and> database st' = database st \<and>
     userProfileData st' = userProfileData st \<and> timers st' = timers st \<and>
     appState st' = (appState st)\<lparr>currentSection := i, lastActivity := now ev\<rparr>"
proof -
  let ?st1 = "st\<lparr>appState := (appState st)\<lparr>currentSection := i\<rparr>\<rparr>"
  let ?st2 = "forEachElement el_section (classAdd (js ''hidden'')) ?st1"
  let ?g2 = "\<lambda>j e. let e1 = (if el_section e then classAdd (js ''hidden'') e else e)
                    in if j = i then classRemove (js ''hidden'') e1 else e1"
  obtain st3 where s3: "(case elems ?st2 i of
              None \<Rightarrow> Normal ?st2
            | Some targetSection \<Rightarrow>
                andThen
                  (updateActiveNav i
                     (?st2\<lparr>elems := (elems ?st2)(i \<mapsto>
                            classRemove (js ''hidden'') targetSection)\<rparr>))
                  (onSectionShow i)) = Normal st3"
    and e3: "elems st3 = (\<lambda>j. map_option (?g2 j) (elems st j))"
    and d3: "currentUser st3 = None" "database st3 = database st"
      "userProfileData st3 = userProfileData st" "timers st3 = timers st"
      "appState st3 = (appState st)\<lparr>currentSection := i\<rparr>" "anon st3 = anon st"
  proof (cases "elems st i")
    case None
    then have a: "elems ?st2 i = None" by (simp add: forEachElement_def)
    have b: "elems ?st2 = (\<lambda>j. map_option (?g2 j) (elems st j))"
      using None by (auto simp: forEachElement_def fun_eq_iff Let_def split: option.splits)
    show ?thesis
    proof (rule that [of ?st2])
      show "(case elems ?st2 i of
              None \<Rightarrow> Normal ?st2
            | Some targetSection \<Rightarrow>
                andThen
                  (updateActiveNav i
                     (?st2\<lparr>elems := (elems ?st2)(i \<mapsto>
                            classRemove (js ''hidden'') targetSection)\<rparr>))
                  (onSectionShow i)) = Normal ?st2"
        by (simp only: a option.case)
      show "elems ?st2 = (\<lambda>j. map_option (?g2 j) (elems st j))" by (rule b)
    qed (use user in \<open>simp_all add: forEachElement_def\<close>)
  next
    case (Some e)
    let ?t = "if el_section e then classAdd (js ''hidden'') e else e"
    let ?st2' = "?st2\<lparr>elems := (elems ?st2)(i \<mapsto> classRemove (js ''hidden'') ?t)\<rparr>"
    have t: "elems ?st2 i = Some ?t" using Some by (simp add: forEachElement_def)
    from Some query have q: "navQuery st i \<noteq> QuerySyntaxError" by simp
    obtain st3 where n: "updateActiveNav i ?st2' = Normal st3"
      and k: "elems st3 = elems ?st2'" "currentUser st3 = None" "database st3 = database st"
        "userProfileData st3 = userProfileData st" "timers st3 = timers st"
        "appState st3 = (appState st)\<lparr>currentSection := i\<rparr>" "anon st3 = anon st"
      using q user
      by (cases "navQuery st i")
         (auto simp: updateActiveNav_def Let_def forEachElement_def)
    have "elems st3 = (\<lambda>j. map_option (?g2 j) (elems st j))"
      unfolding k(1) using Some
      by (auto simp: forEachElement_def fun_eq_iff Let_def split: option.splits)
    moreover have "andThen (updateActiveNav i ?st2') (onSectionShow i) = Normal st3"
      using n k(2) by (simp add: andThen_def onSectionShow_no_user)
    ultimately show ?thesis
      using k by (intro that [of st3]) (simp_all only: t option.case)
  qed
  from nav obtain navEl where navEl: "elems st (js ''main-nav'') = Some navEl" by auto
  let ?n = "?g2 (js ''main-nav'') navEl"
  let ?st4 = "st3\<lparr>elems := (elems st3)(js ''main-nav'' \<mapsto> classRemove (js ''active'') ?n)\<rparr>"
  have w: "withElement (js ''main-nav'') (classRemove (js ''active'')) st3 = Normal ?st4"
    by (rule withElement_Some) (simp add: e3 navEl)
  from menu obtain k where k: "firstIndex (hasClass (js ''mobile-menu'')) (anon st) = Some k"
    by auto
  let ?st5 = "?st4\<lparr>anon := (anon ?st4)[k := (anon ?st4 ! k)\<lparr>el_attrs :=
            AList.update (js ''aria-expanded'') (js ''false'') (el_attrs (anon ?st4 ! k))\<rparr>]\<rparr>"
  have c: "closeMobileMenu ?st4 = Normal ?st5"
    using k d3 by (simp add: closeMobileMenu_def)
  have "showSection ev i st = Normal (updateUserActivity ev ?st5)"
    unfolding showSection_def Let_def s3 by (simp add: andThen_def w c)
  moreover have "elems (updateUserActivity ev ?st5) =
       (\<lambda>j. map_option
          (\<lambda>e. let e1 = (if el_section e then classAdd (js ''hidden'') e else e);
                   e2 = (if j = i then classRemove (js ''hidden'') e1 else e1)
               in if j = js ''main-nav'' then classRemove (js ''active'') e2 else e2)
          (elems st j))"
    using navEl by (auto simp: updateUserActivity_def e3 fun_eq_iff Let_def)
  ultimately show ?thesis
    using d3 by (simp add: updateUserActivity_def)
qed

lemma exampleNavQuery_valid: "exampleNavQuery i \<noteq> QuerySyntaxError"
  by (simp add: exampleNavQuery_def split: option.splits)

lemma example_menu: "firstIndex (hasClass (js ''mobile-menu'')) (anon (exampleState t)) = Some 0"
  by (simp add: exampleState_def hasClass_def createElement_def)

lemma class_fields [simp]:
  "el_children (classAdd c e) = el_children e" "el_children (classRemove c e) = el_children e"
  "el_value (classAdd c e) = el_value e" "el_value (classRemove c e) = el_value e"
  "el_section (classAdd c e) = el_section e" "el_section (classRemove c e) = el_section e"
  "el_form (classAdd c e) = el_form e" "el_form (classRemove c e) = el_form e"
  "el_default (classAdd c e) = el_default e" "el_default (classRemove c e) = el_default e"
  "el_isForm (classAdd c e) = el_isForm e" "el_isForm (classRemove c e) = el_isForm e"
  "el_classes (classAdd c e) = List.insert c (el_classes e)"
  "el_classes (classRemove c e) = removeAll c (el_classes e)"
  by (simp_all add: classAdd_def classRemove_def)

section \<open>Login, logout and the session\<close>

subsection \<open>The application state\<close>

lemma sameApp_refl [simp]: "sameApp st st"
  by (simp add: sameApp_def)

lemma sameApp_trans: "sameApp a b \<Longrightarrow> sameApp b c \<Longrightarrow> sameApp a c"
  by (simp add: sameApp_def)

lemmas sameApp_andThen = andThen_rel [of sameApp, OF sameApp_trans]

lemma sameApp_withElement [simp]: "sameApp st (stateOf (withElement i f st))"
  by (auto simp: withElement_def sameApp_def split: option.splits)

lemma sameApp_forEachElement [simp]: "sameApp st (forEachElement p f st)"
  by (simp add: forEachElement_def sameApp_def)

lemma sameApp_clearFormErrors [simp]: "sameApp st (clearFormErrors f st)"
  by (auto simp: clearFormErrors_def split: option.splits)

lemma sameApp_resetForm [simp]: "sameApp st (resetForm f st)"
  by (simp add: resetForm_def)

lemma sameApp_resetFormById [simp]: "sameApp st (stateOf (resetFormById f st))"
  by (auto simp: resetFormById_def split: option.splits)

lemma sameApp_updateActiveNav [simp]: "sameApp st (stateOf (updateActiveNav i st))"
  by (auto simp: updateActiveNav_def Let_def sameApp_def split: nav_query.splits)

lemma sameApp_openAdminTab [simp]: "sameApp st (openAdminTab t st)"
  by (auto simp: openAdminTab_def Let_def sameApp_def forEachElement_def split: option.splits)

lemma sameApp_updateDashboard [simp]: "sameApp st (stateOf (updateDashboard st))"
  unfolding updateDashboard_def
  by (auto intro!: sameApp_andThen)

lemma sameApp_updateAuthButtons [simp]: "sameApp st (stateOf (updateAuthButtons st))"
  unfolding updateAuthButtons_def
  by (auto intro!: sameApp_andThen)

lemma sameApp_renderProfile [simp]: "sameApp st (stateOf (renderProfile b st))"
  unfolding renderProfile_def
  by (auto intro!: sameApp_andThen split: option.splits)

lemma sameApp_onSectionShow [simp]: "sameApp st (stateOf (onSectionShow i st))"
  by (simp add: onSectionShow_def)

lemma sameApp_resetFormById_clear:
  "sameApp st (stateOf (resetFormById f (clearFormErrors g st)))"
  by (rule sameApp_trans [OF sameApp_clearFormErrors sameApp_resetFormById])

lemma sameApp_clearForms [simp]: "sameApp st (stateOf (clearForms st))"
  unfolding clearForms_def
  by (intro sameApp_andThen sameApp_resetFormById_clear sameApp_resetFormById) simp_all

lemma sameSection_trans: "sameSection a b \<Longrightarrow> sameSection b c \<Longrightarrow> sameSection a c"
  by (simp add: sameSection_def)

lemma sameApp_sameSection: "sameApp st st' \<Longrightarrow> sameSection st st'"
  by (simp add: sameApp_def sameSection_def)

lemmas sameSection_andThen = andThen_rel [of sameSection, OF sameSection_trans]

lemma sameSection_closeMobileMenu: "sameSection st (stateOf (closeMobileMenu st))"
  by (auto simp: closeMobileMenu_def sameSection_def split: option.splits)

lemma currentSection_showSection:
  "currentSection (appState (stateOf (showSection ev i st))) = i"
proof -
  let ?st1 = "st\<lparr>appState := (appState st)\<lparr>currentSection := i\<rparr>\<rparr>"
  let ?st2 = "forEachElement el_section (classAdd (js ''hidden'')) ?st1"
  have a: "sameSection ?st1 ?st2"
    by (rule sameApp_sameSection) simp
  have c: "sameSection ?st1
     (stateOf (case elems ?st2 i of
        None \<Rightarrow> Normal ?st2
      | Some targetSection \<Rightarrow>
          andThen
            (updateActiveNav i
               (?st2\<lparr>elems := (elems ?st2)(i \<mapsto> classRemove (js ''hidden'') targetSection)\<rparr>))
            (onSectionShow i)))"
  proof (cases "elems ?st2 i")
    case None
    then show ?thesis using a by simp
  next
    case (Some t)
    let ?st3 = "?st2\<lparr>elems := (elems ?st2)(i \<mapsto> classRemove (js ''hidden'') t)\<rparr>"
    have "sameSection ?st2 ?st3" by (simp add: sameSection_def)
    with a have "sameSection ?st1 ?st3" by (rule sameSection_trans)
    moreover have "sameSection ?st3 (stateOf (updateActiveNav i ?st3))"
      by (rule sameApp_sameSection) simp
    ultimately have "sameSection ?st1 (stateOf (updateActiveNav i ?st3))"
      by (rule sameSection_trans)
    moreover have "sameSection s (stateOf (onSectionShow i s))" for s
      by (rule sameApp_sameSection) simp
    ultimately show ?thesis
      using Some by (simp only: option.case) (rule sameSection_andThen)
  qed
  have w: "sameSection s (stateOf (withElement j f s))" for s j f
    by (rule sameApp_sameSection) simp
  have "sameSection ?st1 (stateOf (showSection ev i st))"
    unfolding showSection_def Let_def
    by (intro sameSection_andThen c w sameSection_closeMobileMenu)
       (simp_all add: sameSection_def updateUserActivity_def)
  then show ?thesis by (simp add: sameSection_def)
qed

subsection \<open>Presence of elements\<close>

lemma sameControls_present:
  "sameControls st st' \<Longrightarrow> elems st' i = None \<longleftrightarrow> elems st i = None"
  by (rule sameShape_present) (rule sameControls_sameShape)

lemma present_withElement [simp]:
  "keepsControl f \<Longrightarrow> elems (stateOf (withElement i f st)) j = None \<longleftrightarrow> elems st j = None"
  by (rule sameControls_present) (rule sameControls_withElement)

lemma present_updateDashboard [simp]:
  "elems (stateOf (updateDashboard st)) j = None \<longleftrightarrow> elems st j = None"
  by (rule sameControls_present) simp

lemma present_updateAuthButtons [simp]:
  "elems (stateOf (updateAuthButtons st)) j = None \<longleftrightarrow> elems st j = None"
  by (rule sameControls_present) simp

lemma currentUser_withElement [simp]:
  "currentUser (stateOf (withElement i f st)) = currentUser st"
  by (rule sameData_currentUser) simp

lemma isNormal_updateDashboard:
  "isNormal (updateDashboard st) \<longleftrightarrow>
     elems st (js ''studentDashboard'') \<noteq> None \<and> elems st (js ''adminDashboard'') \<noteq> None"
  by (auto simp: updateDashboard_def)

lemma isNormal_updateAuthButtons:
  "isNormal (updateAuthButtons st) \<longleftrightarrow>
     elems st (js ''authButtons'') \<noteq> None \<and> elems st (js ''heroButtons'') \<noteq> None"
  by (auto simp: updateAuthButtons_def)

subsection \<open>The callbacks of login and registration\<close>

lemma sameData_showLoggedIn: "sameData st (stateOf (showLoggedIn ev u m i st))"
proof -
  have fin: "sameData s (stateOf (Normal (setTimeout t d (showNotification a b c s))))"
    for s t d a b c
    unfolding stateOf_simps
    by (rule sameData_trans [OF sameData_showNotification sameData_setTimeout])
  show ?thesis
    unfolding showLoggedIn_def
    by (intro sameData_andThen sameData_withElement sameData_updateDashboard
        sameData_updateAuthButtons fin)
qed

lemma isNormal_showLoggedIn:
  "isNormal (showLoggedIn ev u m i st) \<longleftrightarrow>
     elems st (js ''userName'') \<noteq> None \<and> elems st (js ''userRole'') \<noteq> None \<and>
     elems st (js ''userAvatar'') \<noteq> None \<and> elems st (js ''profileName'') \<noteq> None \<and>
     elems st (js ''profileRole'') \<noteq> None \<and> elems st (js ''profileEmail'') \<noteq> None \<and>
     elems st (js ''profileAvatar'') \<noteq> None \<and> elems st (js ''studentDashboard'') \<noteq> None \<and>
     elems st (js ''adminDashboard'') \<noteq> None \<and> elems st (js ''authButtons'') \<noteq> None \<and>
     elems st (js ''heroButtons'') \<noteq> None"
  by (simp add: showLoggedIn_def isNormal_updateDashboard isNormal_updateAuthButtons)

lemma timers_showLoggedIn:
  "isNormal (showLoggedIn ev u m i st) \<Longrightarrow>
   (1000, GoDashboard) \<in> set (timers (stateOf (showLoggedIn ev u m i st)))"
  by (simp add: showLoggedIn_def stateOf_andThen setTimeout_def)

lemma loginSubmit_valid:
  assumes "valueTrim (js ''loginEmail'') st = Some email"
    and "valueTrim (js ''loginPassword'') st = Some password"
    and "valueOf (js ''loginUserType'') st = Some userType"
    and "isValid (validateOwn
           (obj [(js ''email'', Some email), (js ''password'', Some password),
                 (js ''userType'', userType)])
           [js ''email'', js ''password'', js ''userType''])"
  shows "loginSubmit st =
     Normal (setTimeout (LoginComplete email userType) 1000
       (setLoading True (clearFormErrors (js ''loginForm'') st)))"
  using assms(4) by (simp add: loginSubmit_unfold [OF assms(1-3)] Let_def)

lemma registerSubmit_valid:
  assumes "valueTrim (js ''regName'') st = Some name"
    and "valueTrim (js ''regEmail'') st = Some email"
    and "valueTrim (js ''regPassword'') st = Some password"
    and "valueOf (js ''regUserType'') st = Some userType"
    and "isValid (validateOwn
           (obj [(js ''name'', Some name), (js ''email'', Some email),
                 (js ''password'', Some password), (js ''userType'', userType)])
           [js ''name'', js ''email'', js ''password'', js ''userType''])"
  shows "registerSubmit st =
     Normal (setTimeout (RegisterComplete name email userType) 1000
       (setLoading True (clearFormErrors (js ''registerForm'') st)))"
  using assms(5) by (simp add: registerSubmit_unfold [OF assms(1-4)] Let_def)

lemma submitted_frame:
  "elems (setTimeout t d (setLoading b (clearFormErrors f st))) j = None \<longleftrightarrow> elems st j = None"
  "currentUser (setTimeout t d (setLoading b (clearFormErrors f st))) = currentUser st"
  "database (setTimeout t d (setLoading b (clearFormErrors f st))) = database st"
  "(d, t) \<in> set (timers (setTimeout t d (setLoading b (clearFormErrors f st))))"
  by (simp_all add: setTimeout_def setLoading_def)

lemma loginComplete_currentUser:
  "currentUser (stateOf (loginComplete ev email userType st)) =
     Some \<lparr>u_name = (if userType = Some (js ''admin'') then js ''Admin User''
                      else js ''Carl Kitusa''),
           u_email = email, u_type = userType\<rparr>"
  unfolding loginComplete_def Let_def
  by (subst sameData_currentUser [OF sameData_showLoggedIn]) simp

lemma registerComplete_currentUser:
  "currentUser (stateOf (registerComplete ev name email userType st)) =
     Some \<lparr>u_name = name, u_email = email, u_type = userType\<rparr>"
  unfolding registerComplete_def Let_def
  by (subst sameData_currentUser [OF sameData_showLoggedIn]) simp

lemma elems_logged [simp]: "elems ((setLoading b st)\<lparr>currentUser := u\<rparr>) = elems st"
  by (simp add: setLoading_def)

lemma valueTrim_raw: "valueOf i st = Some (Some v) \<Longrightarrow> valueTrim i st = Some (trim v)"
  by (simp add: valueTrim_def)

lemma login_valid:
  "isValid (validateOwn
     (obj [(js ''email'', Some (js ''a@b.com'')), (js ''password'', Some (js ''12345678'')),
           (js ''userType'', Some (js ''student''))])
     [js ''email'', js ''password'', js ''userType''])"
  by (simp add: validateOwn_isValid fieldMessage_None obj_def trim_js_simps
      validateEmail_a_b_com)

subsection \<open>Logging out\<close>

lemma resetFormById_form: "isFormEl f st \<Longrightarrow> resetFormById f st = Normal (resetForm f st)"
  by (auto simp: isFormEl_def resetFormById_def split: option.splits)

lemma isNormal_resetFormById [simp]: "isNormal (resetFormById f st) \<longleftrightarrow> isFormEl f st"
  by (simp add: isFormEl_def resetFormById_def split: option.splits)

lemma isFormEl_shapeOf: "isFormEl f st \<longleftrightarrow> (case shapeOf f st of None \<Rightarrow> False | Some (s, b, x) \<Rightarrow> b)"
  by (simp add: isFormEl_def shapeOf_def split: option.splits)

lemma isFormEl_sameShape: "sameShape st st' \<Longrightarrow> isFormEl f st' = isFormEl f st"
  by (simp add: isFormEl_shapeOf sameShape_def)

lemma isFormEl_simps [simp]:
  "isFormEl f (resetForm g st) = isFormEl f st"
  "isFormEl f (clearFormErrors g st) = isFormEl f st"
  "isFormEl f (st\<lparr>currentUser := u\<rparr>) = isFormEl f st"
proof -
  show "isFormEl f (resetForm g st) = isFormEl f st"
    by (rule isFormEl_sameShape) simp
  show "isFormEl f (clearFormErrors g st) = isFormEl f st"
    by (rule isFormEl_sameShape) (rule sameControls_sameShape, simp)
  show "isFormEl f (st\<lparr>currentUser := u\<rparr>) = isFormEl f st"
    by (simp add: isFormEl_def)
qed

lemma clearForms_forms:
  assumes "isFormEl (js ''loginForm'') st" "isFormEl (js ''registerForm'') st"
    "isFormEl (js ''announcementForm'') st" "isFormEl (js ''eventForm'') st"
    "isFormEl (js ''scheduleForm'') st" "isFormEl (js ''userForm'') st"
  shows "clearForms st =
    Normal
     (clearFormErrors (js ''userForm'') (resetForm (js ''userForm'')
       (clearFormErrors (js ''scheduleForm'') (resetForm (js ''scheduleForm'')
         (clearFormErrors (js ''eventForm'') (resetForm (js ''eventForm'')
           (clearFormErrors (js ''announcementForm'') (resetForm (js ''announcementForm'')
             (clearFormErrors (js ''registerForm'') (resetForm (js ''registerForm'')
               (clearFormErrors (js ''loginForm'') (resetForm (js ''loginForm'') st))))))))))))"
  using assms by (simp add: clearForms_def resetFormById_form andThen_def)

lemma isNormal_clearForms:
  "isNormal (clearForms st) \<longleftrightarrow>
     isFormEl (js ''loginForm'') st \<and> isFormEl (js ''registerForm'') st \<and>
     isFormEl (js ''announcementForm'') st \<and> isFormEl (js ''eventForm'') st \<and>
     isFormEl (js ''scheduleForm'') st \<and> isFormEl (js ''userForm'') st"
proof -
  have s: "isFormEl f (stateOf (resetFormById g s)) = isFormEl f s" for f g s
    by (rule isFormEl_sameShape) (simp add: resetFormById_def split: option.splits)
  show ?thesis by (auto simp: clearForms_def s)
qed

lemma cleared_refl: "cleared {} st st"
  by (simp add: cleared_def valueOf_def option.map_ident cong: option.map_cong)

lemma cleared_sameControls: "cleared F st s \<Longrightarrow> sameControls s s' \<Longrightarrow> cleared F st s'"
  by (simp add: cleared_def sameControls_def)

lemma cleared_clearFormErrors: "cleared F st s \<Longrightarrow> cleared F st (clearFormErrors g s)"
  by (erule cleared_sameControls) simp

lemma valueOf_resetForm:
  "valueOf i (resetForm f st) =
     map_option (\<lambda>e. if el_form e = Some f \<and> el_value e \<noteq> None
                     then Some (el_default e) else el_value e) (elems st i)"
  by (auto simp: valueOf_def resetForm_def forEachElement_def split: option.splits)

lemma shapeOf_resetForm [simp]: "shapeOf i (resetForm f st) = shapeOf i st"
  using sameShape_resetForm [of st f] by (simp add: sameShape_def)

lemma cleared_resetForm:
  assumes "cleared F st s" shows "cleared (insert f F) st (resetForm f s)"
  unfolding cleared_def
proof (intro allI conjI)
  fix i
  from assms have sh: "shapeOf i s = shapeOf i st"
    and v: "valueOf i s = map_option
              (\<lambda>e. if el_form e \<in> Some ` F \<and> el_value e \<noteq> None
                   then Some (el_default e) else el_value e) (elems st i)"
    by (simp_all add: cleared_def)
  show "shapeOf i (resetForm f s) = shapeOf i st" by (simp add: sh)
  show "valueOf i (resetForm f s) =
      map_option (\<lambda>e. if el_form e \<in> Some ` insert f F \<and> el_value e \<noteq> None
                   then Some (el_default e) else el_value e) (elems st i)"
  proof (cases "elems st i")
    case None
    with sh have "elems s i = None" by (simp add: shapeOf_def)
    with None show ?thesis by (simp add: valueOf_resetForm)
  next
    case (Some e)
    with sh obtain e' where e': "elems s i = Some e'" "el_form e' = el_form e"
      "el_default e' = el_default e"
      by (auto simp: shapeOf_def)
    from v Some e' have "el_value e' =
        (if el_form e \<in> Some ` F \<and> el_value e \<noteq> None then Some (el_default e) else el_value e)"
      by (simp add: valueOf_def)
    with Some e' show ?thesis by (auto simp: valueOf_resetForm)
  qed
qed

lemma cleared_currentUser: "cleared F (st\<lparr>currentUser := u\<rparr>) s \<Longrightarrow> cleared F st s"
  by (simp add: cleared_def shapeOf_def)

lemma cleared_clearForms:
  assumes "isNormal (clearForms st)"
  shows "cleared {js ''userForm'', js ''scheduleForm'', js ''eventForm'',
      js ''announcementForm'', js ''registerForm'', js ''loginForm''} st (stateOf (clearForms st))"
proof -
  from assms have f: "isFormEl (js ''loginForm'') st" "isFormEl (js ''registerForm'') st"
    "isFormEl (js ''announcementForm'') st" "isFormEl (js ''eventForm'') st"
    "isFormEl (js ''scheduleForm'') st" "isFormEl (js ''userForm'') st"
    by (simp_all add: isNormal_clearForms)
  show ?thesis
    unfolding clearForms_forms [OF f] stateOf_simps
    by (intro cleared_clearFormErrors cleared_resetForm cleared_refl)
qed

lemma logout_currentUser: "currentUser (stateOf (logout ev True st)) = None"
proof -
  have "sameData (st\<lparr>currentUser := None\<rparr>) (stateOf (logout ev True st))"
    unfolding logout_def if_True
    by (intro sameData_andThen sameData_clearForms sameData_updateAuthButtons
        sameData_showSection) simp
  then show ?thesis by (simp add: sameData_def)
qed

lemma logout_declined: "logout ev False st = Normal st"
  by (simp add: logout_def)

lemma logout_cleared:
  assumes "isNormal (clearForms st)"
  shows "cleared {js ''userForm'', js ''scheduleForm'', js ''eventForm'',
      js ''announcementForm'', js ''registerForm'', js ''loginForm''} st
      (stateOf (logout ev True st))"
proof -
  let ?st0 = "st\<lparr>currentUser := None\<rparr>"
  from assms have n: "isNormal (clearForms ?st0)"
    by (simp add: isNormal_clearForms)
  have c: "cleared {js ''userForm'', js ''scheduleForm'', js ''eventForm'',
      js ''announcementForm'', js ''registerForm'', js ''loginForm''} ?st0
      (stateOf (clearForms ?st0))"
    using n by (rule cleared_clearForms)
  have k: "sameControls s
     (stateOf (andThen (updateAuthButtons s) (\<lambda>st2.
        andThen (showSection ev (js ''home'') st2) (\<lambda>st3.
        Normal (showNotification (js ''Logged out successfully'') (js ''success'') None st3)))))"
    for s
  proof -
    have fin: "sameControls x (stateOf (Normal (showNotification a b c x)))" for x a b c
      unfolding stateOf_simps by (rule sameControls_showNotification)
    show ?thesis
      by (intro sameControls_andThen sameControls_updateAuthButtons sameControls_showSection
          fin)
  qed
  have "cleared {js ''userForm'', js ''scheduleForm'', js ''eventForm'',
      js ''announcementForm'', js ''registerForm'', js ''loginForm''} ?st0
      (stateOf (logout ev True st))"
    unfolding logout_def if_True stateOf_andThen [OF n]
    by (rule cleared_sameControls [OF c k])
  then show ?thesis by (rule cleared_currentUser)
qed

lemma cleared_valueOf:
  assumes "cleared F st st'" and "elems st i = Some e" and "el_form e = Some f" and "f \<in> F"
    and "el_value e \<noteq> None"
  shows "valueOf i st' = Some (Some (el_default e))"
  using assms by (auto simp: cleared_def)

lemma sameShape_clearForms: "sameShape st (stateOf (clearForms st))"
proof -
  have r: "sameShape s (stateOf (resetFormById f s))" for s f
    by (simp add: resetFormById_def split: option.splits)
  have c: "sameShape s (stateOf (resetFormById f (clearFormErrors g s)))" for s f g
    by (rule sameShape_trans [OF sameControls_sameShape r]) simp
  have fin: "sameShape s (stateOf (Normal (clearFormErrors g s)))" for s g
    unfolding stateOf_simps by (rule sameControls_sameShape) simp
  show ?thesis
    unfolding clearForms_def
    by (intro andThen_rel [of sameShape, OF sameShape_trans] r c fin)
qed

lemma andThen_isNormal: "isNormal r \<Longrightarrow> andThen r f = f (stateOf r)"
  by (cases r) (simp_all add: andThen_def)

lemma notified_frame:
  "elems (showNotification m t None st) = elems st"
  "currentSection (appState (showNotification m t None st)) = currentSection (appState st)"
  by (simp_all add: showNotification_def notifyArea_def setTimeout_def split: option.splits)

lemma logout_page:
  assumes forms: "isNormal (clearForms st)"
    and auth: "elems st (js ''authButtons'') \<noteq> None" "elems st (js ''heroButtons'') \<noteq> None"
    and nav: "elems st (js ''main-nav'') \<noteq> None"
    and menu: "firstIndex (hasClass (js ''mobile-menu'')) (anon st) \<noteq> None"
    and query: "elems st (js ''home'') \<noteq> None \<longrightarrow> navQuery st (js ''home'') \<noteq> QuerySyntaxError"
  shows "isNormal (logout ev True st) \<and>
     currentSection (appState (stateOf (logout ev True st))) = js ''home'' \<and>
     (\<forall>j e. elems st j = Some e \<longrightarrow> el_section e \<longrightarrow>
        hiddenOf j (stateOf (logout ev True st)) = Some (j \<noteq> js ''home''))"
proof -
  let ?st0 = "st\<lparr>currentUser := None\<rparr>"
  let ?st1 = "stateOf (clearForms ?st0)"
  let ?st2 = "stateOf (updateAuthButtons ?st1)"
  from forms have n0: "isNormal (clearForms ?st0)"
    by (simp add: isNormal_clearForms)
  have s01: "sameShape ?st0 ?st1" by (rule sameShape_clearForms)
  have a01: "sameApp ?st0 ?st1" by (rule sameApp_clearForms)
  have d01: "sameData ?st0 ?st1" by (rule sameData_clearForms)
  have c12: "sameControls ?st1 ?st2" by (rule sameControls_updateAuthButtons)
  have a12: "sameApp ?st1 ?st2" by (rule sameApp_updateAuthButtons)
  have d12: "sameData ?st1 ?st2" by (rule sameData_updateAuthButtons)
  have sh1: "shapeOf x ?st1 = shapeOf x st" for x
    using s01 by (simp add: sameShape_def shapeOf_def)
  have sh2: "shapeOf x ?st2 = shapeOf x st" for x
    using c12 sh1 by (simp add: sameControls_def)
  have p1: "elems ?st1 x = None \<longleftrightarrow> elems st x = None" for x
  proof -
    have "shapeOf x ?st1 = None \<longleftrightarrow> shapeOf x st = None"
      by (simp only: sh1)
    then show ?thesis
      by (simp only: shapeOf_def option.map_disc_iff)
  qed
  have p2: "elems ?st2 x = None \<longleftrightarrow> elems st x = None" for x
  proof -
    have "shapeOf x ?st2 = None \<longleftrightarrow> shapeOf x st = None"
      by (simp only: sh2)
    then show ?thesis
      by (simp only: shapeOf_def option.map_disc_iff)
  qed
  have n1: "isNormal (updateAuthButtons ?st1)"
    using auth by (simp add: isNormal_updateAuthButtons p1)
  have u2: "currentUser ?st2 = None"
    using d01 d12 by (simp add: sameData_def)
  have an2: "anon ?st2 = anon st"
    using a01 a12 by (simp add: sameApp_def)
  have q2: "navQuery ?st2 = navQuery st"
    using s01 c12 by (simp add: sameShape_def sameControls_def)
  obtain st3 where s3: "showSection ev (js ''home'') ?st2 = Normal st3"
    and e3: "elems st3 =
       (\<lambda>j. map_option
          (\<lambda>e. let e1 = (if el_section e then classAdd (js ''hidden'') e else e);
                   e2 = (if j = js ''home'' then classRemove (js ''hidden'') e1 else e1)
               in if j = js ''main-nav'' then classRemove (js ''active'') e2 else e2)
          (elems ?st2 j))"
    and ap3: "appState st3 =
       (appState ?st2)\<lparr>currentSection := js ''home'', lastActivity := now ev\<rparr>"
    using showSection_no_user [of ?st2 "js ''home''" ev] u2 nav menu query
    unfolding an2 q2 p2 by blast
  have l: "logout ev True st =
     Normal (showNotification (js ''Logged out successfully'') (js ''success'') None st3)"
    unfolding logout_def if_True andThen_isNormal [OF n0] andThen_isNormal [OF n1] s3
    by (simp add: andThen_def)
  have v: "hiddenOf j (stateOf (logout ev True st)) = Some (j \<noteq> js ''home'')"
    if j: "elems st j = Some e" and sec: "el_section e" for j e
  proof -
    from sh2 [of j] j sec obtain e2 where e2: "elems ?st2 j = Some e2" "el_section e2"
      by (auto simp: shapeOf_def)
    show ?thesis
      unfolding l stateOf_simps hiddenOf_def notified_frame e3
      by (simp add: e2 Let_def)
  qed
  show ?thesis
    using v by (simp add: l notified_frame ap3)
qed

lemma forms_clearForms:
  "(\<forall>f\<in>set [js ''loginForm'', js ''registerForm'', js ''announcementForm'', js ''eventForm'',
            js ''scheduleForm'', js ''userForm'']. \<exists>e. elems st f = Some e \<and> el_isForm e) \<longleftrightarrow>
   isNormal (clearForms st)"
  by (auto simp: isNormal_clearForms isFormEl_def split: option.splits)

lemma logout_resets:
  assumes "isNormal (clearForms st)" and "elems st i = Some e"
    and "el_form e \<in> Some ` set [js ''loginForm'', js ''registerForm'', js ''announcementForm'',
            js ''eventForm'', js ''scheduleForm'', js ''userForm'']"
    and "el_value e \<noteq> None"
  shows "valueOf i (stateOf (logout ev True st)) = Some (Some (el_default e))"
proof -
  from assms(3) obtain f where f: "el_form e = Some f"
    "f \<in> {js ''userForm'', js ''scheduleForm'', js ''eventForm'',
      js ''announcementForm'', js ''registerForm'', js ''loginForm''}"
    by auto
  show ?thesis
    by (rule cleared_valueOf [OF logout_cleared [OF assms(1)] assms(2) f assms(4)])
qed

lemma register_valid:
  "isValid (validateOwn
     (obj [(js ''name'', Some (js ''Ann'')), (js ''email'', Some (js ''a@b.com'')),
           (js ''password'', Some (js ''12345678'')), (js ''userType'', Some (js ''student''))])
     [js ''name'', js ''email'', js ''password'', js ''userType''])"
proof -
  have "trim (js ''Ann'') = js ''Ann''"
    by (simp add: trim_def js_def isWhiteSpace_def)
  then show ?thesis
    by (simp add: validateOwn_isValid fieldMessage_None obj_def trim_js_simps
        validateEmail_a_b_com)
qed

lemma elems_typeInto:
  "elems (typeInto i v st) j =
     (if j = js i then map_option (\<lambda>el. el\<lparr>el_value := Some (js v)\<rparr>) (elems st j)
      else elems st j)"
  by (auto simp: typeInto_def split: option.splits)

lemma typeLogin_reads:
  "valueTrim (js ''loginEmail'') (typeLogin (exampleState t)) = Some (js ''a@b.com'')"
  "valueTrim (js ''loginPassword'') (typeLogin (exampleState t)) = Some (js ''12345678'')"
  "valueOf (js ''loginUserType'') (typeLogin (exampleState t)) = Some (Some (js ''student''))"
  by (simp_all add: typeLogin_def valueTrim_def valueOf_typeInto example_elems trim_js_simps)

lemma typeRegister_reads:
  "valueTrim (js ''regName'') (typeRegister (exampleState t)) = Some (js ''Ann'')"
  "valueTrim (js ''regEmail'') (typeRegister (exampleState t)) = Some (js ''a@b.com'')"
  "valueTrim (js ''regPassword'') (typeRegister (exampleState t)) = Some (js ''12345678'')"
  "valueOf (js ''regUserType'') (typeRegister (exampleState t)) = Some (Some (js ''student''))"
proof -
  have a: "trim (js ''Ann'') = js ''Ann''"
    by (simp add: trim_def js_def isWhiteSpace_def)
  show "valueTrim (js ''regName'') (typeRegister (exampleState t)) = Some (js ''Ann'')"
    "valueTrim (js ''regEmail'') (typeRegister (exampleState t)) = Some (js ''a@b.com'')"
    "valueTrim (js ''regPassword'') (typeRegister (exampleState t)) = Some (js ''12345678'')"
    "valueOf (js ''regUserType'') (typeRegister (exampleState t)) = Some (Some (js ''student''))"
    by (simp_all add: typeRegister_def valueTrim_def valueOf_typeInto example_elems
        trim_js_simps a)
qed

lemma example_forms:
  "\<forall>f\<in>set [js ''loginForm'', js ''registerForm'', js ''announcementForm'', js ''eventForm'',
            js ''scheduleForm'', js ''userForm''].
      \<exists>e. elems (exampleState t) f = Some e \<and> el_isForm e"
  by (simp add: example_elems formElement_def)

lemma typed_login_email:
  "elems (typeLogin (exampleState t)) (js ''loginEmail'') =
     Some ((control ''loginForm'' [])\<lparr>el_value := Some (js ''a@b.com'')\<rparr>)"
  by (simp add: typeLogin_def elems_typeInto example_elems)

lemma typeLogin_other:
  "j \<noteq> js ''loginEmail'' \<Longrightarrow> j \<noteq> js ''loginPassword'' \<Longrightarrow> j \<noteq> js ''loginUserType'' \<Longrightarrow>
   elems (typeLogin st) j = elems st j"
  by (simp add: typeLogin_def elems_typeInto)

lemma checkSessionTimeout_expired:
  assumes "currentUser st \<noteq> None"
    and "sessionTimeout (appState st) < now ev - lastActivity (appState st)"
  shows "checkSessionTimeout ev loginAgain confirmed st =
     (if loginAgain then logout ev confirmed st else Normal st)"
  using assms by (simp add: checkSessionTimeout_def Let_def)

lemma showingDashboard_simps [simp]:
  "currentUser (showingDashboard st) = currentUser st"
  "anon (showingDashboard st) = anon st"
  "navQuery (showingDashboard st) = navQuery st"
  "lastActivity (appState (showingDashboard st)) = lastActivity (appState st)"
  "sessionTimeout (appState (showingDashboard st)) = sessionTimeout (appState st)"
  "currentSection (appState (showingDashboard st)) = js ''dashboard''"
  "elems (showingDashboard st) j =
     (if j = js ''dashboard'' then Some (sectionElement False)
      else if j = js ''home'' then Some (sectionElement True) else elems st j)"
  by (simp_all add: showingDashboard_def)

lemma loggedIn_frame [simp]:
  "anon (loggedIn n e t st) = anon st"
  "navQuery (loggedIn n e t st) = navQuery st"
  "appState (loggedIn n e t st) = appState st"
  by (simp_all add: loggedIn_def)

lemma typeLogin_frame [simp]:
  "anon (typeLogin st) = anon st"
  "navQuery (typeLogin st) = navQuery st"
  "appState (typeLogin st) = appState st"
  "currentUser (typeLogin st) = currentUser st"
  by (simp_all add: typeLogin_def)

lemma validateOwn_valid:
  "isValid (validateOwn M R) \<Longrightarrow> validateOwn M R = \<lparr>isValid = True, errors = []\<rparr>"
  by (simp add: validateOwn_def Let_def)

section \<open>Claims\<close>

text \<open>
  C1 (amended). For every map of field values \<open>M\<close> and every list \<open>R\<close> of required names
  none of which is the name of a property of \<open>Object.prototype\<close>, \<open>validateForm(M, R)\<close>
  returns a result, and the result is valid exactly when every field of \<open>R\<close> is present
  and holds a character that is not white space, the email (when \<open>email\<close> is in \<open>R\<close>) has
  the shape \<open>local@domain.tld\<close>, and the password (when \<open>password\<close> is in \<open>R\<close>) has at
  least 8 code units; and \<open>errors\<close> carries a message for exactly the fields of \<open>R\<close> that
  break one of these rules. \<open>M\<close> maps a name to the string stored under it.
\<close>

theorem validateForm_correct:
  "(\<forall>f\<in>set R. f \<notin> set objectPrototype) \<longrightarrow>
   (\<exists>result. validateForm M R = Inr result \<and>
      (isValid result \<longleftrightarrow>
         (\<forall>f\<in>set R. \<exists>v. M f = Some v \<and> (\<exists>c\<in>set v. \<not> isWhiteSpace c)) \<and>
         (js ''email'' \<in> set R \<longrightarrow> (\<exists>v. M (js ''email'') = Some v \<and> emailShape v)) \<and>
         (js ''password'' \<in> set R \<longrightarrow> (\<exists>v. M (js ''password'') = Some v \<and> 8 \<le> length v))) \<and>
      (\<forall>f\<in>set R.
         (\<exists>msg. map_of (errors result) f = Some msg) \<longleftrightarrow>
           ((\<forall>v. M f = Some v \<longrightarrow> (\<forall>c\<in>set v. isWhiteSpace c)) \<or>
            (f = js ''email'' \<and> (\<exists>v. M f = Some v \<and> \<not> emailShape v)) \<or>
            (f = js ''password'' \<and> (\<exists>v. M f = Some v \<and> length v < 8)))))"
proof
  assume n: "\<forall>f\<in>set R. f \<notin> set objectPrototype"
  have r: "validateForm M R = Inr (validateOwn M R)"
    using n by (rule validateForm_own)
  have none: "fieldMessage M f = None \<longleftrightarrow>
     (\<exists>v. M f = Some v \<and> (\<exists>c\<in>set v. \<not> isWhiteSpace c) \<and>
          (f = js ''email'' \<longrightarrow> emailShape v) \<and> (f = js ''password'' \<longrightarrow> 8 \<le> length v))" for f
    by (simp add: fieldMessage_None trim_eq_Nil emailShape_validateEmail)
  have v: "isValid (validateOwn M R) \<longleftrightarrow>
         (\<forall>f\<in>set R. \<exists>v. M f = Some v \<and> (\<exists>c\<in>set v. \<not> isWhiteSpace c)) \<and>
         (js ''email'' \<in> set R \<longrightarrow> (\<exists>v. M (js ''email'') = Some v \<and> emailShape v)) \<and>
         (js ''password'' \<in> set R \<longrightarrow> (\<exists>v. M (js ''password'') = Some v \<and> 8 \<le> length v))"
    unfolding validateOwn_isValid none by (auto; fastforce)
  have m: "\<forall>f\<in>set R.
         (\<exists>msg. map_of (errors (validateOwn M R)) f = Some msg) \<longleftrightarrow>
           ((\<forall>v. M f = Some v \<longrightarrow> (\<forall>c\<in>set v. isWhiteSpace c)) \<or>
            (f = js ''email'' \<and> (\<exists>v. M f = Some v \<and> \<not> emailShape v)) \<or>
            (f = js ''password'' \<and> (\<exists>v. M f = Some v \<and> length v < 8)))"
  proof
    fix f assume f: "f \<in> set R"
    have "(\<exists>msg. map_of (errors (validateOwn M R)) f = Some msg) \<longleftrightarrow> fieldMessage M f \<noteq> None"
      using f by (simp add: validateOwn_map_of)
    also have "\<dots> \<longleftrightarrow>
           ((\<forall>v. M f = Some v \<longrightarrow> (\<forall>c\<in>set v. isWhiteSpace c)) \<or>
            (f = js ''email'' \<and> (\<exists>v. M f = Some v \<and> \<not> emailShape v)) \<or>
            (f = js ''password'' \<and> (\<exists>v. M f = Some v \<and> length v < 8)))"
      unfolding none by (cases "M f") auto
    finally show "(\<exists>msg. map_of (errors (validateOwn M R)) f = Some msg) \<longleftrightarrow>
           ((\<forall>v. M f = Some v \<longrightarrow> (\<forall>c\<in>set v. isWhiteSpace c)) \<or>
            (f = js ''email'' \<and> (\<exists>v. M f = Some v \<and> \<not> emailShape v)) \<or>
            (f = js ''password'' \<and> (\<exists>v. M f = Some v \<and> length v < 8)))" .
  qed
  show "\<exists>result. validateForm M R = Inr result \<and>
      (isValid result \<longleftrightarrow>
         (\<forall>f\<in>set R. \<exists>v. M f = Some v \<and> (\<exists>c\<in>set v. \<not> isWhiteSpace c)) \<and>
         (js ''email'' \<in> set R \<longrightarrow> (\<exists>v. M (js ''email'') = Some v \<and> emailShape v)) \<and>
         (js ''password'' \<in> set R \<longrightarrow> (\<exists>v. M (js ''password'') = Some v \<and> 8 \<le> length v))) \<and>
      (\<forall>f\<in>set R.
         (\<exists>msg. map_of (errors result) f = Some msg) \<longleftrightarrow>
           ((\<forall>v. M f = Some v \<longrightarrow> (\<forall>c\<in>set v. isWhiteSpace c)) \<or>
            (f = js ''email'' \<and> (\<exists>v. M f = Some v \<and> \<not> emailShape v)) \<or>
            (f = js ''password'' \<and> (\<exists>v. M f = Some v \<and> length v < 8))))"
  proof (intro exI conjI)
    show "validateForm M R = Inr (validateOwn M R)" by (rule r)
  qed (rule v, rule m)
qed

theorem validateForm_correct_witness:
  "(\<exists>result.
      validateForm
        [js ''email'' \<mapsto> js ''a@b.com'', js ''password'' \<mapsto> js ''12345678'',
         js ''userType'' \<mapsto> js ''student'']
        [js ''email'', js ''password'', js ''userType''] = Inr result \<and>
      isValid result) \<and>
   (\<exists>result.
      validateForm
        [js ''name'' \<mapsto> js ''  '', js ''email'' \<mapsto> js ''a@b'', js ''password'' \<mapsto> js ''1234'']
        [js ''name'', js ''email'', js ''password''] = Inr result \<and>
      \<not> isValid result \<and>
      (\<exists>msg. map_of (errors result) (js ''name'') = Some msg) \<and>
      (\<exists>msg. map_of (errors result) (js ''email'') = Some msg) \<and>
      (\<exists>msg. map_of (errors result) (js ''password'') = Some msg))"
proof
  have s: "emailShape (js ''a@b.com'')"
    unfolding emailShape_validateEmail by (rule validateEmail_a_b_com)
  have c: "\<exists>c\<in>set (js ''a@b.com''). \<not> isWhiteSpace c"
    "\<exists>c\<in>set (js ''12345678''). \<not> isWhiteSpace c"
    "\<exists>c\<in>set (js ''student''). \<not> isWhiteSpace c"
    by (simp_all add: js_def isWhiteSpace_def)
  from validateForm_correct
      [of "[js ''email'', js ''password'', js ''userType'']"
          "[js ''email'' \<mapsto> js ''a@b.com'', js ''password'' \<mapsto> js ''12345678'',
            js ''userType'' \<mapsto> js ''student'']"]
  show "\<exists>result.
      validateForm
        [js ''email'' \<mapsto> js ''a@b.com'', js ''password'' \<mapsto> js ''12345678'',
         js ''userType'' \<mapsto> js ''student'']
        [js ''email'', js ''password'', js ''userType''] = Inr result \<and>
      isValid result"
    using s c by (simp add: own_names) blast
next
  have n: "\<not> emailShape (js ''a@b'')"
  proof
    assume "emailShape (js ''a@b'')"
    then obtain l d t where "js ''a@b'' = l @ [0x0040] @ d @ [0x002E] @ t"
      unfolding emailShape_def by blast
    then have "set (js ''a@b'') = set (l @ [0x0040] @ d @ [0x002E] @ t)"
      by (rule arg_cong)
    then have "(0x002E :: code_unit) \<in> set (js ''a@b'')"
      by simp
    then show False
      by (simp add: js_def)
  qed
  have w: "\<forall>c\<in>set (js ''  ''). isWhiteSpace c"
    by (simp add: js_def isWhiteSpace_def)
  from validateForm_correct
      [of "[js ''name'', js ''email'', js ''password'']"
          "[js ''name'' \<mapsto> js ''  '', js ''email'' \<mapsto> js ''a@b'',
            js ''password'' \<mapsto> js ''1234'']"]
  show "\<exists>result.
      validateForm
        [js ''name'' \<mapsto> js ''  '', js ''email'' \<mapsto> js ''a@b'', js ''password'' \<mapsto> js ''1234'']
        [js ''name'', js ''email'', js ''password''] = Inr result \<and>
      \<not> isValid result \<and>
      (\<exists>msg. map_of (errors result) (js ''name'') = Some msg) \<and>
      (\<exists>msg. map_of (errors result) (js ''email'') = Some msg) \<and>
      (\<exists>msg. map_of (errors result) (js ''password'') = Some msg)"
    using n w by (simp add: own_names)
qed

text \<open>
  C1 as stated, for every list of names, fails on the names that objects inherit: for
  the required name \<open>toString\<close> and an empty map the call ends with a \<open>TypeError\<close> and
  returns no result; for the required name \<open>__proto__\<close> stored with an empty string the
  result is valid although the field is empty.
\<close>

theorem validateForm_inherited_names:
  "validateForm Map.empty [js ''toString''] = Inl TypeError \<and>
   validateForm [js ''__proto__'' \<mapsto> []] [js ''__proto__''] =
     Inr \<lparr>isValid = True, errors = []\<rparr>"
  by (simp add: validateForm_def checkField_def getProperty_def setProperty_def
      objectPrototype_def)

text \<open>
  C7. A submission of any of the six forms whose fields fail validation ends normally and
  changes neither the collections, nor the current user, nor the profile records; and for
  every field with a message, the element \<open>\<dots>Error\<close> of that field, when the page has
  one, shows the message and is no longer hidden. The fields are the values the handler
  reads from its controls.
\<close>

theorem invalid_submission_changes_nothing:
  "(valueTrim (js ''loginEmail'') st = Some email \<longrightarrow>
    valueTrim (js ''loginPassword'') st = Some password \<longrightarrow>
    valueOf (js ''loginUserType'') st = Some userType \<longrightarrow>
    validateForm
      (obj [(js ''email'', Some email), (js ''password'', Some password),
            (js ''userType'', userType)])
      [js ''email'', js ''password'', js ''userType''] = Inr validation \<longrightarrow>
    (let st' = stateOf (loginSubmit st)
     in \<not> isValid validation \<longrightarrow>
        isNormal (loginSubmit st) \<and> currentUser st' = currentUser st \<and>
        database st' = database st \<and> userProfileData st' = userProfileData st \<and>
        (\<forall>f msg. map_of (errors validation) f = Some msg \<longrightarrow>
           shapeOf (f @ js ''Error'') st \<noteq> None \<longrightarrow>
           childrenOf (f @ js ''Error'') st' = Some [Txt msg] \<and>
           hiddenOf (f @ js ''Error'') st' = Some False))) \<and>
   (valueTrim (js ''regName'') st = Some name \<longrightarrow>
    valueTrim (js ''regEmail'') st = Some email \<longrightarrow>
    valueTrim (js ''regPassword'') st = Some password \<longrightarrow>
    valueOf (js ''regUserType'') st = Some userType \<longrightarrow>
    validateForm
      (obj [(js ''name'', Some name), (js ''email'', Some email),
            (js ''password'', Some password), (js ''userType'', userType)])
      [js ''name'', js ''email'', js ''password'', js ''userType''] = Inr validation \<longrightarrow>
    (let st' = stateOf (registerSubmit st)
     in \<not> isValid validation \<longrightarrow>
        isNormal (registerSubmit st) \<and> currentUser st' = currentUser st \<and>
        database st' = database st \<and> userProfileData st' = userProfileData st \<and>
        (\<forall>f msg. map_of (errors validation) f = Some msg \<longrightarrow>
           shapeOf (f @ js ''Error'') st \<noteq> None \<longrightarrow>
           childrenOf (f @ js ''Error'') st' = Some [Txt msg] \<and>
           hiddenOf (f @ js ''Error'') st' = Some False))) \<and>
   (valueTrim (js ''announcementTitle'') st = Some title \<longrightarrow>
    valueTrim (js ''announcementContent'') st = Some content \<longrightarrow>
    valueOf (js ''announcementPriority'') st = Some priority \<longrightarrow>
    validateForm
      (obj [(js ''title'', Some title), (js ''content'', Some content),
            (js ''priority'', priority)])
      [js ''title'', js ''content''] = Inr validation \<longrightarrow>
    (let st' = stateOf (announcementSubmit ev st)
     in \<not> isValid validation \<longrightarrow>
        isNormal (announcementSubmit ev st) \<and> currentUser st' = currentUser st \<and>
        database st' = database st \<and> userProfileData st' = userProfileData st \<and>
        (\<forall>f msg. map_of (errors validation) f = Some msg \<longrightarrow>
           shapeOf (f @ js ''Error'') st \<noteq> None \<longrightarrow>
           childrenOf (f @ js ''Error'') st' = Some [Txt msg] \<and>
           hiddenOf (f @ js ''Error'') st' = Some False))) \<and>
   (valueTrim (js ''eventTitle'') st = Some title \<longrightarrow>
    valueOf (js ''eventDate'') st = Some date \<longrightarrow>
    valueOf (js ''eventTime'') st = Some time \<longrightarrow>
    valueTrim (js ''eventLocation'') st = Some location \<longrightarrow>
    valueTrim (js ''eventDescription'') st = Some description \<longrightarrow>
    validateForm
      (obj [(js ''title'', Some title), (js ''date'', date), (js ''time'', time),
            (js ''location'', Some location), (js ''description'', Some description)])
      [js ''title'', js ''date'', js ''time'', js ''location'', js ''description''] = Inr validation \<longrightarrow>
    (let st' = stateOf (eventSubmit ev st)
     in \<not> isValid validation \<longrightarrow>
        isNormal (eventSubmit ev st) \<and> currentUser st' = currentUser st \<and>
        database st' = database st \<and> userProfileData st' = userProfileData st \<and>
        (\<forall>f msg. map_of (errors validation) f = Some msg \<longrightarrow>
           shapeOf (f @ js ''Error'') st \<noteq> None \<longrightarrow>
           childrenOf (f @ js ''Error'') st' = Some [Txt msg] \<and>
           hiddenOf (f @ js ''Error'') st' = Some False))) \<and>
   (valueTrim (js ''scheduleCourse'') st = Some course \<longrightarrow>
    valueOf (js ''scheduleDate'') st = Some date \<longrightarrow>
    valueOf (js ''scheduleTime'') st = Some time \<longrightarrow>
    valueTrim (js ''scheduleRoom'') st = Some room \<longrightarrow>
    valueTrim (js ''scheduleInstructor'') st = Some instructor \<longrightarrow>
    validateForm
      (obj [(js ''course'', Some course), (js ''date'', date), (js ''time'', time),
            (js ''room'', Some room), (js ''instructor'', Some instructor)])
      [js ''course'', js ''date'', js ''time'', js ''room'', js ''instructor''] = Inr validation \<longrightarrow>
    (let st' = stateOf (scheduleSubmit ev st)
     in \<not> isValid validation \<longrightarrow>
        isNormal (scheduleSubmit ev st) \<and> currentUser st' = currentUser st \<and>
        database st' = database st \<and> userProfileData st' = userProfileData st \<and>
        (\<forall>f msg. map_of (errors validation) f = Some msg \<longrightarrow>
           shapeOf (f @ js ''Error'') st \<noteq> None \<longrightarrow>
           childrenOf (f @ js ''Error'') st' = Some [Txt msg] \<and>
           hiddenOf (f @ js ''Error'') st' = Some False))) \<and>
   (valueTrim (js ''userName'') st = Some name \<longrightarrow>
    valueTrim (js ''userEmail'') st = Some email \<longrightarrow>
    valueOf (js ''userType'') st = Some type \<longrightarrow>
    validateForm
      (obj [(js ''name'', Some name), (js ''email'', Some email), (js ''type'', type)])
      [js ''name'', js ''email'', js ''type''] = Inr validation \<longrightarrow>
    (let st' = stateOf (userSubmit ev st)
     in \<not> isValid validation \<longrightarrow>
        isNormal (userSubmit ev st) \<and> currentUser st' = currentUser st \<and>
        database st' = database st \<and> userProfileData st' = userProfileData st \<and>
        (\<forall>f msg. map_of (errors validation) f = Some msg \<longrightarrow>
           shapeOf (f @ js ''Error'') st \<noteq> None \<longrightarrow>
           childrenOf (f @ js ''Error'') st' = Some [Txt msg] \<and>
           hiddenOf (f @ js ''Error'') st' = Some False)))"
proof (intro conjI impI)
  assume r: "valueTrim (js ''loginEmail'') st = Some email"
    "valueTrim (js ''loginPassword'') st = Some password"
    "valueOf (js ''loginUserType'') st = Some userType"
    and e: "validateForm
        (obj [(js ''email'', Some email), (js ''password'', Some password),
              (js ''userType'', userType)])
        [js ''email'', js ''password'', js ''userType''] = Inr validation"
  have o: "validation = validateOwn
        (obj [(js ''email'', Some email), (js ''password'', Some password),
              (js ''userType'', userType)])
        [js ''email'', js ''password'', js ''userType'']"
    using e by (simp add: validateForm_lists)
  show "let st' = stateOf (loginSubmit st)
     in \<not> isValid validation \<longrightarrow>
        isNormal (loginSubmit st) \<and> currentUser st' = currentUser st \<and>
        database st' = database st \<and> userProfileData st' = userProfileData st \<and>
        (\<forall>f msg. map_of (errors validation) f = Some msg \<longrightarrow>
           shapeOf (f @ js ''Error'') st \<noteq> None \<longrightarrow>
           childrenOf (f @ js ''Error'') st' = Some [Txt msg] \<and>
           hiddenOf (f @ js ''Error'') st' = Some False)"
    unfolding Let_def o
    by (rule impI, rule invalid_submission) (simp add: loginSubmit_unfold [OF r] Let_def)
next
  assume r: "valueTrim (js ''regName'') st = Some name"
    "valueTrim (js ''regEmail'') st = Some email"
    "valueTrim (js ''regPassword'') st = Some password"
    "valueOf (js ''regUserType'') st = Some userType"
    and e: "validateForm
        (obj [(js ''name'', Some name), (js ''email'', Some email),
              (js ''password'', Some password), (js ''userType'', userType)])
        [js ''name'', js ''email'', js ''password'', js ''userType''] = Inr validation"
  have o: "validation = validateOwn
        (obj [(js ''name'', Some name), (js ''email'', Some email),
              (js ''password'', Some password), (js ''userType'', userType)])
        [js ''name'', js ''email'', js ''password'', js ''userType'']"
    using e by (simp add: validateForm_lists)
  show "let st' = stateOf (registerSubmit st)
     in \<not> isValid validation \<longrightarrow>
        isNormal (registerSubmit st) \<and> currentUser st' = currentUser st \<and>
        database st' = database st \<and> userProfileData st' = userProfileData st \<and>
        (\<forall>f msg. map_of (errors validation) f = Some msg \<longrightarrow>
           shapeOf (f @ js ''Error'') st \<noteq> None \<longrightarrow>
           childrenOf (f @ js ''Error'') st' = Some [Txt msg] \<and>
           hiddenOf (f @ js ''Error'') st' = Some False)"
    unfolding Let_def o
    by (rule impI, rule invalid_submission) (simp add: registerSubmit_unfold [OF r] Let_def)
next
  assume r: "valueTrim (js ''announcementTitle'') st = Some title"
    "valueTrim (js ''announcementContent'') st = Some content"
    "valueOf (js ''announcementPriority'') st = Some priority"
    and e: "validateForm
        (obj [(js ''title'', Some title), (js ''content'', Some content),
              (js ''priority'', priority)])
        [js ''title'', js ''content''] = Inr validation"
  have o: "validation = validateOwn
        (obj [(js ''title'', Some title), (js ''content'', Some content),
              (js ''priority'', priority)])
        [js ''title'', js ''content'']"
    using e by (simp add: validateForm_lists)
  show "let st' = stateOf (announcementSubmit ev st)
     in \<not> isValid validation \<longrightarrow>
        isNormal (announcementSubmit ev st) \<and> currentUser st' = currentUser st \<and>
        database st' = database st \<and> userProfileData st' = userProfileData st \<and>
        (\<forall>f msg. map_of (errors validation) f = Some msg \<longrightarrow>
           shapeOf (f @ js ''Error'') st \<noteq> None \<longrightarrow>
           childrenOf (f @ js ''Error'') st' = Some [Txt msg] \<and>
           hiddenOf (f @ js ''Error'') st' = Some False)"
    unfolding Let_def o
    by (rule impI, rule invalid_submission) (simp add: announcementSubmit_unfold [OF r] Let_def)
next
  assume r: "valueTrim (js ''eventTitle'') st = Some title"
    "valueOf (js ''eventDate'') st = Some date"
    "valueOf (js ''eventTime'') st = Some time"
    "valueTrim (js ''eventLocation'') st = Some location"
    "valueTrim (js ''eventDescription'') st = Some description"
    and e: "validateForm
        (obj [(js ''title'', Some title), (js ''date'', date), (js ''time'', time),
              (js ''location'', Some location), (js ''description'', Some description)])
        [js ''title'', js ''date'', js ''time'', js ''location'', js ''description''] = Inr validation"
  have o: "validation = validateOwn
        (obj [(js ''title'', Some title), (js ''date'', date), (js ''time'', time),
              (js ''location'', Some location), (js ''description'', Some description)])
        [js ''title'', js ''date'', js ''time'', js ''location'', js ''description'']"
    using e by (simp add: validateForm_lists)
  show "let st' = stateOf (eventSubmit ev st)
     in \<not> isValid validation \<longrightarrow>
        isNormal (eventSubmit ev st) \<and> currentUser st' = currentUser st \<and>
        database st' = database st \<and> userProfileData st' = userProfileData st \<and>
        (\<forall>f msg. map_of (errors validation) f = Some msg \<longrightarrow>
           shapeOf (f @ js ''Error'') st \<noteq> None \<longrightarrow>
           childrenOf (f @ js ''Error'') st' = Some [Txt msg] \<and>
           hiddenOf (f @ js ''Error'') st' = Some False)"
    unfolding Let_def o
    by (rule impI, rule invalid_submission) (simp add: eventSubmit_unfold [OF r] Let_def)
next
  assume r: "valueTrim (js ''scheduleCourse'') st = Some course"
    "valueOf (js ''scheduleDate'') st = Some date"
    "valueOf (js ''scheduleTime'') st = Some time"
    "valueTrim (js ''scheduleRoom'') st = Some room"
    "valueTrim (js ''scheduleInstructor'') st = Some instructor"
    and e: "validateForm
        (obj [(js ''course'', Some course), (js ''date'', date), (js ''time'', time),
              (js ''room'', Some room), (js ''instructor'', Some instructor)])
        [js ''course'', js ''date'', js ''time'', js ''room'', js ''instructor''] = Inr validation"
  have o: "validation = validateOwn
        (obj [(js ''course'', Some course), (js ''date'', date), (js ''time'', time),
              (js ''room'', Some room), (js ''instructor'', Some instructor)])
        [js ''course'', js ''date'', js ''time'', js ''room'', js ''instructor'']"
    using e by (simp add: validateForm_lists)
  show "let st' = stateOf (scheduleSubmit ev st)
     in \<not> isValid validation \<longrightarrow>
        isNormal (scheduleSubmit ev st) \<and> currentUser st' = currentUser st \<and>
        database st' = database st \<and> userProfileData st' = userProfileData st \<and>
        (\<forall>f msg. map_of (errors validation) f = Some msg \<longrightarrow>
           shapeOf (f @ js ''Error'') st \<noteq> None \<longrightarrow>
           childrenOf (f @ js ''Error'') st' = Some [Txt msg] \<and>
           hiddenOf (f @ js ''Error'') st' = Some False)"
    unfolding Let_def o
    by (rule impI, rule invalid_submission) (simp add: scheduleSubmit_unfold [OF r] Let_def)
next
  assume r: "valueTrim (js ''userName'') st = Some name"
    "valueTrim (js ''userEmail'') st = Some email"
    "valueOf (js ''userType'') st = Some type"
    and e: "validateForm
        (obj [(js ''name'', Some name), (js ''email'', Some email), (js ''type'', type)])
        [js ''name'', js ''email'', js ''type''] = Inr validation"
  have o: "validation = validateOwn
        (obj [(js ''name'', Some name), (js ''email'', Some email), (js ''type'', type)])
        [js ''name'', js ''email'', js ''type'']"
    using e by (simp add: validateForm_lists)
  show "let st' = stateOf (userSubmit ev st)
     in \<not> isValid validation \<longrightarrow>
        isNormal (userSubmit ev st) \<and> currentUser st' = currentUser st \<and>
        database st' = database st \<and> userProfileData st' = userProfileData st \<and>
        (\<forall>f msg. map_of (errors validation) f = Some msg \<longrightarrow>
           shapeOf (f @ js ''Error'') st \<noteq> None \<longrightarrow>
           childrenOf (f @ js ''Error'') st' = Some [Txt msg] \<and>
           hiddenOf (f @ js ''Error'') st' = Some False)"
    unfolding Let_def o
    by (rule impI, rule invalid_submission) (simp add: userSubmit_unfold [OF r] Let_def)
qed

theorem invalid_submission_changes_nothing_witness:
  "isNormal (loginSubmit
      (typeInto ''loginPassword'' ''12345678''
        (typeInto ''loginUserType'' ''student'' (exampleState 0)))) \<and>
   database (stateOf (loginSubmit
      (typeInto ''loginPassword'' ''12345678''
        (typeInto ''loginUserType'' ''student'' (exampleState 0))))) = database_init \<and>
   currentUser (stateOf (loginSubmit
      (typeInto ''loginPassword'' ''12345678''
        (typeInto ''loginUserType'' ''student'' (exampleState 0))))) = None \<and>
   childrenOf (js ''emailError'') (stateOf (loginSubmit
      (typeInto ''loginPassword'' ''12345678''
        (typeInto ''loginUserType'' ''student'' (exampleState 0))))) =
     Some [Txt (js ''email is required'')] \<and>
   hiddenOf (js ''emailError'') (stateOf (loginSubmit
      (typeInto ''loginPassword'' ''12345678''
        (typeInto ''loginUserType'' ''student'' (exampleState 0))))) = Some False"
proof -
  let ?st = "typeInto ''loginPassword'' ''12345678''
        (typeInto ''loginUserType'' ''student'' (exampleState 0))"
  let ?M = "obj [(js ''email'', Some []), (js ''password'', Some (js ''12345678'')),
                   (js ''userType'', Some (js ''student''))]"
  let ?R = "[js ''email'', js ''password'', js ''userType'']"
  have r1: "valueTrim (js ''loginEmail'') ?st = Some []"
    and r2: "valueTrim (js ''loginPassword'') ?st = Some (js ''12345678'')"
    and r3: "valueOf (js ''loginUserType'') ?st = Some (Some (js ''student''))"
    by (simp_all add: valueTrim_def valueOf_typeInto example_elems example_valueOf
        trim_js_simps)
  have m: "fieldMessage ?M (js ''email'') = Some (js ''email is required'')"
    by (simp add: fieldMessage_def obj_def js_def)
  then have inv: "\<not> isValid (validateOwn ?M ?R)"
    by (simp add: validateOwn_isValid)
  have e: "map_of (errors (validateOwn ?M ?R)) (js ''email'') = Some (js ''email is required'')"
    using m by (simp add: validateOwn_map_of)
  have k: "js ''email'' @ js ''Error'' = js ''emailError''"
    by (simp add: js_def)
  have p: "shapeOf (js ''email'' @ js ''Error'') ?st \<noteq> None"
    unfolding k by (simp add: shapeOf_def example_elems)
  have q: "validateForm ?M ?R = Inr (validateOwn ?M ?R)"
    by (rule validateForm_lists)
  have "let st' = stateOf (loginSubmit ?st)
     in \<not> isValid (validateOwn ?M ?R) \<longrightarrow>
        isNormal (loginSubmit ?st) \<and> currentUser st' = currentUser ?st \<and>
        database st' = database ?st \<and> userProfileData st' = userProfileData ?st \<and>
        (\<forall>f msg. map_of (errors (validateOwn ?M ?R)) f = Some msg \<longrightarrow>
           shapeOf (f @ js ''Error'') ?st \<noteq> None \<longrightarrow>
           childrenOf (f @ js ''Error'') st' = Some [Txt msg] \<and>
           hiddenOf (f @ js ''Error'') st' = Some False)"
    by (rule invalid_submission_changes_nothing
          [where st = ?st and email = "[]" and password = "js ''12345678''"
             and userType = "Some (js ''student'')" and validation = "validateOwn ?M ?R",
           THEN conjunct1, THEN mp, THEN mp, THEN mp, THEN mp, OF r1 r2 r3 q])
  with inv have main: "isNormal (loginSubmit ?st) \<and>
        currentUser (stateOf (loginSubmit ?st)) = currentUser ?st \<and>
        database (stateOf (loginSubmit ?st)) = database ?st \<and>
        userProfileData (stateOf (loginSubmit ?st)) = userProfileData ?st \<and>
        (\<forall>f msg. map_of (errors (validateOwn ?M ?R)) f = Some msg \<longrightarrow>
           shapeOf (f @ js ''Error'') ?st \<noteq> None \<longrightarrow>
           childrenOf (f @ js ''Error'') (stateOf (loginSubmit ?st)) = Some [Txt msg] \<and>
           hiddenOf (f @ js ''Error'') (stateOf (loginSubmit ?st)) = Some False)"
    unfolding Let_def by blast
  with e p have "childrenOf (js ''email'' @ js ''Error'') (stateOf (loginSubmit ?st)) =
       Some [Txt (js ''email is required'')] \<and>
     hiddenOf (js ''email'' @ js ''Error'') (stateOf (loginSubmit ?st)) = Some False"
    by blast
  with main show ?thesis
    unfolding k by simp
qed

text \<open>
  C4 (amended). A submission of the announcement, event, schedule or user form that passes
  validation (for the event form also the date rule; for the announcement and the event
  form with a user logged in) ends normally and puts the new record at index 0 of its
  collection, with the clock's reading \<open>Date.now()\<close> as its id and the stored records
  behind it in their order; ids that were distinct stay distinct when no stored record
  has that reading as its id.
\<close>

theorem crud_submission_inserts_at_front:
  "(valueTrim (js ''announcementTitle'') st = Some title \<longrightarrow>
    valueTrim (js ''announcementContent'') st = Some content \<longrightarrow>
    valueOf (js ''announcementPriority'') st = Some priority \<longrightarrow>
    validateForm
      (obj [(js ''title'', Some title), (js ''content'', Some content),
            (js ''priority'', priority)])
      [js ''title'', js ''content''] = Inr validation \<longrightarrow>
    isValid validation \<longrightarrow>
    currentUser st = Some u \<longrightarrow>
    isNormal (announcementSubmit ev st) \<and>
    announcements (database (stateOf (announcementSubmit ev st))) =
      \<lparr>a_id = now ev, a_title = title, a_content = content, a_priority = priority,
       a_date = localeDate ev (now ev), a_author = u_name u\<rparr> #
      announcements (database st) \<and>
    (distinct (map a_id (announcements (database st))) \<longrightarrow>
     (\<forall>a\<in>set (announcements (database st)). a_id a \<noteq> now ev) \<longrightarrow>
     distinct (map a_id (announcements (database (stateOf (announcementSubmit ev st))))))) \<and>
   (valueTrim (js ''eventTitle'') st = Some title \<longrightarrow>
    valueOf (js ''eventDate'') st = Some date \<longrightarrow>
    valueOf (js ''eventTime'') st = Some time \<longrightarrow>
    valueTrim (js ''eventLocation'') st = Some location \<longrightarrow>
    valueTrim (js ''eventDescription'') st = Some description \<longrightarrow>
    validateForm
      (obj [(js ''title'', Some title), (js ''date'', date), (js ''time'', time),
            (js ''location'', Some location), (js ''description'', Some description)])
      [js ''title'', js ''date'', js ''time'', js ''location'', js ''description''] = Inr validation \<longrightarrow>
    isValid validation \<longrightarrow>
    \<not> (case newDate ev date of
         None \<Rightarrow> False
       | Some eventDate \<Rightarrow> eventDate < localMidnight ev) \<longrightarrow>
    currentUser st = Some u \<longrightarrow>
    isNormal (eventSubmit ev st) \<and>
    events (database (stateOf (eventSubmit ev st))) =
      \<lparr>e_id = now ev, e_title = title, e_description = description, e_date = date,
       e_time = time, e_location = location, e_organizer = u_name u\<rparr> #
      events (database st) \<and>
    (distinct (map e_id (events (database st))) \<longrightarrow>
     (\<forall>e\<in>set (events (database st)). e_id e \<noteq> now ev) \<longrightarrow>
     distinct (map e_id (events (database (stateOf (eventSubmit ev st))))))) \<and>
   (valueTrim (js ''scheduleCourse'') st = Some course \<longrightarrow>
    valueOf (js ''scheduleDate'') st = Some date \<longrightarrow>
    valueOf (js ''scheduleTime'') st = Some time \<longrightarrow>
    valueTrim (js ''scheduleRoom'') st = Some room \<longrightarrow>
    valueTrim (js ''scheduleInstructor'') st = Some instructor \<longrightarrow>
    validateForm
      (obj [(js ''course'', Some course), (js ''date'', date), (js ''time'', time),
            (js ''room'', Some room), (js ''instructor'', Some instructor)])
      [js ''course'', js ''date'', js ''time'', js ''room'', js ''instructor''] = Inr validation \<longrightarrow>
    isValid validation \<longrightarrow>
    isNormal (scheduleSubmit ev st) \<and>
    schedules (database (stateOf (scheduleSubmit ev st))) =
      \<lparr>s_id = now ev, s_course = course, s_date = date, s_time = time, s_room = room,
       s_instructor = instructor\<rparr> # schedules (database st) \<and>
    (distinct (map s_id (schedules (database st))) \<longrightarrow>
     (\<forall>s\<in>set (schedules (database st)). s_id s \<noteq> now ev) \<longrightarrow>
     distinct (map s_id (schedules (database (stateOf (scheduleSubmit ev st))))))) \<and>
   (valueTrim (js ''userName'') st = Some name \<longrightarrow>
    valueTrim (js ''userEmail'') st = Some email \<longrightarrow>
    valueOf (js ''userType'') st = Some type \<longrightarrow>
    validateForm
      (obj [(js ''name'', Some name), (js ''email'', Some email), (js ''type'', type)])
      [js ''name'', js ''email'', js ''type''] = Inr validation \<longrightarrow>
    isValid validation \<longrightarrow>
    isNormal (userSubmit ev st) \<and>
    users (database (stateOf (userSubmit ev st))) =
      \<lparr>pu_id = now ev, pu_name = name, pu_email = email, pu_type = type\<rparr> #
      users (database st) \<and>
    (distinct (map pu_id (users (database st))) \<longrightarrow>
     (\<forall>x\<in>set (users (database st)). pu_id x \<noteq> now ev) \<longrightarrow>
     distinct (map pu_id (users (database (stateOf (userSubmit ev st)))))))"
proof (intro conjI impI)
  assume r: "valueTrim (js ''announcementTitle'') st = Some title"
    "valueTrim (js ''announcementContent'') st = Some content"
    "valueOf (js ''announcementPriority'') st = Some priority"
    and e: "validateForm
      (obj [(js ''title'', Some title), (js ''content'', Some content),
            (js ''priority'', priority)])
      [js ''title'', js ''content''] = Inr validation"
    and v0: "isValid validation"
    and t: "currentUser st = Some u"
  have v: "isValid (validateOwn
      (obj [(js ''title'', Some title), (js ''content'', Some content),
            (js ''priority'', priority)])
      [js ''title'', js ''content''])"
    using e v0 by (simp add: validateForm_lists)
  note a = r v t
  note s = announcementSubmit_success [OF a, of ev]
  from s show "isNormal (announcementSubmit ev st)" by simp
  from s show eq: "announcements (database (stateOf (announcementSubmit ev st))) =
      \<lparr>a_id = now ev, a_title = title, a_content = content, a_priority = priority,
       a_date = localeDate ev (now ev), a_author = u_name u\<rparr> #
      announcements (database st)" by simp
  assume "distinct (map a_id (announcements (database st)))"
    "\<forall>a\<in>set (announcements (database st)). a_id a \<noteq> now ev"
  then show "distinct (map a_id (announcements (database (stateOf (announcementSubmit ev st)))))"
    unfolding eq by auto
next
  assume r: "valueTrim (js ''eventTitle'') st = Some title"
    "valueOf (js ''eventDate'') st = Some date"
    "valueOf (js ''eventTime'') st = Some time"
    "valueTrim (js ''eventLocation'') st = Some location"
    "valueTrim (js ''eventDescription'') st = Some description"
    and e: "validateForm
      (obj [(js ''title'', Some title), (js ''date'', date), (js ''time'', time),
            (js ''location'', Some location), (js ''description'', Some description)])
      [js ''title'', js ''date'', js ''time'', js ''location'', js ''description''] = Inr validation"
    and v0: "isValid validation"
    and t: "\<not> (case newDate ev date of
         None \<Rightarrow> False
       | Some eventDate \<Rightarrow> eventDate < localMidnight ev)"
    "currentUser st = Some u"
  have v: "isValid (validateOwn
      (obj [(js ''title'', Some title), (js ''date'', date), (js ''time'', time),
            (js ''location'', Some location), (js ''description'', Some description)])
      [js ''title'', js ''date'', js ''time'', js ''location'', js ''description''])"
    using e v0 by (simp add: validateForm_lists)
  note a = r v t
  note s = eventSubmit_success [OF a]
  from s show "isNormal (eventSubmit ev st)" by simp
  from s show eq: "events (database (stateOf (eventSubmit ev st))) =
      \<lparr>e_id = now ev, e_title = title, e_description = description, e_date = date,
       e_time = time, e_location = location, e_organizer = u_name u\<rparr> #
      events (database st)" by simp
  assume "distinct (map e_id (events (database st)))"
    "\<forall>e\<in>set (events (database st)). e_id e \<noteq> now ev"
  then show "distinct (map e_id (events (database (stateOf (eventSubmit ev st)))))"
    unfolding eq by auto
next
  assume r: "valueTrim (js ''scheduleCourse'') st = Some course"
    "valueOf (js ''scheduleDate'') st = Some date"
    "valueOf (js ''scheduleTime'') st = Some time"
    "valueTrim (js ''scheduleRoom'') st = Some room"
    "valueTrim (js ''scheduleInstructor'') st = Some instructor"
    and e: "validateForm
      (obj [(js ''course'', Some course), (js ''date'', date), (js ''time'', time),
            (js ''room'', Some room), (js ''instructor'', Some instructor)])
      [js ''course'', js ''date'', js ''time'', js ''room'', js ''instructor''] = Inr validation"
    and v0: "isValid validation"
  have v: "isValid (validateOwn
      (obj [(js ''course'', Some course), (js ''date'', date), (js ''time'', time),
            (js ''room'', Some room), (js ''instructor'', Some instructor)])
      [js ''course'', js ''date'', js ''time'', js ''room'', js ''instructor''])"
    using e v0 by (simp add: validateForm_lists)
  note a = r v
  note s = scheduleSubmit_success [OF a, of ev]
  from s show "isNormal (scheduleSubmit ev st)" by simp
  from s show eq: "schedules (database (stateOf (scheduleSubmit ev st))) =
      \<lparr>s_id = now ev, s_course = course, s_date = date, s_time = time, s_room = room,
       s_instructor = instructor\<rparr> # schedules (database st)" by simp
  assume "distinct (map s_id (schedules (database st)))"
    "\<forall>s\<in>set (schedules (database st)). s_id s \<noteq> now ev"
  then show "distinct (map s_id (schedules (database (stateOf (scheduleSubmit ev st)))))"
    unfolding eq by auto
next
  assume r: "valueTrim (js ''userName'') st = Some name"
    "valueTrim (js ''userEmail'') st = Some email"
    "valueOf (js ''userType'') st = Some type"
    and e: "validateForm
      (obj [(js ''name'', Some name), (js ''email'', Some email), (js ''type'', type)])
      [js ''name'', js ''email'', js ''type''] = Inr validation"
    and v0: "isValid validation"
  have v: "isValid (validateOwn
      (obj [(js ''name'', Some name), (js ''email'', Some email), (js ''type'', type)])
      [js ''name'', js ''email'', js ''type''])"
    using e v0 by (simp add: validateForm_lists)
  note a = r v
  note s = userSubmit_success [OF a, of ev]
  from s show "isNormal (userSubmit ev st)" by simp
  from s show eq: "users (database (stateOf (userSubmit ev st))) =
      \<lparr>pu_id = now ev, pu_name = name, pu_email = email, pu_type = type\<rparr> #
      users (database st)" by simp
  assume "distinct (map pu_id (users (database st)))"
    "\<forall>x\<in>set (users (database st)). pu_id x \<noteq> now ev"
  then show "distinct (map pu_id (users (database (stateOf (userSubmit ev st)))))"
    unfolding eq by auto
qed

theorem crud_submission_inserts_at_front_witness:
  "\<forall>ev. isNormal (scheduleSubmit (ev\<lparr>now := 1765378800000\<rparr>) (typeSchedule (exampleState 0))) \<and>
     map s_id (schedules (database
       (stateOf (scheduleSubmit (ev\<lparr>now := 1765378800000\<rparr>) (typeSchedule (exampleState 0)))))) =
       [1765378800000, 1, 2, 3] \<and>
     distinct (map s_id (schedules (database
       (stateOf (scheduleSubmit (ev\<lparr>now := 1765378800000\<rparr>) (typeSchedule (exampleState 0)))))))"
proof
  fix ev :: env
  let ?ev = "ev\<lparr>now := 1765378800000\<rparr>"
  let ?st = "typeSchedule (exampleState 0)"
  have d: "distinct (map s_id (schedules (database ?st)))"
    and n: "\<forall>s\<in>set (schedules (database ?st)). s_id s \<noteq> now ?ev"
    by (simp_all add: database_init_def)
  let ?M = "obj [(js ''course'', Some (js ''APT3090 - Networks'')),
            (js ''date'', Some (js ''2025-12-16'')), (js ''time'', Some (js ''09:00'')),
            (js ''room'', Some (js ''TC-305'')), (js ''instructor'', Some (js ''Dr. Brown''))]"
  let ?R = "[js ''course'', js ''date'', js ''time'', js ''room'', js ''instructor'']"
  have q: "validateForm ?M ?R = Inr (validateOwn ?M ?R)"
    by (rule validateForm_lists)
  from crud_submission_inserts_at_front
    [where st = ?st and ev = ?ev and course = "js ''APT3090 - Networks''"
       and date = "Some (js ''2025-12-16'')" and time = "Some (js ''09:00'')"
       and room = "js ''TC-305''" and instructor = "js ''Dr. Brown''"
       and validation = "validateOwn ?M ?R"]
    typeSchedule_reads [OF example_schedule_present [of 0]] schedule_valid d n q
  have "isNormal (scheduleSubmit ?ev ?st) \<and>
    schedules (database (stateOf (scheduleSubmit ?ev ?st))) =
      \<lparr>s_id = now ?ev, s_course = js ''APT3090 - Networks'', s_date = Some (js ''2025-12-16''),
       s_time = Some (js ''09:00''), s_room = js ''TC-305'',
       s_instructor = js ''Dr. Brown''\<rparr> # schedules (database ?st) \<and>
    distinct (map s_id (schedules (database (stateOf (scheduleSubmit ?ev ?st)))))"
    by blast
  then show "isNormal (scheduleSubmit ?ev ?st) \<and>
     map s_id (schedules (database (stateOf (scheduleSubmit ?ev ?st)))) =
       [1765378800000, 1, 2, 3] \<and>
     distinct (map s_id (schedules (database (stateOf (scheduleSubmit ?ev ?st)))))"
    by (simp add: database_init_def)
qed

text \<open>
  C4 as stated fails: the id is the clock's reading and nothing keeps it apart from the
  stored ids. Two submissions of the schedule form in the same millisecond give the second
  record the id of the first.
\<close>

theorem same_millisecond_ids_collide:
  "\<forall>ev. s_id (schedules (database (stateOf (scheduleSubmit ev (typeSchedule
            (stateOf (scheduleSubmit ev (typeSchedule (exampleState 0)))))))) ! 0)
       \<in> s_id ` set (schedules (database
            (stateOf (scheduleSubmit ev (typeSchedule (exampleState 0))))))"
proof
  fix ev :: env
  let ?st1 = "stateOf (scheduleSubmit ev (typeSchedule (exampleState 0)))"
  note first = typeSchedule_submit [OF example_schedule_present [of 0], of ev]
  then have p: "elems ?st1 (js ''scheduleCourse'') \<noteq> None"
    "elems ?st1 (js ''scheduleDate'') \<noteq> None" "elems ?st1 (js ''scheduleTime'') \<noteq> None"
    "elems ?st1 (js ''scheduleRoom'') \<noteq> None" "elems ?st1 (js ''scheduleInstructor'') \<noteq> None"
    using example_schedule_present [of 0] by simp_all
  note second = typeSchedule_submit [OF p, of ev]
  from first second
  show "s_id (schedules (database (stateOf (scheduleSubmit ev (typeSchedule ?st1)))) ! 0)
       \<in> s_id ` set (schedules (database ?st1))"
    by simp
qed

text \<open>
  C2 (amended). With the confirmation accepted, each of the four delete functions removes
  every record of its collection whose id is the given id and no other record, and keeps
  the order of the rest: none is removed when the id is absent, exactly one when the id is
  present and the ids of the collection are distinct. With the confirmation declined the
  state is unchanged.
\<close>

theorem delete_by_id:
  "(let old = announcements (database st);
        new = announcements (database (deleteAnnouncement True i st))
    in subseq new old \<and> (\<forall>a\<in>set new. a_id a \<noteq> i) \<and>
       length new + length (filter (\<lambda>a. a_id a = i) old) = length old \<and>
       ((\<forall>a\<in>set old. a_id a \<noteq> i) \<longrightarrow> new = old) \<and>
       (distinct (map a_id old) \<longrightarrow>
          (\<forall>a\<in>set old. a_id a = i \<longrightarrow> new = remove1 a old \<and> Suc (length new) = length old))) \<and>
   (let old = events (database st);
        new = events (database (deleteEvent ev True i st))
    in subseq new old \<and> (\<forall>e\<in>set new. e_id e \<noteq> i) \<and>
       length new + length (filter (\<lambda>e. e_id e = i) old) = length old \<and>
       ((\<forall>e\<in>set old. e_id e \<noteq> i) \<longrightarrow> new = old) \<and>
       (distinct (map e_id old) \<longrightarrow>
          (\<forall>e\<in>set old. e_id e = i \<longrightarrow> new = remove1 e old \<and> Suc (length new) = length old))) \<and>
   (let old = schedules (database st);
        new = schedules (database (deleteSchedule ev True i st))
    in subseq new old \<and> (\<forall>s\<in>set new. s_id s \<noteq> i) \<and>
       length new + length (filter (\<lambda>s. s_id s = i) old) = length old \<and>
       ((\<forall>s\<in>set old. s_id s \<noteq> i) \<longrightarrow> new = old) \<and>
       (distinct (map s_id old) \<longrightarrow>
          (\<forall>s\<in>set old. s_id s = i \<longrightarrow> new = remove1 s old \<and> Suc (length new) = length old))) \<and>
   (let old = users (database st);
        new = users (database (deleteUser True i st))
    in subseq new old \<and> (\<forall>u\<in>set new. pu_id u \<noteq> i) \<and>
       length new + length (filter (\<lambda>u. pu_id u = i) old) = length old \<and>
       ((\<forall>u\<in>set old. pu_id u \<noteq> i) \<longrightarrow> new = old) \<and>
       (distinct (map pu_id old) \<longrightarrow>
          (\<forall>u\<in>set old. pu_id u = i \<longrightarrow> new = remove1 u old \<and> Suc (length new) = length old))) \<and>
   deleteAnnouncement False i st = st \<and> deleteEvent ev False i st = st \<and>
   deleteSchedule ev False i st = st \<and> deleteUser False i st = st"
proof -
  have a: "let old = announcements (database st);
               new = announcements (database (deleteAnnouncement True i st))
    in subseq new old \<and> (\<forall>a\<in>set new. a_id a \<noteq> i) \<and>
       length new + length (filter (\<lambda>a. a_id a = i) old) = length old \<and>
       ((\<forall>a\<in>set old. a_id a \<noteq> i) \<longrightarrow> new = old) \<and>
       (distinct (map a_id old) \<longrightarrow>
          (\<forall>a\<in>set old. a_id a = i \<longrightarrow> new = remove1 a old \<and> Suc (length new) = length old))"
    unfolding Let_def by (rule remove_by_id [OF deleteAnnouncement_filter])
  have b: "let old = events (database st);
               new = events (database (deleteEvent ev True i st))
    in subseq new old \<and> (\<forall>e\<in>set new. e_id e \<noteq> i) \<and>
       length new + length (filter (\<lambda>e. e_id e = i) old) = length old \<and>
       ((\<forall>e\<in>set old. e_id e \<noteq> i) \<longrightarrow> new = old) \<and>
       (distinct (map e_id old) \<longrightarrow>
          (\<forall>e\<in>set old. e_id e = i \<longrightarrow> new = remove1 e old \<and> Suc (length new) = length old))"
    unfolding Let_def by (rule remove_by_id [OF deleteEvent_filter])
  have c: "let old = schedules (database st);
               new = schedules (database (deleteSchedule ev True i st))
    in subseq new old \<and> (\<forall>s\<in>set new. s_id s \<noteq> i) \<and>
       length new + length (filter (\<lambda>s. s_id s = i) old) = length old \<and>
       ((\<forall>s\<in>set old. s_id s \<noteq> i) \<longrightarrow> new = old) \<and>
       (distinct (map s_id old) \<longrightarrow>
          (\<forall>s\<in>set old. s_id s = i \<longrightarrow> new = remove1 s old \<and> Suc (length new) = length old))"
    unfolding Let_def by (rule remove_by_id [OF deleteSchedule_filter])
  have d: "let old = users (database st);
               new = users (database (deleteUser True i st))
    in subseq new old \<and> (\<forall>u\<in>set new. pu_id u \<noteq> i) \<and>
       length new + length (filter (\<lambda>u. pu_id u = i) old) = length old \<and>
       ((\<forall>u\<in>set old. pu_id u \<noteq> i) \<longrightarrow> new = old) \<and>
       (distinct (map pu_id old) \<longrightarrow>
          (\<forall>u\<in>set old. pu_id u = i \<longrightarrow> new = remove1 u old \<and> Suc (length new) = length old))"
    unfolding Let_def by (rule remove_by_id [OF deleteUser_filter])
  have e: "deleteAnnouncement False i st = st \<and> deleteEvent ev False i st = st \<and>
     deleteSchedule ev False i st = st \<and> deleteUser False i st = st"
    by (simp add: deleteAnnouncement_def deleteEvent_def deleteSchedule_def deleteUser_def)
  show ?thesis
    by (rule conjI [OF a], rule conjI [OF b], rule conjI [OF c], rule conjI [OF d], rule e)
qed

theorem delete_by_id_witness:
  "map a_id (announcements (database (deleteAnnouncement True 2 (exampleState 0)))) = [1, 3] \<and>
   Suc (length (announcements (database (deleteAnnouncement True 2 (exampleState 0))))) =
     length (announcements (database (exampleState 0))) \<and>
   announcements (database (deleteAnnouncement True 7 (exampleState 0))) =
     announcements (database (exampleState 0))"
proof -
  let ?a = "\<lparr>a_id = 2, a_title = js ''Campus Maintenance - Library Closed on Saturday'',
          a_content = js ''The main library will be closed this Saturday for scheduled maintenance. E-resources will remain available.'',
          a_priority = Some (js ''normal''), a_date = js ''December 12, 2025'',
          a_author = js ''Facilities Management''\<rparr>"
  have d: "distinct (map a_id (announcements (database (exampleState 0))))"
    and m: "?a \<in> set (announcements (database (exampleState 0)))" "a_id ?a = 2"
    and n: "\<forall>a\<in>set (announcements (database (exampleState 0))). a_id a \<noteq> 7"
    by (simp_all add: database_init_def)
  from delete_by_id [of "exampleState 0" 2] d m
  have "announcements (database (deleteAnnouncement True 2 (exampleState 0))) =
      remove1 ?a (announcements (database (exampleState 0))) \<and>
    Suc (length (announcements (database (deleteAnnouncement True 2 (exampleState 0))))) =
      length (announcements (database (exampleState 0)))"
    unfolding Let_def by blast
  moreover from delete_by_id [of "exampleState 0" 7] n
  have "announcements (database (deleteAnnouncement True 7 (exampleState 0))) =
     announcements (database (exampleState 0))"
    unfolding Let_def by blast
  ultimately show ?thesis
    by (simp add: database_init_def)
qed

text \<open>
  C2 as stated fails: the filter removes every record with the id, and ids can repeat.
  After two submissions of the schedule form in the same millisecond, deleting that id
  removes two records.
\<close>

theorem delete_removes_every_match:
  "\<forall>ev. length (schedules (database
       (stateOf (scheduleSubmit (ev\<lparr>now := 1765378800000\<rparr>) (typeSchedule
          (stateOf (scheduleSubmit (ev\<lparr>now := 1765378800000\<rparr>)
             (typeSchedule (exampleState 0))))))))) = 5 \<and>
     length (schedules (database
       (deleteSchedule ev True 1765378800000
          (stateOf (scheduleSubmit (ev\<lparr>now := 1765378800000\<rparr>) (typeSchedule
             (stateOf (scheduleSubmit (ev\<lparr>now := 1765378800000\<rparr>)
                (typeSchedule (exampleState 0)))))))))) = 3"
proof
  fix ev :: env
  let ?ev = "ev\<lparr>now := 1765378800000\<rparr>"
  let ?st1 = "stateOf (scheduleSubmit ?ev (typeSchedule (exampleState 0)))"
  let ?st2 = "stateOf (scheduleSubmit ?ev (typeSchedule ?st1))"
  note first = typeSchedule_submit [OF example_schedule_present [of 0], of ?ev]
  then have p: "elems ?st1 (js ''scheduleCourse'') \<noteq> None"
    "elems ?st1 (js ''scheduleDate'') \<noteq> None" "elems ?st1 (js ''scheduleTime'') \<noteq> None"
    "elems ?st1 (js ''scheduleRoom'') \<noteq> None" "elems ?st1 (js ''scheduleInstructor'') \<noteq> None"
    using example_schedule_present [of 0] by simp_all
  note second = typeSchedule_submit [OF p, of ?ev]
  from first second
  have m: "map s_id (schedules (database ?st2)) =
      [1765378800000, 1765378800000, 1, 2, 3]"
    by (simp add: database_init_def)
  have "length (map s_id (schedules (database ?st2))) = 5"
    unfolding m by simp
  then have five: "length (schedules (database ?st2)) = 5"
    by simp
  have "length (schedules (database (deleteSchedule ev True 1765378800000 ?st2))) =
     length (filter (\<lambda>i. i \<noteq> 1765378800000) (map s_id (schedules (database ?st2))))"
    by (simp add: deleteSchedule_filter filter_map comp_def)
  also have "\<dots> = 3"
    unfolding m by simp
  finally show "length (schedules (database ?st2)) = 5 \<and>
     length (schedules (database (deleteSchedule ev True 1765378800000 ?st2))) = 3"
    using five by simp
qed

text \<open>
  C10. The announcement and the event handler read \<open>currentUser.name\<close> without a guard:
  for a submission whose fields pass validation (and, for an event, the date rule) while
  no user is logged in, the handler ends with a \<open>TypeError\<close> when it builds the record,
  and nothing is stored.
\<close>

theorem absent_user_is_dereferenced:
  "(valueTrim (js ''announcementTitle'') st = Some title \<longrightarrow>
    valueTrim (js ''announcementContent'') st = Some content \<longrightarrow>
    valueOf (js ''announcementPriority'') st = Some priority \<longrightarrow>
    validateForm
      (obj [(js ''title'', Some title), (js ''content'', Some content),
            (js ''priority'', priority)])
      [js ''title'', js ''content''] = Inr validation \<longrightarrow>
    isValid validation \<longrightarrow>
    currentUser st = None \<longrightarrow>
    announcementSubmit ev st = Thrown TypeError (clearFormErrors (js ''announcementForm'') st) \<and>
    database (stateOf (announcementSubmit ev st)) = database st) \<and>
   (valueTrim (js ''eventTitle'') st = Some title \<longrightarrow>
    valueOf (js ''eventDate'') st = Some date \<longrightarrow>
    valueOf (js ''eventTime'') st = Some time \<longrightarrow>
    valueTrim (js ''eventLocation'') st = Some location \<longrightarrow>
    valueTrim (js ''eventDescription'') st = Some description \<longrightarrow>
    validateForm
      (obj [(js ''title'', Some title), (js ''date'', date), (js ''time'', time),
            (js ''location'', Some location), (js ''description'', Some description)])
      [js ''title'', js ''date'', js ''time'', js ''location'', js ''description''] = Inr validation \<longrightarrow>
    isValid validation \<longrightarrow>
    \<not> (case newDate ev date of
         None \<Rightarrow> False
       | Some eventDate \<Rightarrow> eventDate < localMidnight ev) \<longrightarrow>
    currentUser st = None \<longrightarrow>
    eventSubmit ev st = Thrown TypeError (clearFormErrors (js ''eventForm'') st) \<and>
    database (stateOf (eventSubmit ev st)) = database st)"
proof (intro conjI impI)
  assume a: "valueTrim (js ''announcementTitle'') st = Some title"
    "valueTrim (js ''announcementContent'') st = Some content"
    "valueOf (js ''announcementPriority'') st = Some priority"
    and e: "validateForm
      (obj [(js ''title'', Some title), (js ''content'', Some content),
            (js ''priority'', priority)])
      [js ''title'', js ''content''] = Inr validation"
    and v0: "isValid validation"
    and n: "currentUser st = None"
  have v: "isValid (validateOwn
      (obj [(js ''title'', Some title), (js ''content'', Some content),
            (js ''priority'', priority)])
      [js ''title'', js ''content''])"
    using e v0 by (simp add: validateForm_lists)
  show t: "announcementSubmit ev st = Thrown TypeError (clearFormErrors (js ''announcementForm'') st)"
    using v n by (simp add: announcementSubmit_unfold [OF a] Let_def)
  show "database (stateOf (announcementSubmit ev st)) = database st"
    unfolding t by simp
next
  assume a: "valueTrim (js ''eventTitle'') st = Some title"
    "valueOf (js ''eventDate'') st = Some date"
    "valueOf (js ''eventTime'') st = Some time"
    "valueTrim (js ''eventLocation'') st = Some location"
    "valueTrim (js ''eventDescription'') st = Some description"
    and e: "validateForm
      (obj [(js ''title'', Some title), (js ''date'', date), (js ''time'', time),
            (js ''location'', Some location), (js ''description'', Some description)])
      [js ''title'', js ''date'', js ''time'', js ''location'', js ''description''] = Inr validation"
    and v0: "isValid validation"
    and d: "\<not> (case newDate ev date of
         None \<Rightarrow> False
       | Some eventDate \<Rightarrow> eventDate < localMidnight ev)"
    and n: "currentUser st = None"
  have v: "isValid (validateOwn
      (obj [(js ''title'', Some title), (js ''date'', date), (js ''time'', time),
            (js ''location'', Some location), (js ''description'', Some description)])
      [js ''title'', js ''date'', js ''time'', js ''location'', js ''description''])"
    using e v0 by (simp add: validateForm_lists)
  show t: "eventSubmit ev st = Thrown TypeError (clearFormErrors (js ''eventForm'') st)"
    using v d n by (simp add: eventSubmit_unfold [OF a] Let_def)
  show "database (stateOf (eventSubmit ev st)) = database st"
    unfolding t by simp
qed

theorem absent_user_is_dereferenced_witness:
  "\<forall>ev. \<not> isNormal (announcementSubmit ev (typeAnnouncement (exampleState 0))) \<and>
     announcements (database (stateOf (announcementSubmit ev (typeAnnouncement (exampleState 0))))) =
       announcements database_init \<and>
     \<not> isNormal (eventSubmit (ev\<lparr>now := 1765378800000, tzOffset := 10800000,
            tzOffsetLocal := \<lambda>t. 10800000\<rparr>)
          (typeEvent ''2025-12-20'' (exampleState 0))) \<and>
     events (database (stateOf (eventSubmit (ev\<lparr>now := 1765378800000, tzOffset := 10800000,
            tzOffsetLocal := \<lambda>t. 10800000\<rparr>)
          (typeEvent ''2025-12-20'' (exampleState 0))))) = events database_init"
proof
  fix ev :: env
  let ?ev = "ev\<lparr>now := 1765378800000, tzOffset := 10800000,
            tzOffsetLocal := \<lambda>t. 10800000\<rparr>"
  let ?sa = "typeAnnouncement (exampleState 0)"
  let ?se = "typeEvent ''2025-12-20'' (exampleState 0)"
  have d: "\<not> (case newDate ?ev (Some (js ''2025-12-20'')) of
         None \<Rightarrow> False
       | Some eventDate \<Rightarrow> eventDate < localMidnight ?ev)"
    by (simp add: date_rule_iso [OF isoDate_examples(2)] localDay_def msPerDay_def)
  have v: "isValid (validateOwn
      (obj [(js ''title'', Some (js ''Open Day'')), (js ''date'', Some (js ''2025-12-20'')),
            (js ''time'', Some (js ''14:00'')), (js ''location'', Some (js ''Auditorium A'')),
            (js ''description'', Some (js ''Campus tour''))])
      [js ''title'', js ''date'', js ''time'', js ''location'', js ''description''])"
    by (rule event_valid) (simp add: trim_event)
  have qa: "validateForm
      (obj [(js ''title'', Some (js ''T'')), (js ''content'', Some (js ''C'')),
            (js ''priority'', Some (js ''urgent''))])
      [js ''title'', js ''content''] =
     Inr (validateOwn
      (obj [(js ''title'', Some (js ''T'')), (js ''content'', Some (js ''C'')),
            (js ''priority'', Some (js ''urgent''))])
      [js ''title'', js ''content''])"
    by (rule validateForm_lists)
  have qe: "validateForm
      (obj [(js ''title'', Some (js ''Open Day'')), (js ''date'', Some (js ''2025-12-20'')),
            (js ''time'', Some (js ''14:00'')), (js ''location'', Some (js ''Auditorium A'')),
            (js ''description'', Some (js ''Campus tour''))])
      [js ''title'', js ''date'', js ''time'', js ''location'', js ''description''] =
     Inr (validateOwn
      (obj [(js ''title'', Some (js ''Open Day'')), (js ''date'', Some (js ''2025-12-20'')),
            (js ''time'', Some (js ''14:00'')), (js ''location'', Some (js ''Auditorium A'')),
            (js ''description'', Some (js ''Campus tour''))])
      [js ''title'', js ''date'', js ''time'', js ''location'', js ''description''])"
    by (rule validateForm_lists)
  from absent_user_is_dereferenced
    [where st = ?sa and ev = ev and title = "js ''T''" and content = "js ''C''"
       and priority = "Some (js ''urgent'')"
       and validation = "validateOwn
      (obj [(js ''title'', Some (js ''T'')), (js ''content'', Some (js ''C'')),
            (js ''priority'', Some (js ''urgent''))])
      [js ''title'', js ''content'']"]
    typeAnnouncement_reads [OF example_announcement_present [of 0]] announcement_valid qa
  have a: "announcementSubmit ev ?sa =
      Thrown TypeError (clearFormErrors (js ''announcementForm'') ?sa) \<and>
    database (stateOf (announcementSubmit ev ?sa)) = database ?sa"
    by simp
  from absent_user_is_dereferenced
    [where st = ?se and ev = ?ev and title = "js ''Open Day''"
       and date = "Some (js ''2025-12-20'')" and time = "Some (js ''14:00'')"
       and location = "js ''Auditorium A''" and description = "js ''Campus tour''"
       and validation = "validateOwn
      (obj [(js ''title'', Some (js ''Open Day'')), (js ''date'', Some (js ''2025-12-20'')),
            (js ''time'', Some (js ''14:00'')), (js ''location'', Some (js ''Auditorium A'')),
            (js ''description'', Some (js ''Campus tour''))])
      [js ''title'', js ''date'', js ''time'', js ''location'', js ''description'']"]
    typeEvent_reads [OF example_event_present(1-5) [of 0], of "''2025-12-20''"] v d qe
  have e: "eventSubmit ?ev ?se = Thrown TypeError (clearFormErrors (js ''eventForm'') ?se) \<and>
    database (stateOf (eventSubmit ?ev ?se)) = database ?se"
    by simp
  from a e show "\<not> isNormal (announcementSubmit ev ?sa) \<and>
     announcements (database (stateOf (announcementSubmit ev ?sa))) =
       announcements database_init \<and>
     \<not> isNormal (eventSubmit ?ev ?se) \<and>
     events (database (stateOf (eventSubmit ?ev ?se))) = events database_init"
    by simp
qed

text \<open>
  C3, at a failing input. The clock reads 2025-12-10 15:00 UTC in a browser five hours
  west of UTC, where it is 10:00 on 10 December; an administrator submits an event for
  2025-12-10, today. The handler compares midnight UTC of the submitted day with local
  midnight of the current day, which is 05:00 UTC: the event is rejected as not in the
  future and the collection is unchanged.
\<close>

theorem event_today_rejected_west_of_utc:
  "\<forall>ev. localDay (ev\<lparr>now := 1765378800000, tzOffset := - 18000000,
            tzOffsetLocal := \<lambda>t. - 18000000\<rparr>) = 20432 \<and>
     isoDate (js ''2025-12-10'') = Some 20432 \<and>
     isNormal (eventSubmit (ev\<lparr>now := 1765378800000, tzOffset := - 18000000,
            tzOffsetLocal := \<lambda>t. - 18000000\<rparr>)
       (typeEvent ''2025-12-10''
          (loggedIn ''Admin User'' ''admin@usiu.ac.ke'' ''admin'' (exampleState 1765378000000)))) \<and>
     events (database (stateOf
       (eventSubmit (ev\<lparr>now := 1765378800000, tzOffset := - 18000000,
            tzOffsetLocal := \<lambda>t. - 18000000\<rparr>)
          (typeEvent ''2025-12-10''
             (loggedIn ''Admin User'' ''admin@usiu.ac.ke'' ''admin''
                (exampleState 1765378000000)))))) = events database_init \<and>
     childrenOf (js ''eventDateError'') (stateOf
       (eventSubmit (ev\<lparr>now := 1765378800000, tzOffset := - 18000000,
            tzOffsetLocal := \<lambda>t. - 18000000\<rparr>)
          (typeEvent ''2025-12-10''
             (loggedIn ''Admin User'' ''admin@usiu.ac.ke'' ''admin''
                (exampleState 1765378000000))))) =
       Some [Txt (js ''Event date must be in the future'')]"
proof
  fix ev :: env
  let ?ev = "ev\<lparr>now := 1765378800000, tzOffset := - 18000000,
            tzOffsetLocal := \<lambda>t. - 18000000\<rparr>"
  let ?s0 = "loggedIn ''Admin User'' ''admin@usiu.ac.ke'' ''admin'' (exampleState 1765378000000)"
  let ?st = "typeEvent ''2025-12-10'' ?s0"
  have day: "localDay ?ev = 20432"
    by (simp add: localDay_def msPerDay_def)
  have d: "case newDate ?ev (Some (js ''2025-12-10'')) of
         None \<Rightarrow> False
       | Some eventDate \<Rightarrow> eventDate < localMidnight ?ev"
    by (simp add: date_rule_iso [OF isoDate_examples(1)] day msPerDay_def)
  have v: "isValid (validateOwn
      (obj [(js ''title'', Some (js ''Open Day'')), (js ''date'', Some (js ''2025-12-10'')),
            (js ''time'', Some (js ''14:00'')), (js ''location'', Some (js ''Auditorium A'')),
            (js ''description'', Some (js ''Campus tour''))])
      [js ''title'', js ''date'', js ''time'', js ''location'', js ''description''])"
    by (rule event_valid) (simp add: trim_event)
  have p: "elems ?s0 (js ''eventTitle'') \<noteq> None" "elems ?s0 (js ''eventDate'') \<noteq> None"
    "elems ?s0 (js ''eventTime'') \<noteq> None" "elems ?s0 (js ''eventLocation'') \<noteq> None"
    "elems ?s0 (js ''eventDescription'') \<noteq> None"
    using example_event_present by simp_all
  have u: "eventSubmit ?ev ?st =
     Normal (showNotification (js ''Event date must be in the future'') (js ''error'')
        (Some (js ''eventDateError'')) (clearFormErrors (js ''eventForm'') ?st))"
    using v d by (simp add: eventSubmit_unfold [OF typeEvent_reads [OF p]] Let_def)
  have c: "childrenOf (js ''eventDateError'') (stateOf (eventSubmit ?ev ?st)) =
       Some [Txt (js ''Event date must be in the future'')]"
    unfolding u stateOf_simps
    by (rule childrenOf_showNotification) (simp_all add: example_event_present)
  from day u c isoDate_examples(1)
  show "localDay ?ev = 20432 \<and> isoDate (js ''2025-12-10'') = Some 20432 \<and>
     isNormal (eventSubmit ?ev ?st) \<and>
     events (database (stateOf (eventSubmit ?ev ?st))) = events database_init \<and>
     childrenOf (js ''eventDateError'') (stateOf (eventSubmit ?ev ?st)) =
       Some [Txt (js ''Event date must be in the future'')]"
    by simp
qed

text \<open>
  C8. While no user is logged in, \<open>renderProfile\<close> returns at once and leaves the state
  as it is; and \<open>showSection('profile')\<close>, on a page that has the navigation element and
  the menu button the function addresses, ends normally, leaves nobody logged in and
  changes the child nodes of no element: no profile content is written.
\<close>

theorem profile_without_user:
  "currentUser st = None \<longrightarrow>
     renderProfile editMode st = Normal st \<and>
     (elems st (js ''main-nav'') \<noteq> None \<longrightarrow>
      firstIndex (hasClass (js ''mobile-menu'')) (anon st) \<noteq> None \<longrightarrow>
      (elems st (js ''profile'') \<noteq> None \<longrightarrow> navQuery st (js ''profile'') \<noteq> QuerySyntaxError) \<longrightarrow>
      isNormal (showSection ev (js ''profile'') st) \<and>
      currentUser (stateOf (showSection ev (js ''profile'') st)) = None \<and>
      (\<forall>j. childrenOf j (stateOf (showSection ev (js ''profile'') st)) = childrenOf j st))"
proof (intro impI conjI)
  assume u: "currentUser st = None"
  then show "renderProfile editMode st = Normal st" by (rule renderProfile_no_user)
  assume "elems st (js ''main-nav'') \<noteq> None"
    and "firstIndex (hasClass (js ''mobile-menu'')) (anon st) \<noteq> None"
    and "elems st (js ''profile'') \<noteq> None \<longrightarrow> navQuery st (js ''profile'') \<noteq> QuerySyntaxError"
  with u obtain st' where s: "showSection ev (js ''profile'') st = Normal st'"
    and e: "elems st' =
       (\<lambda>j. map_option
          (\<lambda>e. let e1 = (if el_section e then classAdd (js ''hidden'') e else e);
                   e2 = (if j = js ''profile'' then classRemove (js ''hidden'') e1 else e1)
               in if j = js ''main-nav'' then classRemove (js ''active'') e2 else e2)
          (elems st j))"
    and c: "currentUser st' = None"
    using showSection_no_user [of st "js ''profile''" ev] by blast
  show "isNormal (showSection ev (js ''profile'') st)" by (simp add: s)
  show "currentUser (stateOf (showSection ev (js ''profile'') st)) = None" by (simp add: s c)
  show "\<forall>j. childrenOf j (stateOf (showSection ev (js ''profile'') st)) = childrenOf j st"
  proof
    fix j
    show "childrenOf j (stateOf (showSection ev (js ''profile'') st)) = childrenOf j st"
      by (cases "elems st j") (simp_all add: s e childrenOf_def Let_def)
  qed
qed

theorem profile_without_user_witness:
  "\<forall>ev. renderProfile False (exampleState 0) = Normal (exampleState 0) \<and>
     isNormal (showSection ev (js ''profile'') (exampleState 0)) \<and>
     childrenOf (js ''profileInfoContent'') (stateOf (showSection ev (js ''profile'') (exampleState 0))) =
       Some [] \<and>
     childrenOf (js ''profileActions'') (stateOf (showSection ev (js ''profile'') (exampleState 0))) =
       Some []"
proof
  fix ev :: env
  have "currentUser (exampleState 0) = None"
    and "elems (exampleState 0) (js ''main-nav'') \<noteq> None"
    and "firstIndex (hasClass (js ''mobile-menu'')) (anon (exampleState 0)) \<noteq> None"
    and "navQuery (exampleState 0) (js ''profile'') \<noteq> QuerySyntaxError"
    by (simp_all add: example_elems example_menu exampleNavQuery_valid)
  with profile_without_user [of "exampleState 0" False ev]
  have "renderProfile False (exampleState 0) = Normal (exampleState 0) \<and>
      isNormal (showSection ev (js ''profile'') (exampleState 0)) \<and>
      (\<forall>j. childrenOf j (stateOf (showSection ev (js ''profile'') (exampleState 0))) =
         childrenOf j (exampleState 0))"
    by blast
  then show "renderProfile False (exampleState 0) = Normal (exampleState 0) \<and>
     isNormal (showSection ev (js ''profile'') (exampleState 0)) \<and>
     childrenOf (js ''profileInfoContent'') (stateOf (showSection ev (js ''profile'') (exampleState 0))) =
       Some [] \<and>
     childrenOf (js ''profileActions'') (stateOf (showSection ev (js ''profile'') (exampleState 0))) =
       Some []"
    by (simp add: childrenOf_def example_elems createElement_def)
qed

text \<open>
  C9. The fields email \<open>a@b.com\<close>, password \<open>12345678\<close> and user type \<open>student\<close> pass
  the validation of the login form: \<open>validateForm\<close> returns a valid result without
  messages. A visitor who submits the login form with these values is not logged in yet:
  the handler ends normally and schedules the completion of the login one second later.
  On a page that has the eleven elements the completion writes to, the completion ends
  normally, makes the current user the student named \<open>Carl Kitusa\<close> with that email and
  schedules the move to the dashboard one second later; and that move makes the dashboard
  the current section.
\<close>

theorem login_scenario:
  "validateForm
     (obj [(js ''email'', Some (js ''a@b.com'')), (js ''password'', Some (js ''12345678'')),
           (js ''userType'', Some (js ''student''))])
     [js ''email'', js ''password'', js ''userType''] =
     Inr \<lparr>isValid = True, errors = []\<rparr> \<and>
   (valueOf (js ''loginEmail'') st = Some (Some (js ''a@b.com'')) \<longrightarrow>
   valueOf (js ''loginPassword'') st = Some (Some (js ''12345678'')) \<longrightarrow>
   valueOf (js ''loginUserType'') st = Some (Some (js ''student'')) \<longrightarrow>
   elems st (js ''userName'') \<noteq> None \<longrightarrow> elems st (js ''userRole'') \<noteq> None \<longrightarrow>
   elems st (js ''userAvatar'') \<noteq> None \<longrightarrow> elems st (js ''profileName'') \<noteq> None \<longrightarrow>
   elems st (js ''profileRole'') \<noteq> None \<longrightarrow> elems st (js ''profileEmail'') \<noteq> None \<longrightarrow>
   elems st (js ''profileAvatar'') \<noteq> None \<longrightarrow> elems st (js ''studentDashboard'') \<noteq> None \<longrightarrow>
   elems st (js ''adminDashboard'') \<noteq> None \<longrightarrow> elems st (js ''authButtons'') \<noteq> None \<longrightarrow>
   elems st (js ''heroButtons'') \<noteq> None \<longrightarrow>
   (let submitted = loginSubmit st;
        task = LoginComplete (js ''a@b.com'') (Some (js ''student''));
        completed = runTask ev1 task (stateOf submitted);
        shown = runTask ev2 GoDashboard (stateOf completed)
    in isNormal submitted \<and> currentUser (stateOf submitted) = currentUser st \<and>
       (1000, task) \<in> set (timers (stateOf submitted)) \<and>
       isNormal completed \<and>
       currentUser (stateOf completed) =
         Some \<lparr>u_name = js ''Carl Kitusa'', u_email = js ''a@b.com'',
               u_type = Some (js ''student'')\<rparr> \<and>
       (1000, GoDashboard) \<in> set (timers (stateOf completed)) \<and>
       currentSection (appState (stateOf shown)) = js ''dashboard''))"
proof (intro conjI impI)
  show "validateForm
     (obj [(js ''email'', Some (js ''a@b.com'')), (js ''password'', Some (js ''12345678'')),
           (js ''userType'', Some (js ''student''))])
     [js ''email'', js ''password'', js ''userType''] =
     Inr \<lparr>isValid = True, errors = []\<rparr>"
    unfolding validateForm_lists using login_valid by (simp add: validateOwn_valid)
next
  assume r: "valueOf (js ''loginEmail'') st = Some (Some (js ''a@b.com''))"
    "valueOf (js ''loginPassword'') st = Some (Some (js ''12345678''))"
    and ut: "valueOf (js ''loginUserType'') st = Some (Some (js ''student''))"
    and p: "elems st (js ''userName'') \<noteq> None" "elems st (js ''userRole'') \<noteq> None"
      "elems st (js ''userAvatar'') \<noteq> None" "elems st (js ''profileName'') \<noteq> None"
      "elems st (js ''profileRole'') \<noteq> None" "elems st (js ''profileEmail'') \<noteq> None"
      "elems st (js ''profileAvatar'') \<noteq> None" "elems st (js ''studentDashboard'') \<noteq> None"
      "elems st (js ''adminDashboard'') \<noteq> None" "elems st (js ''authButtons'') \<noteq> None"
      "elems st (js ''heroButtons'') \<noteq> None"
  let ?task = "LoginComplete (js ''a@b.com'') (Some (js ''student''))"
  let ?st1 = "setTimeout ?task 1000 (setLoading True (clearFormErrors (js ''loginForm'') st))"
  have t: "valueTrim (js ''loginEmail'') st = Some (js ''a@b.com'')"
    "valueTrim (js ''loginPassword'') st = Some (js ''12345678'')"
    using r by (simp_all add: valueTrim_raw trim_js_simps)
  have s: "loginSubmit st = Normal ?st1"
    by (rule loginSubmit_valid [OF t ut login_valid])
  let ?u = "\<lparr>u_name = js ''Carl Kitusa'', u_email = js ''a@b.com'',
               u_type = Some (js ''student'')\<rparr>"
  let ?completed = "runTask ev1 ?task ?st1"
  have c: "?completed = showLoggedIn ev1 ?u ''Login successful!'' ''loginSuccessMessage''
             ((setLoading False ?st1)\<lparr>currentUser := Some ?u\<rparr>)"
    by (simp add: runTask_def loginComplete_def Let_def)
  have n: "isNormal ?completed"
    unfolding c isNormal_showLoggedIn elems_logged using p by (simp add: submitted_frame)
  have u: "currentUser (stateOf ?completed) = Some ?u"
    by (simp add: runTask_def loginComplete_currentUser)
  have g: "(1000, GoDashboard) \<in> set (timers (stateOf ?completed))"
    using n unfolding c by (rule timers_showLoggedIn)
  have d: "currentSection (appState (stateOf (runTask ev2 GoDashboard (stateOf ?completed)))) =
      js ''dashboard''"
    by (simp add: runTask_def currentSection_showSection)
  show "let submitted = loginSubmit st;
        task = LoginComplete (js ''a@b.com'') (Some (js ''student''));
        completed = runTask ev1 task (stateOf submitted);
        shown = runTask ev2 GoDashboard (stateOf completed)
    in isNormal submitted \<and> currentUser (stateOf submitted) = currentUser st \<and>
       (1000, task) \<in> set (timers (stateOf submitted)) \<and>
       isNormal completed \<and>
       currentUser (stateOf completed) =
         Some \<lparr>u_name = js ''Carl Kitusa'', u_email = js ''a@b.com'',
               u_type = Some (js ''student'')\<rparr> \<and>
       (1000, GoDashboard) \<in> set (timers (stateOf completed)) \<and>
       currentSection (appState (stateOf shown)) = js ''dashboard''"
    unfolding Let_def s stateOf_simps
    using n u g d by (simp add: submitted_frame)
qed

theorem login_scenario_witness:
  "\<forall>ev1 ev2.
     isNormal (loginSubmit (typeLogin (exampleState 0))) \<and>
     currentUser (stateOf (loginSubmit (typeLogin (exampleState 0)))) = None \<and>
     isNormal (runTask ev1 (LoginComplete (js ''a@b.com'') (Some (js ''student'')))
        (stateOf (loginSubmit (typeLogin (exampleState 0))))) \<and>
     currentUser (stateOf (runTask ev1 (LoginComplete (js ''a@b.com'') (Some (js ''student'')))
        (stateOf (loginSubmit (typeLogin (exampleState 0)))))) =
       Some \<lparr>u_name = js ''Carl Kitusa'', u_email = js ''a@b.com'',
             u_type = Some (js ''student'')\<rparr> \<and>
     currentSection (appState (stateOf (runTask ev2 GoDashboard
        (stateOf (runTask ev1 (LoginComplete (js ''a@b.com'') (Some (js ''student'')))
           (stateOf (loginSubmit (typeLogin (exampleState 0))))))))) = js ''dashboard''"
proof (intro allI)
  fix ev1 ev2 :: env
  have v: "valueOf (js ''loginEmail'') (typeLogin (exampleState 0)) = Some (Some (js ''a@b.com''))"
    "valueOf (js ''loginPassword'') (typeLogin (exampleState 0)) = Some (Some (js ''12345678''))"
    "valueOf (js ''loginUserType'') (typeLogin (exampleState 0)) = Some (Some (js ''student''))"
    by (simp_all add: typeLogin_def valueOf_typeInto example_elems)
  have p: "elems (typeLogin (exampleState 0)) (js ''userName'') \<noteq> None"
    "elems (typeLogin (exampleState 0)) (js ''userRole'') \<noteq> None"
    "elems (typeLogin (exampleState 0)) (js ''userAvatar'') \<noteq> None"
    "elems (typeLogin (exampleState 0)) (js ''profileName'') \<noteq> None"
    "elems (typeLogin (exampleState 0)) (js ''profileRole'') \<noteq> None"
    "elems (typeLogin (exampleState 0)) (js ''profileEmail'') \<noteq> None"
    "elems (typeLogin (exampleState 0)) (js ''profileAvatar'') \<noteq> None"
    "elems (typeLogin (exampleState 0)) (js ''studentDashboard'') \<noteq> None"
    "elems (typeLogin (exampleState 0)) (js ''adminDashboard'') \<noteq> None"
    "elems (typeLogin (exampleState 0)) (js ''authButtons'') \<noteq> None"
    "elems (typeLogin (exampleState 0)) (js ''heroButtons'') \<noteq> None"
    by (simp_all add: typeLogin_def example_elems)
  have c: "currentUser (typeLogin (exampleState 0)) = None"
    by (simp add: typeLogin_def exampleState_def)
  from login_scenario [of "typeLogin (exampleState 0)" ev1 ev2] v p
  show "isNormal (loginSubmit (typeLogin (exampleState 0))) \<and>
     currentUser (stateOf (loginSubmit (typeLogin (exampleState 0)))) = None \<and>
     isNormal (runTask ev1 (LoginComplete (js ''a@b.com'') (Some (js ''student'')))
        (stateOf (loginSubmit (typeLogin (exampleState 0))))) \<and>
     currentUser (stateOf (runTask ev1 (LoginComplete (js ''a@b.com'') (Some (js ''student'')))
        (stateOf (loginSubmit (typeLogin (exampleState 0)))))) =
       Some \<lparr>u_name = js ''Carl Kitusa'', u_email = js ''a@b.com'',
             u_type = Some (js ''student'')\<rparr> \<and>
     currentSection (appState (stateOf (runTask ev2 GoDashboard
        (stateOf (runTask ev1 (LoginComplete (js ''a@b.com'') (Some (js ''student'')))
           (stateOf (loginSubmit (typeLogin (exampleState 0))))))))) = js ''dashboard''"
    unfolding Let_def c by blast
qed

text \<open>
  C6. A submission of the login or of the registration form whose fields pass validation
  ends normally, leaves the current user as it is and schedules the completion one second
  later; the completion, whenever it runs, makes the current user present: the user the
  form described. A confirmed \<open>logout\<close> makes the current user absent; on a page that has
  the six forms it resets every control of the six forms to its default value, which is
  what \<open>form.reset()\<close> does.
\<close>

theorem login_register_logout:
  "(valueTrim (js ''loginEmail'') st = Some email \<longrightarrow>
    valueTrim (js ''loginPassword'') st = Some password \<longrightarrow>
    valueOf (js ''loginUserType'') st = Some userType \<longrightarrow>
    validateForm
      (obj [(js ''email'', Some email), (js ''password'', Some password),
            (js ''userType'', userType)])
      [js ''email'', js ''password'', js ''userType''] = Inr validation \<longrightarrow>
    isValid validation \<longrightarrow>
    isNormal (loginSubmit st) \<and>
    currentUser (stateOf (loginSubmit st)) = currentUser st \<and>
    (1000, LoginComplete email userType) \<in> set (timers (stateOf (loginSubmit st))) \<and>
    (\<forall>ev1 st1. currentUser (stateOf (runTask ev1 (LoginComplete email userType) st1)) =
       Some \<lparr>u_name = (if userType = Some (js ''admin'') then js ''Admin User''
                        else js ''Carl Kitusa''),
             u_email = email, u_type = userType\<rparr>)) \<and>
   (valueTrim (js ''regName'') st = Some name \<longrightarrow>
    valueTrim (js ''regEmail'') st = Some email \<longrightarrow>
    valueTrim (js ''regPassword'') st = Some password \<longrightarrow>
    valueOf (js ''regUserType'') st = Some userType \<longrightarrow>
    validateForm
      (obj [(js ''name'', Some name), (js ''email'', Some email),
            (js ''password'', Some password), (js ''userType'', userType)])
      [js ''name'', js ''email'', js ''password'', js ''userType''] = Inr validation \<longrightarrow>
    isValid validation \<longrightarrow>
    isNormal (registerSubmit st) \<and>
    currentUser (stateOf (registerSubmit st)) = currentUser st \<and>
    (1000, RegisterComplete name email userType) \<in> set (timers (stateOf (registerSubmit st))) \<and>
    (\<forall>ev1 st1. currentUser (stateOf (runTask ev1 (RegisterComplete name email userType) st1)) =
       Some \<lparr>u_name = name, u_email = email, u_type = userType\<rparr>)) \<and>
   currentUser (stateOf (logout ev True st)) = None \<and>
   ((\<forall>f\<in>set [js ''loginForm'', js ''registerForm'', js ''announcementForm'', js ''eventForm'',
            js ''scheduleForm'', js ''userForm'']. \<exists>e. elems st f = Some e \<and> el_isForm e) \<longrightarrow>
    (\<forall>i e. elems st i = Some e \<longrightarrow>
       el_form e \<in> Some ` set [js ''loginForm'', js ''registerForm'', js ''announcementForm'',
            js ''eventForm'', js ''scheduleForm'', js ''userForm''] \<longrightarrow>
       el_value e \<noteq> None \<longrightarrow>
       valueOf i (stateOf (logout ev True st)) = Some (Some (el_default e))))"
proof (intro conjI impI allI)
  assume r: "valueTrim (js ''loginEmail'') st = Some email"
    "valueTrim (js ''loginPassword'') st = Some password"
    "valueOf (js ''loginUserType'') st = Some userType"
    and e: "validateForm
      (obj [(js ''email'', Some email), (js ''password'', Some password),
            (js ''userType'', userType)])
      [js ''email'', js ''password'', js ''userType''] = Inr validation"
    and v0: "isValid validation"
  have v: "isValid (validateOwn
      (obj [(js ''email'', Some email), (js ''password'', Some password),
            (js ''userType'', userType)])
      [js ''email'', js ''password'', js ''userType''])"
    using e v0 by (simp add: validateForm_lists)
  note s = loginSubmit_valid [OF r v]
  show "isNormal (loginSubmit st)" by (simp add: s)
  show "currentUser (stateOf (loginSubmit st)) = currentUser st"
    by (simp add: s submitted_frame)
  show "(1000, LoginComplete email userType) \<in> set (timers (stateOf (loginSubmit st)))"
    by (simp add: s submitted_frame)
next
  fix ev1 st1
  show "currentUser (stateOf (runTask ev1 (LoginComplete email userType) st1)) =
       Some \<lparr>u_name = (if userType = Some (js ''admin'') then js ''Admin User''
                        else js ''Carl Kitusa''),
             u_email = email, u_type = userType\<rparr>"
    by (simp add: runTask_def loginComplete_currentUser)
next
  assume r: "valueTrim (js ''regName'') st = Some name"
    "valueTrim (js ''regEmail'') st = Some email"
    "valueTrim (js ''regPassword'') st = Some password"
    "valueOf (js ''regUserType'') st = Some userType"
    and e: "validateForm
      (obj [(js ''name'', Some name), (js ''email'', Some email),
            (js ''password'', Some password), (js ''userType'', userType)])
      [js ''name'', js ''email'', js ''password'', js ''userType''] = Inr validation"
    and v0: "isValid validation"
  have v: "isValid (validateOwn
      (obj [(js ''name'', Some name), (js ''email'', Some email),
            (js ''password'', Some password), (js ''userType'', userType)])
      [js ''name'', js ''email'', js ''password'', js ''userType''])"
    using e v0 by (simp add: validateForm_lists)
  note s = registerSubmit_valid [OF r v]
  show "isNormal (registerSubmit st)" by (simp add: s)
  show "currentUser (stateOf (registerSubmit st)) = currentUser st"
    by (simp add: s submitted_frame)
  show "(1000, RegisterComplete name email userType) \<in> set (timers (stateOf (registerSubmit st)))"
    by (simp add: s submitted_frame)
next
  fix ev1 st1
  show "currentUser (stateOf (runTask ev1 (RegisterComplete name email userType) st1)) =
       Some \<lparr>u_name = name, u_email = email, u_type = userType\<rparr>"
    by (simp add: runTask_def registerComplete_currentUser)
next
  show "currentUser (stateOf (logout ev True st)) = None"
    by (rule logout_currentUser)
next
  fix i e
  assume "\<forall>f\<in>set [js ''loginForm'', js ''registerForm'', js ''announcementForm'', js ''eventForm'',
            js ''scheduleForm'', js ''userForm'']. \<exists>e. elems st f = Some e \<and> el_isForm e"
  then have n: "isNormal (clearForms st)"
    by (simp only: forms_clearForms)
  assume "elems st i = Some e"
    and "el_form e \<in> Some ` set [js ''loginForm'', js ''registerForm'', js ''announcementForm'',
            js ''eventForm'', js ''scheduleForm'', js ''userForm'']"
    and "el_value e \<noteq> None"
  with n show "valueOf i (stateOf (logout ev True st)) = Some (Some (el_default e))"
    by (rule logout_resets)
qed

theorem login_register_logout_witness:
  "\<forall>ev.
     isNormal (loginSubmit (typeLogin (exampleState 0))) \<and>
     currentUser (stateOf (loginSubmit (typeLogin (exampleState 0)))) = None \<and>
     currentUser (stateOf (runTask ev (LoginComplete (js ''a@b.com'') (Some (js ''student'')))
        (stateOf (loginSubmit (typeLogin (exampleState 0)))))) =
       Some \<lparr>u_name = js ''Carl Kitusa'', u_email = js ''a@b.com'',
             u_type = Some (js ''student'')\<rparr> \<and>
     isNormal (registerSubmit (typeRegister (exampleState 0))) \<and>
     currentUser (stateOf (runTask ev
        (RegisterComplete (js ''Ann'') (js ''a@b.com'') (Some (js ''student'')))
        (stateOf (registerSubmit (typeRegister (exampleState 0)))))) =
       Some \<lparr>u_name = js ''Ann'', u_email = js ''a@b.com'', u_type = Some (js ''student'')\<rparr> \<and>
     currentUser (stateOf (logout ev True
        (loggedIn ''Carl Kitusa'' ''a@b.com'' ''student'' (typeLogin (exampleState 0))))) = None \<and>
     valueOf (js ''loginEmail'') (stateOf (logout ev True
        (loggedIn ''Carl Kitusa'' ''a@b.com'' ''student'' (typeLogin (exampleState 0))))) =
       Some (Some [])"
proof
  fix ev :: env
  let ?L = "typeLogin (exampleState 0)"
  let ?G = "typeRegister (exampleState 0)"
  let ?S = "loggedIn ''Carl Kitusa'' ''a@b.com'' ''student'' (typeLogin (exampleState 0))"
  let ?Ma = "obj [(js ''email'', Some (js ''a@b.com'')), (js ''password'', Some (js ''12345678'')),
           (js ''userType'', Some (js ''student''))]"
  let ?Ra = "[js ''email'', js ''password'', js ''userType'']"
  let ?Mb = "obj [(js ''name'', Some (js ''Ann'')), (js ''email'', Some (js ''a@b.com'')),
           (js ''password'', Some (js ''12345678'')), (js ''userType'', Some (js ''student''))]"
  let ?Rb = "[js ''name'', js ''email'', js ''password'', js ''userType'']"
  have ql: "validateForm ?Ma ?Ra = Inr (validateOwn ?Ma ?Ra)"
    by (rule validateForm_lists)
  have qg: "validateForm ?Mb ?Rb = Inr (validateOwn ?Mb ?Rb)"
    by (rule validateForm_lists)
  note l = login_register_logout
    [where st = ?L and email = "js ''a@b.com''" and password = "js ''12345678''"
       and userType = "Some (js ''student'')" and validation = "validateOwn ?Ma ?Ra",
     THEN conjunct1, THEN mp, THEN mp, THEN mp, THEN mp, THEN mp,
     OF typeLogin_reads ql login_valid]
  note g = login_register_logout
    [where st = ?G and name = "js ''Ann''" and email = "js ''a@b.com''"
       and password = "js ''12345678''" and userType = "Some (js ''student'')"
       and validation = "validateOwn ?Mb ?Rb",
     THEN conjunct2, THEN conjunct1, THEN mp, THEN mp, THEN mp, THEN mp, THEN mp, THEN mp,
     OF typeRegister_reads qg register_valid]
  note o = login_register_logout [where st = ?S and ev = ev, THEN conjunct2, THEN conjunct2]
  have f: "\<forall>f\<in>set [js ''loginForm'', js ''registerForm'', js ''announcementForm'',
            js ''eventForm'', js ''scheduleForm'', js ''userForm''].
      \<exists>e. elems ?S f = Some e \<and> el_isForm e"
    using example_forms [of 0] by (simp add: typeLogin_other)
  have c: "elems ?S (js ''loginEmail'') =
     Some ((control ''loginForm'' [])\<lparr>el_value := Some (js ''a@b.com'')\<rparr>)"
    by (simp add: typed_login_email)
  have "valueOf (js ''loginEmail'') (stateOf (logout ev True ?S)) =
      Some (Some (el_default ((control ''loginForm'' [])\<lparr>el_value := Some (js ''a@b.com'')\<rparr>)))"
    by (rule o [THEN conjunct2, THEN mp, OF f, THEN spec, THEN spec, THEN mp, THEN mp,
          THEN mp, OF c])
       (simp_all add: control_def createElement_def)
  then have r: "valueOf (js ''loginEmail'') (stateOf (logout ev True ?S)) = Some (Some [])"
    by (simp add: control_def createElement_def)
  from l g o [THEN conjunct1] r
  show "isNormal (loginSubmit ?L) \<and>
     currentUser (stateOf (loginSubmit ?L)) = None \<and>
     currentUser (stateOf (runTask ev (LoginComplete (js ''a@b.com'') (Some (js ''student'')))
        (stateOf (loginSubmit ?L)))) =
       Some \<lparr>u_name = js ''Carl Kitusa'', u_email = js ''a@b.com'',
             u_type = Some (js ''student'')\<rparr> \<and>
     isNormal (registerSubmit ?G) \<and>
     currentUser (stateOf (runTask ev
        (RegisterComplete (js ''Ann'') (js ''a@b.com'') (Some (js ''student'')))
        (stateOf (registerSubmit ?G)))) =
       Some \<lparr>u_name = js ''Ann'', u_email = js ''a@b.com'', u_type = Some (js ''student'')\<rparr> \<and>
     currentUser (stateOf (logout ev True ?S)) = None \<and>
     valueOf (js ''loginEmail'') (stateOf (logout ev True ?S)) = Some (Some [])"
    by (simp add: typeLogin_def)
qed

text \<open>
  C5 (amended). While a user is logged in and the time since the last activity exceeds
  the session timeout (30 minutes in the application state the script starts with), the
  check asks whether to log in again. A visitor who declines, or who accepts and then
  declines the confirmation that \<open>logout\<close> asks for, leaves the state as it is. A
  visitor who accepts both is logged out: the current user becomes absent; on a page that
  has the six forms every control of the six forms takes its default value again; and on
  a page that also has the elements \<open>logout\<close> writes to, the check ends normally, the
  current section is \<open>home\<close>, the section \<open>home\<close> is shown and every other section is
  hidden.
\<close>

theorem session_timeout_logout:
  "sessionTimeout (initialAppState ev) = 30 * 60 * 1000 \<and>
   (currentUser st \<noteq> None \<longrightarrow>
    sessionTimeout (appState st) < now ev - lastActivity (appState st) \<longrightarrow>
      checkSessionTimeout ev False confirmed st = Normal st \<and>
      checkSessionTimeout ev True False st = Normal st \<and>
      currentUser (stateOf (checkSessionTimeout ev True True st)) = None \<and>
      ((\<forall>f\<in>set [js ''loginForm'', js ''registerForm'', js ''announcementForm'',
            js ''eventForm'', js ''scheduleForm'', js ''userForm''].
          \<exists>e. elems st f = Some e \<and> el_isForm e) \<longrightarrow>
       (\<forall>i e. elems st i = Some e \<longrightarrow>
          el_form e \<in> Some ` set [js ''loginForm'', js ''registerForm'',
            js ''announcementForm'', js ''eventForm'', js ''scheduleForm'', js ''userForm''] \<longrightarrow>
          el_value e \<noteq> None \<longrightarrow>
          valueOf i (stateOf (checkSessionTimeout ev True True st)) =
            Some (Some (el_default e))) \<and>
       (elems st (js ''authButtons'') \<noteq> None \<longrightarrow>
        elems st (js ''heroButtons'') \<noteq> None \<longrightarrow>
        elems st (js ''main-nav'') \<noteq> None \<longrightarrow>
        firstIndex (hasClass (js ''mobile-menu'')) (anon st) \<noteq> None \<longrightarrow>
        (elems st (js ''home'') \<noteq> None \<longrightarrow> navQuery st (js ''home'') \<noteq> QuerySyntaxError) \<longrightarrow>
        isNormal (checkSessionTimeout ev True True st) \<and>
        currentSection (appState (stateOf (checkSessionTimeout ev True True st))) =
          js ''home'' \<and>
        (\<forall>j e. elems st j = Some e \<longrightarrow> el_section e \<longrightarrow>
           hiddenOf j (stateOf (checkSessionTimeout ev True True st)) =
             Some (j \<noteq> js ''home'')))))"
proof (intro conjI impI)
  show "sessionTimeout (initialAppState ev) = 30 * 60 * 1000"
    by (simp add: initialAppState_def)
next
  assume u: "currentUser st \<noteq> None"
    and t: "sessionTimeout (appState st) < now ev - lastActivity (appState st)"
  note x = checkSessionTimeout_expired [OF u t]
  show "checkSessionTimeout ev False confirmed st = Normal st"
    by (simp add: x)
  show "checkSessionTimeout ev True False st = Normal st"
    by (simp add: x logout_declined)
  show "currentUser (stateOf (checkSessionTimeout ev True True st)) = None"
    by (simp add: x logout_currentUser)
  assume "\<forall>f\<in>set [js ''loginForm'', js ''registerForm'', js ''announcementForm'',
            js ''eventForm'', js ''scheduleForm'', js ''userForm''].
          \<exists>e. elems st f = Some e \<and> el_isForm e"
  then have n: "isNormal (clearForms st)"
    by (simp only: forms_clearForms)
  show "\<forall>i e. elems st i = Some e \<longrightarrow>
          el_form e \<in> Some ` set [js ''loginForm'', js ''registerForm'',
            js ''announcementForm'', js ''eventForm'', js ''scheduleForm'', js ''userForm''] \<longrightarrow>
          el_value e \<noteq> None \<longrightarrow>
          valueOf i (stateOf (checkSessionTimeout ev True True st)) =
            Some (Some (el_default e))"
    unfolding x if_True by (intro allI impI) (rule logout_resets [OF n])
  assume p: "elems st (js ''authButtons'') \<noteq> None" "elems st (js ''heroButtons'') \<noteq> None"
    "elems st (js ''main-nav'') \<noteq> None"
    "firstIndex (hasClass (js ''mobile-menu'')) (anon st) \<noteq> None"
    "elems st (js ''home'') \<noteq> None \<longrightarrow> navQuery st (js ''home'') \<noteq> QuerySyntaxError"
  note l = logout_page [OF n p, of ev]
  from l show "isNormal (checkSessionTimeout ev True True st)"
    unfolding x if_True by (rule conjunct1)
  show "currentSection (appState (stateOf (checkSessionTimeout ev True True st))) =
          js ''home''"
    unfolding x if_True by (rule l [THEN conjunct2, THEN conjunct1])
  show "\<forall>j e. elems st j = Some e \<longrightarrow> el_section e \<longrightarrow>
           hiddenOf j (stateOf (checkSessionTimeout ev True True st)) =
             Some (j \<noteq> js ''home'')"
    unfolding x if_True by (rule l [THEN conjunct2, THEN conjunct2])
qed

theorem session_timeout_logout_witness:
  "\<forall>ev.
     currentUser (stateOf (checkSessionTimeout (ev\<lparr>now := 1800001\<rparr>) True True
        (showingDashboard (loggedIn ''Carl Kitusa'' ''a@b.com'' ''student''
           (typeLogin (exampleState 0)))))) = None \<and>
     isNormal (checkSessionTimeout (ev\<lparr>now := 1800001\<rparr>) True True
        (showingDashboard (loggedIn ''Carl Kitusa'' ''a@b.com'' ''student''
           (typeLogin (exampleState 0))))) \<and>
     currentSection (appState (stateOf (checkSessionTimeout (ev\<lparr>now := 1800001\<rparr>) True True
        (showingDashboard (loggedIn ''Carl Kitusa'' ''a@b.com'' ''student''
           (typeLogin (exampleState 0))))))) = js ''home'' \<and>
     valueOf (js ''loginEmail'') (stateOf (checkSessionTimeout (ev\<lparr>now := 1800001\<rparr>) True True
        (showingDashboard (loggedIn ''Carl Kitusa'' ''a@b.com'' ''student''
           (typeLogin (exampleState 0)))))) = Some (Some []) \<and>
     hiddenOf (js ''home'') (stateOf (checkSessionTimeout (ev\<lparr>now := 1800001\<rparr>) True True
        (showingDashboard (loggedIn ''Carl Kitusa'' ''a@b.com'' ''student''
           (typeLogin (exampleState 0)))))) = Some False \<and>
     hiddenOf (js ''dashboard'') (stateOf (checkSessionTimeout (ev\<lparr>now := 1800001\<rparr>) True True
        (showingDashboard (loggedIn ''Carl Kitusa'' ''a@b.com'' ''student''
           (typeLogin (exampleState 0)))))) = Some True"
proof
  fix ev :: env
  let ?ev = "ev\<lparr>now := 1800001\<rparr>"
  let ?S = "showingDashboard (loggedIn ''Carl Kitusa'' ''a@b.com'' ''student''
           (typeLogin (exampleState 0)))"
  let ?r = "checkSessionTimeout ?ev True True ?S"
  have u: "currentUser ?S \<noteq> None" by simp
  have t: "sessionTimeout (appState ?S) < now ?ev - lastActivity (appState ?S)"
    by (simp add: exampleState_def)
  note w = session_timeout_logout [where st = ?S and ev = ?ev, THEN conjunct2, THEN mp,
    THEN mp, OF u t]
  have f: "\<forall>f\<in>set [js ''loginForm'', js ''registerForm'', js ''announcementForm'',
            js ''eventForm'', js ''scheduleForm'', js ''userForm''].
      \<exists>e. elems ?S f = Some e \<and> el_isForm e"
    using example_forms [of 0] by (simp add: typeLogin_other)
  note w1 = w [THEN conjunct2, THEN conjunct2, THEN conjunct2, THEN mp, OF f]
  have c: "elems ?S (js ''loginEmail'') =
     Some ((control ''loginForm'' [])\<lparr>el_value := Some (js ''a@b.com'')\<rparr>)"
    by (simp add: typed_login_email)
  have "valueOf (js ''loginEmail'') (stateOf ?r) =
      Some (Some (el_default ((control ''loginForm'' [])\<lparr>el_value := Some (js ''a@b.com'')\<rparr>)))"
    by (rule w1 [THEN conjunct1, THEN spec, THEN spec, THEN mp, THEN mp, THEN mp, OF c])
       (simp_all add: control_def createElement_def)
  then have v: "valueOf (js ''loginEmail'') (stateOf ?r) = Some (Some [])"
    by (simp add: control_def createElement_def)
  have p: "elems ?S (js ''authButtons'') \<noteq> None" "elems ?S (js ''heroButtons'') \<noteq> None"
    "elems ?S (js ''main-nav'') \<noteq> None"
    "firstIndex (hasClass (js ''mobile-menu'')) (anon ?S) \<noteq> None"
    "elems ?S (js ''home'') \<noteq> None \<longrightarrow> navQuery ?S (js ''home'') \<noteq> QuerySyntaxError"
    by (simp_all add: typeLogin_other example_elems example_menu exampleNavQuery_valid)
  note w2 = w1 [THEN conjunct2, THEN mp, THEN mp, THEN mp, THEN mp, THEN mp, OF p]
  have h: "elems ?S (js ''home'') = Some (sectionElement True)"
    "elems ?S (js ''dashboard'') = Some (sectionElement False)"
    by simp_all
  have s: "el_section (sectionElement b)" for b
    by (simp add: sectionElement_def)
  have hh: "hiddenOf (js ''home'') (stateOf ?r) = Some (js ''home'' \<noteq> js ''home'')"
    by (rule w2 [THEN conjunct2, THEN conjunct2, THEN spec, THEN spec, THEN mp, THEN mp,
          OF h(1) s])
  have hd: "hiddenOf (js ''dashboard'') (stateOf ?r) = Some (js ''dashboard'' \<noteq> js ''home'')"
    by (rule w2 [THEN conjunct2, THEN conjunct2, THEN spec, THEN spec, THEN mp, THEN mp,
          OF h(2) s])
  from w [THEN conjunct2, THEN conjunct2, THEN conjunct1] w2 [THEN conjunct1]
    w2 [THEN conjunct2, THEN conjunct1] v hh hd
  show "currentUser (stateOf ?r) = None \<and> isNormal ?r \<and>
     currentSection (appState (stateOf ?r)) = js ''home'' \<and>
     valueOf (js ''loginEmail'') (stateOf ?r) = Some (Some []) \<and>
     hiddenOf (js ''home'') (stateOf ?r) = Some False \<and>
     hiddenOf (js ''dashboard'') (stateOf ?r) = Some True"
    by simp
qed

text \<open>
  C5 as stated fails: confirming the prompt of the check is not enough. \<open>logout\<close> asks
  for a confirmation of its own, and a visitor who declines it stays logged in although
  the session has timed out.
\<close>

theorem timeout_prompt_alone_keeps_user:
  "\<forall>ev.
     sessionTimeout (appState (loggedIn ''Carl Kitusa'' ''a@b.com'' ''student'' (exampleState 0))) <
       now (ev\<lparr>now := 1800001\<rparr>) -
       lastActivity (appState (loggedIn ''Carl Kitusa'' ''a@b.com'' ''student'' (exampleState 0))) \<and>
     currentUser (stateOf (checkSessionTimeout (ev\<lparr>now := 1800001\<rparr>) True False
        (loggedIn ''Carl Kitusa'' ''a@b.com'' ''student'' (exampleState 0)))) =
       Some \<lparr>u_name = js ''Carl Kitusa'', u_email = js ''a@b.com'',
             u_type = Some (js ''student'')\<rparr>"
  by (simp add: checkSessionTimeout_def logout_def Let_def exampleState_def loggedIn_def)

end
